(* ===== verification/Json.thy ===== *)
theory Json
  imports Prelude
begin

text \<open>
  JSON text as Go's \<open>encoding/json\<close> reads it. The client hands every response body to
  \<open>json.Unmarshal\<close>, which first checks that the whole input is one JSON value
  (\<open>checkValid\<close>) and then decodes it into the target. This theory holds the value
  datatype and the first half: a scanner from bytes to a value, with Go's rules for
  white space, numbers, string escapes (including surrogate pairs and the replacement
  of invalid UTF-8 by U+FFFD) and its nesting limit of 10000.
  The scanner is a recursive descent with a fuel argument; \<open>json_parse\<close> gives it
  more fuel than the input has bytes.
\<close>

datatype json =
    JNull
  | JBool bool
  | JNumber string  \<comment> \<open>the literal text of the number, as \<open>json.Number\<close> keeps it\<close>
  | JString string  \<comment> \<open>the unquoted bytes\<close>
  | JArray "json list"
  | JObject "(string \<times> json) list"  \<comment> \<open>members in input order, duplicates kept\<close>

text \<open>Go's \<open>maxNestingDepth\<close> in \<open>encoding/json/scanner.go\<close>.\<close>

definition max_nesting_depth :: nat where
  "max_nesting_depth = 10000"

subsection \<open>UTF-8\<close>

definition rune_error :: string where
  "rune_error = [CHR 0xEF, CHR 0xBF, CHR 0xBD]"

definition byte_in :: "char \<Rightarrow> nat \<Rightarrow> nat \<Rightarrow> bool" where
  "byte_in c lo hi \<longleftrightarrow> lo \<le> of_char c \<and> of_char c \<le> hi"

text \<open>
  Length of the well-formed UTF-8 sequence at the head of a string (Go's
  \<open>utf8.DecodeRune\<close>), 0 when the head byte does not start one.
\<close>

fun utf8_len :: "string \<Rightarrow> nat" where
  "utf8_len [] = 0"
| "utf8_len (c # cs) =
     (let b = (of_char c :: nat) in
      if 0xC2 \<le> b \<and> b \<le> 0xDF then
        (case cs of c1 # _ \<Rightarrow> if byte_in c1 0x80 0xBF then 2 else 0 | _ \<Rightarrow> 0)
      else if 0xE0 \<le> b \<and> b \<le> 0xEF then
        (case cs of
           c1 # c2 # _ \<Rightarrow>
             if byte_in c1 (if b = 0xE0 then 0xA0 else 0x80) (if b = 0xED then 0x9F else 0xBF)
                \<and> byte_in c2 0x80 0xBF then 3 else 0
         | _ \<Rightarrow> 0)
      else if 0xF0 \<le> b \<and> b \<le> 0xF4 then
        (case cs of
           c1 # c2 # c3 # _ \<Rightarrow>
             if byte_in c1 (if b = 0xF0 then 0x90 else 0x80) (if b = 0xF4 then 0x8F else 0xBF)
                \<and> byte_in c2 0x80 0xBF \<and> byte_in c3 0x80 0xBF then 4 else 0
         | _ \<Rightarrow> 0)
      else 0)"

text \<open>Go's \<open>utf8.EncodeRune\<close>: surrogates and values beyond U+10FFFF become U+FFFD.\<close>

definition utf8_encode :: "nat \<Rightarrow> string" where
  "utf8_encode r =
     (if r < 0x80 then [char_of r]
      else if r < 0x800 then [char_of (0xC0 + r div 64), char_of (0x80 + r mod 64)]
      else if (0xD800 \<le> r \<and> r < 0xE000) \<or> 0x10FFFF < r then rune_error
      else if r < 0x10000 then
        [char_of (0xE0 + r div 4096), char_of (0x80 + (r div 64) mod 64),
         char_of (0x80 + r mod 64)]
      else
        [char_of (0xF0 + r div 262144), char_of (0x80 + (r div 4096) mod 64),
         char_of (0x80 + (r div 64) mod 64), char_of (0x80 + r mod 64)])"

subsection \<open>Strings\<close>

fun hex_val :: "char \<Rightarrow> nat option" where
  "hex_val c =
     (let b = (of_char c :: nat) in
      if 48 \<le> b \<and> b \<le> 57 then Some (b - 48)
      else if 97 \<le> b \<and> b \<le> 102 then Some (b - 87)
      else if 65 \<le> b \<and> b \<le> 70 then Some (b - 55)
      else None)"

fun hex4 :: "string \<Rightarrow> nat option" where
  "hex4 (a # b # c # d # _) =
     (case (hex_val a, hex_val b, hex_val c, hex_val d) of
        (Some w, Some x, Some y, Some z) \<Rightarrow> Some (4096 * w + 256 * x + 16 * y + z)
      | _ \<Rightarrow> None)"
| "hex4 _ = None"

text \<open>Go's \<open>getu4\<close>: a following \<open>\u\<close> escape, as the low half of a surrogate pair.\<close>

fun next_u4 :: "string \<Rightarrow> nat option" where
  "next_u4 (a # b # r) = (if a = CHR 0x5C \<and> b = CHR ''u'' then hex4 r else None)"
| "next_u4 _ = None"

fun simple_escape :: "char \<Rightarrow> char option" where
  "simple_escape e =
     (if e = CHR 0x22 \<or> e = CHR 0x5C \<or> e = CHR ''/'' then Some e
      else if e = CHR ''b'' then Some (CHR 0x08)
      else if e = CHR ''f'' then Some (CHR 0x0C)
      else if e = CHR ''n'' then Some (CHR 0x0A)
      else if e = CHR ''r'' then Some (CHR 0x0D)
      else if e = CHR ''t'' then Some (CHR 0x09)
      else None)"

definition prepend :: "string \<Rightarrow> (string \<times> string) option \<Rightarrow> (string \<times> string) option" where
  "prepend p r = map_option (\<lambda>(d, rest). (p @ d, rest)) r"

text \<open>
  The body of a string literal after its opening quote: the unquoted bytes and the input
  after the closing quote (Go's scanner states \<open>stateInString*\<close> and \<open>unquoteBytes\<close>).
\<close>

function scan_string :: "string \<Rightarrow> (string \<times> string) option" where
  "scan_string [] = None"
| "scan_string (c # cs) =
     (if c = CHR 0x22 then Some ([], cs)
      else if c = CHR 0x5C then
        (case cs of
           [] \<Rightarrow> None
         | e # r \<Rightarrow>
             if e = CHR ''u'' then
               (case hex4 r of
                  None \<Rightarrow> None
                | Some u \<Rightarrow>
                    if 0xD800 \<le> u \<and> u < 0xE000 then
                      (case next_u4 (drop 4 r) of
                         Some u2 \<Rightarrow>
                           if u < 0xDC00 \<and> 0xDC00 \<le> u2 \<and> u2 < 0xE000 then
                             prepend (utf8_encode (0x10000 + (u - 0xD800) * 1024 + (u2 - 0xDC00)))
                               (scan_string (drop 10 r))
                           else prepend rune_error (scan_string (drop 4 r))
                       | None \<Rightarrow> prepend rune_error (scan_string (drop 4 r)))
                    else prepend (utf8_encode u) (scan_string (drop 4 r)))
             else
               (case simple_escape e of
                  None \<Rightarrow> None
                | Some d \<Rightarrow> prepend [d] (scan_string r)))
      else if (of_char c :: nat) < 32 then None
      else if (of_char c :: nat) < 128 then prepend [c] (scan_string cs)
      else
        (let n = utf8_len (c # cs) in
         if n = 0 then prepend rune_error (scan_string cs)
         else prepend (take n (c # cs)) (scan_string (drop n (c # cs)))))"
  by pat_completeness auto
termination
  by (relation "measure length") auto

subsection \<open>Numbers\<close>

text \<open>
  A number is \<open>-? (0 | [1-9][0-9]* ) (. [0-9]+)? ([eE] [+-]? [0-9]+)?\<close>; the scanner keeps
  its text.
\<close>

definition scan_int_part :: "string \<Rightarrow> (string \<times> string) option" where
  "scan_int_part s =
     (let (sg, r0) = (case s of c # r \<Rightarrow> if c = CHR ''-'' then ([c], r) else ([], s) | [] \<Rightarrow> ([], []))
      in case r0 of
           [] \<Rightarrow> None
         | c # r1 \<Rightarrow>
             if c = CHR ''0'' then Some (sg @ [c], r1)
             else if is_digit c then Some (sg @ c # takeWhile is_digit r1, dropWhile is_digit r1)
             else None)"

definition scan_frac :: "string \<Rightarrow> (string \<times> string) option" where
  "scan_frac s =
     (case s of
        c # r \<Rightarrow>
          if c = CHR ''.'' then
            (if takeWhile is_digit r = [] then None
             else Some (c # takeWhile is_digit r, dropWhile is_digit r))
          else Some ([], s)
      | [] \<Rightarrow> Some ([], []))"

definition scan_exp :: "string \<Rightarrow> (string \<times> string) option" where
  "scan_exp s =
     (case s of
        c # r \<Rightarrow>
          if c = CHR ''e'' \<or> c = CHR ''E'' then
            (let (sg, r1) = (case r of d # r' \<Rightarrow> if d = CHR ''+'' \<or> d = CHR ''-'' then ([d], r') else ([], r)
                                     | [] \<Rightarrow> ([], []))
             in if takeWhile is_digit r1 = [] then None
                else Some (c # sg @ takeWhile is_digit r1, dropWhile is_digit r1))
          else Some ([], s)
      | [] \<Rightarrow> Some ([], []))"

definition scan_number :: "string \<Rightarrow> (string \<times> string) option" where
  "scan_number s =
     (case scan_int_part s of
        None \<Rightarrow> None
      | Some (i, r1) \<Rightarrow>
          (case scan_frac r1 of
             None \<Rightarrow> None
           | Some (f, r2) \<Rightarrow>
               (case scan_exp r2 of
                  None \<Rightarrow> None
                | Some (e, r3) \<Rightarrow> Some (i @ f @ e, r3))))"

subsection \<open>Values\<close>

text \<open>
  \<open>parse_value n d s\<close> reads one value from \<open>s\<close> at nesting depth \<open>d\<close> with fuel
  \<open>n\<close>; \<open>parse_elements\<close> reads the elements of an array after \<open>[\<close> up to and
  including \<open>]\<close>, \<open>parse_members\<close> the members of an object after \<open>{\<close> up to and
  including \<open>}\<close>. Entering an array or object at depth 10000 fails, as Go's
  \<open>pushParseState\<close> does.
\<close>

fun parse_value :: "nat \<Rightarrow> nat \<Rightarrow> string \<Rightarrow> (json \<times> string) option"
and parse_elements :: "nat \<Rightarrow> nat \<Rightarrow> string \<Rightarrow> (json list \<times> string) option"
and parse_members :: "nat \<Rightarrow> nat \<Rightarrow> string \<Rightarrow> ((string \<times> json) list \<times> string) option"
where
  "parse_value 0 d s = None"
| "parse_value (Suc n) d s =
     (case skip_ws s of
        [] \<Rightarrow> None
      | c # r \<Rightarrow>
          if c = CHR ''{'' then
            (if max_nesting_depth \<le> d then None
             else (case skip_ws r of
                     [] \<Rightarrow> None
                   | c' # r' \<Rightarrow>
                       if c' = CHR ''}'' then Some (JObject [], r')
                       else map_option (\<lambda>(ms, t). (JObject ms, t)) (parse_members n (Suc d) r)))
          else if c = CHR ''['' then
            (if max_nesting_depth \<le> d then None
             else (case skip_ws r of
                     [] \<Rightarrow> None
                   | c' # r' \<Rightarrow>
                       if c' = CHR '']'' then Some (JArray [], r')
                       else map_option (\<lambda>(vs, t). (JArray vs, t)) (parse_elements n (Suc d) r)))
          else if c = CHR 0x22 then map_option (\<lambda>(str, t). (JString str, t)) (scan_string r)
          else if c = CHR ''t'' then (if take 3 r = ''rue'' then Some (JBool True, drop 3 r) else None)
          else if c = CHR ''f'' then (if take 4 r = ''alse'' then Some (JBool False, drop 4 r) else None)
          else if c = CHR ''n'' then (if take 3 r = ''ull'' then Some (JNull, drop 3 r) else None)
          else map_option (\<lambda>(lit, t). (JNumber lit, t)) (scan_number (c # r)))"
| "parse_elements 0 d s = None"
| "parse_elements (Suc n) d s =
     (case parse_value n d s of
        None \<Rightarrow> None
      | Some (v, r) \<Rightarrow>
          (case skip_ws r of
             [] \<Rightarrow> None
           | c # t \<Rightarrow>
               if c = CHR '','' then map_option (\<lambda>(vs, u). (v # vs, u)) (parse_elements n d t)
               else if c = CHR '']'' then Some ([v], t)
               else None))"
| "parse_members 0 d s = None"
| "parse_members (Suc n) d s =
     (case skip_ws s of
        [] \<Rightarrow> None
      | c # r \<Rightarrow>
          if c \<noteq> CHR 0x22 then None
          else
            (case scan_string r of
               None \<Rightarrow> None
             | Some (k, r1) \<Rightarrow>
                 (case skip_ws r1 of
                    [] \<Rightarrow> None
                  | c1 # r2 \<Rightarrow>
                      if c1 \<noteq> CHR '':'' then None
                      else
                        (case parse_value n d r2 of
                           None \<Rightarrow> None
                         | Some (v, r3) \<Rightarrow>
                             (case skip_ws r3 of
                                [] \<Rightarrow> None
                              | c3 # r4 \<Rightarrow>
                                  if c3 = CHR '','' then
                                    map_option (\<lambda>(ms, u). ((k, v) # ms, u)) (parse_members n d r4)
                                  else if c3 = CHR ''}'' then Some ([(k, v)], r4)
                                  else None)))))"

text \<open>
  The whole input must be one value surrounded by white space only (Go's
  \<open>checkValid\<close>); \<open>None\<close> is Go's \<open>SyntaxError\<close>.
\<close>

definition json_parse :: "string \<Rightarrow> json option" where
  "json_parse s =
     (case parse_value (Suc (2 * length s)) 0 s of
        None \<Rightarrow> None
      | Some (v, r) \<Rightarrow> if skip_ws r = [] then Some v else None)"

end
