(* ===== verification/GoJson.thy ===== *)
theory GoJson
  imports Json
begin

text \<open>
  The second half of Go's \<open>encoding/json\<close> as the client uses it.
  \<^item> Decoding (\<open>decode.go\<close>): a decoder of a Go type reads a JSON value into the
    current value of a variable, because Go decodes into an existing value: \<open>null\<close>
    leaves a string, number or bool unchanged, sets a slice, map or pointer to nil;
    a struct takes its members in input order, matching the member name to a field by
    exact name first and then case-insensitively (\<open>foldName\<close>), ignoring unknown
    members; the first type mismatch is the error.
  \<^item> Encoding (\<open>encode.go\<close>): struct fields in declaration order, \<open>omitempty\<close>
    fields left out when empty, map keys sorted, and the encoder's string escaping
    (HTML characters, control bytes, invalid UTF-8, U+2028/U+2029).
\<close>

datatype json_error =
    SyntaxError
  | UnmarshalTypeError string  \<comment> \<open>the kind of the offending JSON value\<close>
  | TimeParseError
  | UnsupportedTypeError string  \<comment> \<open>\<open>json.Marshal\<close> of a channel, function or complex value\<close>

type_synonym 'a decoder = "json \<Rightarrow> 'a \<Rightarrow> json_error + 'a"

fun json_kind :: "json \<Rightarrow> string" where
  "json_kind JNull = ''null''"
| "json_kind (JBool _) = ''bool''"
| "json_kind (JNumber l) = ''number '' @ l"
| "json_kind (JString _) = ''string''"
| "json_kind (JArray _) = ''array''"
| "json_kind (JObject _) = ''object''"

subsection \<open>Scalars\<close>

definition dec_string :: "string decoder" where
  "dec_string j cur =
     (case j of JNull \<Rightarrow> Inr cur | JString s \<Rightarrow> Inr s | _ \<Rightarrow> Inl (UnmarshalTypeError (json_kind j)))"

definition dec_bool :: "bool decoder" where
  "dec_bool j cur =
     (case j of JNull \<Rightarrow> Inr cur | JBool b \<Rightarrow> Inr b | _ \<Rightarrow> Inl (UnmarshalTypeError (json_kind j)))"

text \<open>
  \<open>strconv.ParseInt(lit, 10, 64)\<close> on a scanned number: only an optional minus sign and
  digits, and the value within \<open>int64\<close>.
\<close>

definition int_of_lit :: "string \<Rightarrow> int option" where
  "int_of_lit l =
     (case l of
        [] \<Rightarrow> None
      | c # ds \<Rightarrow>
          if c = CHR ''-'' then
            (if ds \<noteq> [] \<and> list_all is_digit ds then Some (- int (nat_of_digits ds)) else None)
          else if list_all is_digit l then Some (int (nat_of_digits l))
          else None)"

definition int64_of_lit :: "string \<Rightarrow> goint option" where
  "int64_of_lit l =
     (case int_of_lit l of
        None \<Rightarrow> None
      | Some i \<Rightarrow> if - (2 ^ 63) \<le> i \<and> i < 2 ^ 63 then Some (word_of_int i) else None)"

definition dec_int :: "goint decoder" where
  "dec_int j cur =
     (case j of
        JNull \<Rightarrow> Inr cur
      | JNumber l \<Rightarrow>
          (case int64_of_lit l of None \<Rightarrow> Inl (UnmarshalTypeError (json_kind j)) | Some w \<Rightarrow> Inr w)
      | _ \<Rightarrow> Inl (UnmarshalTypeError (json_kind j)))"

text \<open>
  \<open>strconv.ParseFloat(lit, 64)\<close> fails only on overflow: a value whose magnitude is at
  least the midpoint \<open>2^1024 - 2^970\<close> between the largest double and \<open>2^1024\<close>
  rounds to infinity. A float64 field keeps the literal; its rounding to a double is not
  modelled (no claim reads it).
\<close>

type_synonym float64 = string

definition float_overflow_bound :: int where
  "float_overflow_bound = 2 ^ 1024 - 2 ^ 970"

definition exp_of_lit :: "string \<Rightarrow> int" where
  "exp_of_lit e =
     (case e of
        [] \<Rightarrow> 0
      | c # r \<Rightarrow>
          if c = CHR ''-'' then - int (nat_of_digits r)
          else if c = CHR ''+'' then int (nat_of_digits r)
          else int (nat_of_digits e))"

definition float_in_range :: "string \<Rightarrow> bool" where
  "float_in_range l =
     (let u = (case l of c # r \<Rightarrow> if c = CHR ''-'' then r else l | [] \<Rightarrow> []);
          ip = takeWhile is_digit u;
          r1 = dropWhile is_digit u;
          fp = (case r1 of c # r \<Rightarrow> if c = CHR ''.'' then takeWhile is_digit r else [] | [] \<Rightarrow> []);
          r2 = (case r1 of c # r \<Rightarrow> if c = CHR ''.'' then dropWhile is_digit r else r1 | [] \<Rightarrow> []);
          ex = (case r2 of c # r \<Rightarrow> exp_of_lit r | [] \<Rightarrow> 0) - int (length fp);
          m = int (nat_of_digits (ip @ fp))
      in if 0 \<le> ex then m * 10 ^ nat ex < float_overflow_bound
         else m < float_overflow_bound * 10 ^ nat (- ex))"

definition dec_float :: "float64 decoder" where
  "dec_float j cur =
     (case j of
        JNull \<Rightarrow> Inr cur
      | JNumber l \<Rightarrow> if float_in_range l then Inr l else Inl (UnmarshalTypeError (json_kind j))
      | _ \<Rightarrow> Inl (UnmarshalTypeError (json_kind j)))"

text \<open>
  \<open>json.RawMessage\<close> keeps the raw text of any value, \<open>null\<close> included; \<open>None\<close> is a
  nil RawMessage (the member was absent). The text is only ever decoded again, so the
  parsed value stands for it.
\<close>

type_synonym raw_message = "json option"

definition dec_raw :: "raw_message decoder" where
  "dec_raw j cur = Inr (Some j)"

subsection \<open>Slices, pointers and maps\<close>

text \<open>
  A Go slice is \<open>None\<close> (nil) or \<open>Some\<close> of its elements. Go decodes element \<open>i\<close> of
  an array into element \<open>i\<close> of the current slice where there is one and into a zero
  element otherwise, and an empty array gives an empty non-nil slice.
\<close>

type_synonym 'a slice = "'a list option"

fun dec_elems :: "'a \<Rightarrow> 'a decoder \<Rightarrow> json list \<Rightarrow> 'a list \<Rightarrow> json_error + 'a list" where
  "dec_elems z d [] old = Inr []"
| "dec_elems z d (v # vs) old =
     (case d v (case old of [] \<Rightarrow> z | x # _ \<Rightarrow> x) of
        Inl e \<Rightarrow> Inl e
      | Inr x \<Rightarrow> (case dec_elems z d vs (drop 1 old) of Inl e \<Rightarrow> Inl e | Inr xs \<Rightarrow> Inr (x # xs)))"

definition dec_slice :: "'a \<Rightarrow> 'a decoder \<Rightarrow> 'a slice decoder" where
  "dec_slice z d j cur =
     (case j of
        JNull \<Rightarrow> Inr None
      | JArray vs \<Rightarrow>
          (case dec_elems z d vs (case cur of None \<Rightarrow> [] | Some xs \<Rightarrow> xs) of
             Inl e \<Rightarrow> Inl e
           | Inr xs \<Rightarrow> Inr (Some xs))
      | _ \<Rightarrow> Inl (UnmarshalTypeError (json_kind j)))"

text \<open>A pointer: \<open>null\<close> sets it to nil; a value is decoded into the pointee, allocated
  if the pointer was nil.\<close>

definition dec_ptr :: "'a \<Rightarrow> 'a decoder \<Rightarrow> 'a option decoder" where
  "dec_ptr z d j cur =
     (case j of
        JNull \<Rightarrow> Inr None
      | _ \<Rightarrow> (case d j (case cur of None \<Rightarrow> z | Some x \<Rightarrow> x) of Inl e \<Rightarrow> Inl e | Inr x \<Rightarrow> Inr (Some x)))"

text \<open>
  \<open>map[string]string\<close>: \<open>None\<close> is the nil map. An object is decoded into the current
  map (made if nil), each member's value into a zero element and stored under the key,
  so a later duplicate key wins.
\<close>

type_synonym 'v gomap = "(string, 'v) mapping option"

fun dec_map_members :: "'v \<Rightarrow> 'v decoder \<Rightarrow> (string \<times> json) list \<Rightarrow> (string, 'v) mapping
    \<Rightarrow> json_error + (string, 'v) mapping" where
  "dec_map_members z d [] m = Inr m"
| "dec_map_members z d ((k, v) # ms) m =
     (case d v z of Inl e \<Rightarrow> Inl e | Inr x \<Rightarrow> dec_map_members z d ms (Mapping.update k x m))"

definition dec_map :: "'v \<Rightarrow> 'v decoder \<Rightarrow> 'v gomap decoder" where
  "dec_map z d j cur =
     (case j of
        JNull \<Rightarrow> Inr None
      | JObject ms \<Rightarrow>
          (case dec_map_members z d ms (case cur of None \<Rightarrow> Mapping.empty | Some m \<Rightarrow> m) of
             Inl e \<Rightarrow> Inl e
           | Inr m \<Rightarrow> Inr (Some m))
      | _ \<Rightarrow> Inl (UnmarshalTypeError (json_kind j)))"

subsection \<open>Structs\<close>

text \<open>
  Go's \<open>foldName\<close>: ASCII letters to upper case and every other rune to the least rune
  of its case-folding orbit. Against the ASCII field names of the client the only
  non-ASCII runes that matter are U+017F (long s, folds to \<open>S\<close>) and U+212A (Kelvin
  sign, folds to \<open>K\<close>); every other byte at or above 0x80 folds to a non-ASCII rune and
  is kept, which decides the comparison with an ASCII name the same way.
\<close>

function fold_name :: "string \<Rightarrow> string" where
  "fold_name [] = []"
| "fold_name (c # cs) =
     (if c = CHR 0xC5 \<and> take 1 cs = [CHR 0xBF] then CHR ''S'' # fold_name (drop 1 cs)
      else if c = CHR 0xE2 \<and> take 2 cs = [CHR 0x84, CHR 0xAA] then CHR ''K'' # fold_name (drop 2 cs)
      else if byte_in c 97 122 then char_of (of_char c - (32::nat)) # fold_name cs
      else c # fold_name cs)"
  by pat_completeness auto
termination
  by (relation "measure length") auto

declare fold_name.simps [simp del]

text \<open>A struct field: its JSON name and how a member value updates the struct.\<close>

type_synonym 'r field = "string \<times> 'r decoder"

definition field :: "string \<Rightarrow> ('r \<Rightarrow> 'a) \<Rightarrow> (('a \<Rightarrow> 'a) \<Rightarrow> 'r \<Rightarrow> 'r) \<Rightarrow> 'a decoder \<Rightarrow> 'r field" where
  "field name get upd d = (name, \<lambda>j r. case d j (get r) of Inl e \<Rightarrow> Inl e | Inr x \<Rightarrow> Inr (upd (\<lambda>_. x) r))"

definition field_lookup :: "'r field list \<Rightarrow> string \<Rightarrow> 'r decoder option" where
  "field_lookup fs k =
     (case find (\<lambda>f. fst f = k) fs of
        Some f \<Rightarrow> Some (snd f)
      | None \<Rightarrow> map_option snd (find (\<lambda>f. fold_name (fst f) = fold_name k) fs))"

fun dec_members :: "'r field list \<Rightarrow> (string \<times> json) list \<Rightarrow> 'r \<Rightarrow> json_error + 'r" where
  "dec_members fs [] r = Inr r"
| "dec_members fs ((k, v) # ms) r =
     (case field_lookup fs k of
        None \<Rightarrow> dec_members fs ms r
      | Some d \<Rightarrow> (case d v r of Inl e \<Rightarrow> Inl e | Inr r' \<Rightarrow> dec_members fs ms r'))"

definition dec_struct :: "'r field list \<Rightarrow> 'r decoder" where
  "dec_struct fs j r =
     (case j of
        JNull \<Rightarrow> Inr r
      | JObject ms \<Rightarrow> dec_members fs ms r
      | _ \<Rightarrow> Inl (UnmarshalTypeError (json_kind j)))"

text \<open>\<open>json.Unmarshal(data, &v)\<close> into a variable holding \<open>z\<close>.\<close>

definition unmarshal :: "'a decoder \<Rightarrow> 'a \<Rightarrow> string \<Rightarrow> json_error + 'a" where
  "unmarshal d z s = (case json_parse s of None \<Rightarrow> Inl SyntaxError | Some j \<Rightarrow> d j z)"

text \<open>\<open>json.Unmarshal(raw, &v)\<close> for a RawMessage: a nil one is empty input.\<close>

definition unmarshal_raw :: "'a decoder \<Rightarrow> 'a \<Rightarrow> raw_message \<Rightarrow> json_error + 'a" where
  "unmarshal_raw d z raw = (case raw of None \<Rightarrow> Inl SyntaxError | Some j \<Rightarrow> d j z)"

text \<open>
  The value a field ends up with when the members of an object are decoded in order: each
  member whose name folds to the field's name updates it by \<open>s\<close>, so the last such
  member decides.
\<close>

definition member_fold :: "(json \<Rightarrow> 'a \<Rightarrow> 'a) \<Rightarrow> string \<Rightarrow> (string \<times> json) list \<Rightarrow> 'a \<Rightarrow> 'a" where
  "member_fold s name ms cur =
     foldl (\<lambda>a kv. if fold_name (fst kv) = fold_name name then s (snd kv) a else a) cur ms"

text \<open>A string field: the last string member; \<open>null\<close> members leave it unchanged.\<close>

definition member_string :: "string \<Rightarrow> (string \<times> json) list \<Rightarrow> string \<Rightarrow> string" where
  "member_string name ms cur = member_fold (\<lambda>v a. case v of JString x \<Rightarrow> x | _ \<Rightarrow> a) name ms cur"

text \<open>A \<open>json.RawMessage\<close> field: the last member, whatever its value.\<close>

definition member_value :: "string \<Rightarrow> (string \<times> json) list \<Rightarrow> raw_message \<Rightarrow> raw_message" where
  "member_value name ms cur = member_fold (\<lambda>v a. Some v) name ms cur"

text \<open>An \<open>int64\<close> field: the last number member (a decoded object has none out of range).\<close>

definition member_int :: "string \<Rightarrow> (string \<times> json) list \<Rightarrow> goint \<Rightarrow> goint" where
  "member_int name ms cur =
     member_fold (\<lambda>v a. case v of JNumber l \<Rightarrow> (case int64_of_lit l of Some w \<Rightarrow> w | None \<Rightarrow> a) | _ \<Rightarrow> a)
       name ms cur"

subsection \<open>Encoding\<close>

text \<open>\<open>strconv.AppendInt\<close>: decimal digits with a leading minus sign.\<close>

definition int_lit :: "int \<Rightarrow> string" where
  "int_lit i = (if i < 0 then CHR ''-'' # digits_of_nat (nat (- i)) else digits_of_nat (nat i))"

definition hex_digit :: "nat \<Rightarrow> char" where
  "hex_digit n = ''0123456789abcdef'' ! (n mod 16)"

text \<open>
  Escaping of one ASCII byte by Go's \<open>appendString\<close> with HTML escaping on (the default
  of \<open>json.Marshal\<close>).
\<close>

definition escape_ascii :: "char \<Rightarrow> string" where
  "escape_ascii c =
     (let b = (of_char c :: nat) in
      if c = CHR 0x22 \<or> c = CHR 0x5C then [CHR 0x5C, c]
      else if b = 0x08 then [CHR 0x5C, CHR ''b'']
      else if b = 0x0C then [CHR 0x5C, CHR ''f'']
      else if b = 0x0A then [CHR 0x5C, CHR ''n'']
      else if b = 0x0D then [CHR 0x5C, CHR ''r'']
      else if b = 0x09 then [CHR 0x5C, CHR ''t'']
      else if b < 0x20 \<or> c = CHR ''<'' \<or> c = CHR ''>'' \<or> c = CHR ''&'' then
        [CHR 0x5C, CHR ''u'', CHR ''0'', CHR ''0'', hex_digit (b div 16), hex_digit b]
      else [c])"

text \<open>The escaped body of a string: invalid UTF-8 becomes the escape of U+FFFD, U+2028 and U+2029
  are escaped, other well-formed sequences are copied.\<close>

function quote_bytes :: "string \<Rightarrow> string" where
  "quote_bytes [] = []"
| "quote_bytes (c # cs) =
     (if (of_char c :: nat) < 128 then escape_ascii c @ quote_bytes cs
      else
        (let n = utf8_len (c # cs) in
         if n = 0 then [CHR 0x5C] @ ''ufffd'' @ quote_bytes cs
         else if take 3 (c # cs) = [CHR 0xE2, CHR 0x80, CHR 0xA8] then [CHR 0x5C] @ ''u2028'' @ quote_bytes (drop 2 cs)
         else if take 3 (c # cs) = [CHR 0xE2, CHR 0x80, CHR 0xA9] then [CHR 0x5C] @ ''u2029'' @ quote_bytes (drop 2 cs)
         else take n (c # cs) @ quote_bytes (drop n (c # cs))))"
  by pat_completeness auto
termination
  by (relation "measure length") auto

definition json_quote :: "string \<Rightarrow> string" where
  "json_quote s = [CHR 0x22] @ quote_bytes s @ [CHR 0x22]"

text \<open>The compact text \<open>json.Marshal\<close> writes: no white space, members in order.\<close>

fun json_print :: "json \<Rightarrow> string"
and print_elems :: "json list \<Rightarrow> string"
and print_members :: "(string \<times> json) list \<Rightarrow> string"
where
  "json_print JNull = ''null''"
| "json_print (JBool b) = (if b then ''true'' else ''false'')"
| "json_print (JNumber l) = l"
| "json_print (JString s) = json_quote s"
| "json_print (JArray vs) = ''['' @ print_elems vs @ '']''"
| "json_print (JObject ms) = ''{'' @ print_members ms @ ''}''"
| "print_elems [] = []"
| "print_elems (v # vs) = json_print v @ (if vs = [] then [] else '','' @ print_elems vs)"
| "print_members [] = []"
| "print_members ((k, v) # ms) =
     json_quote k @ '':'' @ json_print v @ (if ms = [] then [] else '','' @ print_members ms)"

text \<open>Encoders of the Go kinds the request types use, with their \<open>omitempty\<close> emptiness.\<close>

definition enc_int :: "goint \<Rightarrow> json" where
  "enc_int w = JNumber (int_lit (sint w))"

definition enc_slice :: "('a \<Rightarrow> json) \<Rightarrow> 'a slice \<Rightarrow> json" where
  "enc_slice e xs = (case xs of None \<Rightarrow> JNull | Some ys \<Rightarrow> JArray (map e ys))"

definition enc_map :: "('v \<Rightarrow> json) \<Rightarrow> 'v gomap \<Rightarrow> json" where
  "enc_map e m =
     (case m of
        None \<Rightarrow> JNull
      | Some mp \<Rightarrow> JObject (map (\<lambda>k. (k, e (the (Mapping.lookup mp k)))) (Mapping.ordered_keys mp)))"

definition slice_empty :: "'a slice \<Rightarrow> bool" where
  "slice_empty xs \<longleftrightarrow> (case xs of None \<Rightarrow> True | Some ys \<Rightarrow> ys = [])"

definition map_empty :: "'v gomap \<Rightarrow> bool" where
  "map_empty m \<longleftrightarrow> (case m of None \<Rightarrow> True | Some mp \<Rightarrow> Mapping.keys mp = {})"

text \<open>One struct field: left out when tagged \<open>omitempty\<close> and empty.\<close>

definition enc_field :: "string \<Rightarrow> bool \<Rightarrow> bool \<Rightarrow> json \<Rightarrow> (string \<times> json) list" where
  "enc_field name omitempty zero v = (if omitempty \<and> zero then [] else [(name, v)])"

subsection \<open>What struct decoding computes\<close>

lemma member_fold_Nil [simp]: "member_fold s n [] a = a"
  by (simp add: member_fold_def)

lemma member_fold_Cons [simp]:
  "member_fold s n ((k, v) # ms) a = member_fold s n ms (if fold_name k = fold_name n then s v a else a)"
  by (simp add: member_fold_def)

lemma member_string_Nil [simp]: "member_string n [] s = s"
  by (simp add: member_string_def)

lemma member_string_Cons [simp]:
  "member_string n ((k, v) # ms) s =
     member_string n ms (if fold_name k = fold_name n then (case v of JString x \<Rightarrow> x | _ \<Rightarrow> s) else s)"
  by (simp add: member_string_def)

lemma dec_string_Inr: "dec_string v cur = Inr x \<Longrightarrow> (case v of JString y \<Rightarrow> y | _ \<Rightarrow> cur) = x"
  by (auto simp: dec_string_def split: json.splits)

lemma fst_field [simp]: "fst (field n g u d) = n"
  by (simp add: field_def)

lemma field_lookup_SomeD:
  "field_lookup fs k = Some d \<Longrightarrow> \<exists>f \<in> set fs. d = snd f \<and> fold_name (fst f) = fold_name k"
  by (auto simp: field_lookup_def split: option.splits dest!: find_SomeD) force+

text \<open>With field names distinct up to folding, a member name finds the one field it folds to.\<close>

lemma field_lookup_unique:
  assumes dist: "distinct (map (fold_name \<circ> fst) fs)" and f: "f \<in> set fs"
    and k: "fold_name k = fold_name (fst f)"
  shows "field_lookup fs k = Some (snd f)"
proof (cases "find (\<lambda>f. fst f = k) fs")
  case None
  have "find (\<lambda>g. fold_name (fst g) = fold_name k) fs = Some f"
    using find_unique [OF dist f] k by simp
  with None show ?thesis by (simp add: field_lookup_def)
next
  case (Some f')
  then have "fst f' = k" and "f' \<in> set fs" by (auto dest: find_SomeD)
  moreover have "inj_on (fold_name \<circ> fst) (set fs)" using dist by (simp add: distinct_map)
  ultimately have "f' = f" using f k by (auto simp: inj_on_def)
  with Some show ?thesis by (simp add: field_lookup_def)
qed

text \<open>
  A field of a struct, against the other fields that leave it alone, ends up with
  \<open>member_fold\<close> of the members: Go's decoding is last-wins and case-insensitive.
\<close>

lemma dec_members_field:
  assumes "dec_members fs ms r = Inr r'"
    and own: "\<And>k. fold_name k = fold_name n \<Longrightarrow> field_lookup fs k = Some (snd (field n get upd d))"
    and other: "\<And>k d' v x x'. fold_name k \<noteq> fold_name n \<Longrightarrow> field_lookup fs k = Some d' \<Longrightarrow> d' v x = Inr x' \<Longrightarrow> get x' = get x"
    and get_upd: "\<And>f x. get (upd f x) = f (get x)"
    and step: "\<And>v a b. d v a = Inr b \<Longrightarrow> b = s v a"
  shows "get r' = member_fold s n ms (get r)"
  using assms(1)
proof (induction ms arbitrary: r)
  case Nil
  then show ?case by simp
next
  case (Cons kv ms)
  obtain k v where kv: "kv = (k, v)" by (cases kv)
  show ?case
  proof (cases "fold_name k = fold_name n")
    case True
    with Cons.prems kv own [OF True] obtain x where x: "d v (get r) = Inr x"
      and rest: "dec_members fs ms (upd (\<lambda>_. x) r) = Inr r'"
      by (auto simp: field_def split: sum.splits)
    from rest have "get r' = member_fold s n ms (get (upd (\<lambda>_. x) r))" by (rule Cons.IH)
    with step [OF x] True kv get_upd show ?thesis by simp
  next
    case False
    show ?thesis
    proof (cases "field_lookup fs k")
      case None
      with Cons.prems kv have "dec_members fs ms r = Inr r'" by simp
      with Cons.IH False kv show ?thesis by simp
    next
      case (Some d')
      with Cons.prems kv obtain r1 where d: "d' v r = Inr r1" and rest: "dec_members fs ms r1 = Inr r'"
        by (auto split: sum.splits)
      from rest have "get r' = member_fold s n ms (get r1)" by (rule Cons.IH)
      with other [OF False Some d] False kv show ?thesis by simp
    qed
  qed
qed

lemma dec_members_string_field:
  assumes "dec_members fs ms r = Inr r'"
    and own: "\<And>k. fold_name k = fold_name n \<Longrightarrow> field_lookup fs k = Some (snd (field n get upd dec_string))"
    and other: "\<And>k d v x x'. fold_name k \<noteq> fold_name n \<Longrightarrow> field_lookup fs k = Some d \<Longrightarrow> d v x = Inr x' \<Longrightarrow> get x' = get x"
    and get_upd: "\<And>f x. get (upd f x) = f (get x)"
  shows "get r' = member_string n ms (get r)"
  unfolding member_string_def
  proof (rule dec_members_field [where d = dec_string, OF assms(1) own _ get_upd])
  show "\<And>k d v x x'. fold_name k \<noteq> fold_name n \<Longrightarrow> field_lookup fs k = Some d \<Longrightarrow> d v x = Inr x' \<Longrightarrow> get x' = get x"
    by (rule other)
qed (auto simp: dec_string_def split: json.splits)

lemma dec_members_raw_field:
  assumes "dec_members fs ms r = Inr r'"
    and own: "\<And>k. fold_name k = fold_name n \<Longrightarrow> field_lookup fs k = Some (snd (field n get upd dec_raw))"
    and other: "\<And>k d v x x'. fold_name k \<noteq> fold_name n \<Longrightarrow> field_lookup fs k = Some d \<Longrightarrow> d v x = Inr x' \<Longrightarrow> get x' = get x"
    and get_upd: "\<And>f x. get (upd f x) = f (get x)"
  shows "get r' = member_value n ms (get r)"
  unfolding member_value_def
  proof (rule dec_members_field [where d = dec_raw, OF assms(1) own _ get_upd])
  show "\<And>k d v x x'. fold_name k \<noteq> fold_name n \<Longrightarrow> field_lookup fs k = Some d \<Longrightarrow> d v x = Inr x' \<Longrightarrow> get x' = get x"
    by (rule other)
qed (auto simp: dec_raw_def)

lemma dec_members_int_field:
  assumes "dec_members fs ms r = Inr r'"
    and own: "\<And>k. fold_name k = fold_name n \<Longrightarrow> field_lookup fs k = Some (snd (field n get upd dec_int))"
    and other: "\<And>k d v x x'. fold_name k \<noteq> fold_name n \<Longrightarrow> field_lookup fs k = Some d \<Longrightarrow> d v x = Inr x' \<Longrightarrow> get x' = get x"
    and get_upd: "\<And>f x. get (upd f x) = f (get x)"
  shows "get r' = member_int n ms (get r)"
  unfolding member_int_def
  proof (rule dec_members_field [where d = dec_int, OF assms(1) own _ get_upd])
  show "\<And>k d v x x'. fold_name k \<noteq> fold_name n \<Longrightarrow> field_lookup fs k = Some d \<Longrightarrow> d v x = Inr x' \<Longrightarrow> get x' = get x"
    by (rule other)
qed (auto simp: dec_int_def split: json.splits option.splits)

lemma unmarshal_struct_Inr:
  "unmarshal (dec_struct fs) z s = Inr r \<Longrightarrow>
     \<exists>j. json_parse s = Some j \<and> (j = JNull \<and> r = z \<or> (\<exists>ms. j = JObject ms \<and> dec_members fs ms z = Inr r))"
  by (auto simp: unmarshal_def dec_struct_def split: option.splits json.splits)


text \<open>An array decoded into an empty slice: each element from a zero element.\<close>

lemma dec_elems_Nil_Inr:
  "dec_elems z d vs [] = Inr xs \<Longrightarrow> list_all2 (\<lambda>v x. d v z = Inr x) vs xs"
proof (induction vs arbitrary: xs)
  case Nil
  then show ?case by simp
next
  case (Cons v vs)
  then show ?case by (auto split: sum.splits)
qed

end
