(* ===== verification/Client.thy ===== *)
theory Client
  imports GoJson "HOL-Library.AList"
begin

text \<open>
  The transport wrapper of \<open>client.go\<close> (the file \<open>src/unnamed/part_000\<close>, lines 113 to
  326): the client configuration, the envelope types \<open>Response\<close> and \<open>Error\<close>, and
  \<open>do\<close>/\<open>post\<close>. What \<open>do\<close> calls outside the package is made explicit:
  \<^item> \<open>http.NewRequest\<close> accepts or rejects a method and URL (\<open>net/url\<close> parsing is
    not modelled: it is the environment's \<open>env_new_request\<close>);
  \<^item> \<open>Header.Set\<close> stores a value under the canonical form of the key
    (\<open>textproto.CanonicalMIMEHeaderKey\<close>);
  \<^item> \<open>http.Client.Do\<close> with the default transport checks the URL (the environment's
    \<open>env_url_error\<close>), refuses header values with control bytes, sends the request
    through the environment's \<open>env_round_trip\<close> (network, server, redirects) and
    enforces \<open>Client.Timeout\<close>; \<open>io.ReadAll\<close> reads the body under the same
    deadline.
\<close>

subsection \<open>HTTP layer\<close>

type_synonym header = "(string \<times> string list) list"

record http_request =
  req_method :: string
  req_url :: string
  req_header :: header
  req_body :: "string option"

record http_response =
  StatusCode :: int
  resp_body :: string
  resp_read_error :: "string option"  \<comment> \<open>a network error while the body is read\<close>
  resp_header_time :: nat  \<comment> \<open>nanoseconds from the start of the request to the headers\<close>
  resp_body_time :: nat  \<comment> \<open>further nanoseconds until the body is read\<close>

record http_env =
  env_new_request :: "string \<Rightarrow> string \<Rightarrow> bool"
  env_url_error :: "string \<Rightarrow> string option"
  env_round_trip :: "http_request \<Rightarrow> string + http_response"

text \<open>\<open>http.Client\<close>: the package only ever sets its \<open>Timeout\<close>.\<close>

record http_client =
  Timeout :: duration

datatype net_error =
    TransportError string
  | InvalidHeaderValue string  \<comment> \<open>the canonical key whose value was refused\<close>
  | ClientTimeout
  | ReadError string
  | BodyReadTimeout

definition StatusOK :: int where
  "StatusOK = 200"

definition MethodPost :: string where
  "MethodPost = ''POST''"

text \<open>\<open>textproto.CanonicalMIMEHeaderKey\<close>: a key made of token bytes gets an upper-case
  letter at the start and after each hyphen and lower case elsewhere; any other key is
  left alone.\<close>

definition is_token_char :: "char \<Rightarrow> bool" where
  "is_token_char c \<longleftrightarrow>
     byte_in c 48 57 \<or> byte_in c 65 90 \<or> byte_in c 97 122 \<or> c \<in> set ''!#$%&*+-.^_|~'' \<or> c = CHR 0x27 \<or> c = CHR 0x60"

fun canon_from :: "bool \<Rightarrow> string \<Rightarrow> string" where
  "canon_from upper [] = []"
| "canon_from upper (c # cs) =
     (let c' = (if upper \<and> byte_in c 97 122 then char_of (of_char c - (32::nat))
                else if \<not> upper \<and> byte_in c 65 90 then char_of (of_char c + (32::nat))
                else c)
      in c' # canon_from (c' = CHR ''-'') cs)"

definition canonical_header_key :: "string \<Rightarrow> string" where
  "canonical_header_key k = (if list_all is_token_char k then canon_from True k else k)"

definition header_set :: "string \<Rightarrow> string \<Rightarrow> header \<Rightarrow> header" where
  "header_set k v h = AList.update (canonical_header_key k) [v] h"

text \<open>\<open>httpguts.ValidHeaderFieldValue\<close>: no control byte other than horizontal tab.\<close>

definition valid_header_value :: "string \<Rightarrow> bool" where
  "valid_header_value v \<longleftrightarrow>
     list_all (\<lambda>c. \<not> (((of_char c :: nat) < 0x20 \<and> c \<noteq> CHR 0x09) \<or> (of_char c :: nat) = 0x7F)) v"

text \<open>The deadline of \<open>http.Client\<close>: only a positive \<open>Timeout\<close> sets one.\<close>

definition timed_out :: "duration \<Rightarrow> nat \<Rightarrow> bool" where
  "timed_out t elapsed \<longleftrightarrow> 0 < sint t \<and> sint t < int elapsed"

definition http_client_do :: "http_env \<Rightarrow> http_client \<Rightarrow> http_request \<Rightarrow> net_error + http_response" where
  "http_client_do env hc req =
     (case env_url_error env (req_url req) of
        Some msg \<Rightarrow> Inl (TransportError msg)
      | None \<Rightarrow>
          (case find (\<lambda>kv. \<not> list_all valid_header_value (snd kv)) (req_header req) of
             Some kv \<Rightarrow> Inl (InvalidHeaderValue (fst kv))
           | None \<Rightarrow>
               (case env_round_trip env req of
                  Inl msg \<Rightarrow> Inl (TransportError msg)
                | Inr resp \<Rightarrow>
                    if timed_out (Timeout hc) (resp_header_time resp) then Inl ClientTimeout
                    else Inr resp)))"

definition read_all :: "http_client \<Rightarrow> http_response \<Rightarrow> net_error + string" where
  "read_all hc resp =
     (if timed_out (Timeout hc) (resp_header_time resp + resp_body_time resp) then Inl BodyReadTimeout
      else (case resp_read_error resp of Some msg \<Rightarrow> Inl (ReadError msg) | None \<Rightarrow> Inr (resp_body resp)))"

text \<open>\<open>http.NewRequest\<close> with the standard library: the method must be a token and
  the URL must hold no control byte (\<open>url.Parse\<close> refuses those first). Other URL
  syntax errors are not modelled; an environment may use this as its
  \<open>env_new_request\<close>.\<close>

definition has_ctl :: "string \<Rightarrow> bool" where
  "has_ctl s \<longleftrightarrow> list_ex (\<lambda>c. (of_char c :: nat) < 0x20 \<or> (of_char c :: nat) = 0x7F) s"

definition valid_method :: "string \<Rightarrow> bool" where
  "valid_method m \<longleftrightarrow> m \<noteq> [] \<and> list_all is_token_char m"

definition go_new_request :: "string \<Rightarrow> string \<Rightarrow> bool" where
  "go_new_request m u \<longleftrightarrow> valid_method m \<and> \<not> has_ctl u"

text \<open>\<open>Header.Get\<close>: the first value stored under the canonical form of the key.\<close>

definition header_get :: "string \<Rightarrow> header \<Rightarrow> string" where
  "header_get k h = (case map_of h (canonical_header_key k) of Some (v # _) \<Rightarrow> v | _ \<Rightarrow> [])"

subsection \<open>Configuration\<close>

definition DefaultBaseURL :: string where
  "DefaultBaseURL = ''https://postal.example.com/api/v1''"

definition DefaultTimeout :: duration where
  "DefaultTimeout = 30 * Second"

record Client =
  BaseURL :: string
  APIKey :: string
  HTTPClient :: http_client

definition NewClient :: "string \<Rightarrow> Client" where
  "NewClient apiKey =
     \<lparr>BaseURL = DefaultBaseURL, APIKey = apiKey, HTTPClient = \<lparr>Timeout = DefaultTimeout\<rparr>\<rparr>"

definition NewClientWithOptions :: "string \<Rightarrow> string \<Rightarrow> duration \<Rightarrow> Client" where
  "NewClientWithOptions apiKey baseURL timeout =
     \<lparr>BaseURL = baseURL, APIKey = apiKey, HTTPClient = \<lparr>Timeout = timeout\<rparr>\<rparr>"

subsection \<open>Envelopes\<close>

record Response =
  Status :: string
  Time :: float64
  Flags :: raw_message
  Data :: raw_message

record Error =
  Status :: string
  Time :: float64
  Flags :: raw_message
  Data :: raw_message
  ErrorCode :: string
  Message :: string

definition Response_zero :: Response where
  "Response_zero = \<lparr>Response.Status = [], Response.Time = [], Response.Flags = None, Response.Data = None\<rparr>"

definition Error_zero :: Error where
  "Error_zero = \<lparr>Error.Status = [], Error.Time = [], Error.Flags = None, Error.Data = None,
                 ErrorCode = [], Message = []\<rparr>"

text \<open>The JSON tags of the two structs, in declaration order.\<close>

definition Response_fields :: "Response field list" where
  "Response_fields =
     [field ''status'' Response.Status Response.Status_update dec_string,
      field ''time'' Response.Time Response.Time_update dec_float,
      field ''flags'' Response.Flags Response.Flags_update dec_raw,
      field ''data'' Response.Data Response.Data_update dec_raw]"

definition Error_fields :: "Error field list" where
  "Error_fields =
     [field ''status'' Error.Status Error.Status_update dec_string,
      field ''time'' Error.Time Error.Time_update dec_float,
      field ''flags'' Error.Flags Error.Flags_update dec_raw,
      field ''data'' Error.Data Error.Data_update dec_raw,
      field ''error_code'' ErrorCode ErrorCode_update dec_string,
      field ''message'' Message Message_update dec_string]"

definition Error_Error :: "Error \<Rightarrow> string" where
  "Error_Error e = ''postal API error: '' @ Error.Status e @ '' - '' @ Message e"

subsection \<open>Requests\<close>

text \<open>
  The body argument of \<open>do\<close> is an \<open>interface{}\<close>: nil, a value whose
  \<open>json.Marshal\<close> encoding is the given JSON value, or a value of a type
  \<open>json.Marshal\<close> rejects.
\<close>

datatype go_value = GoNil | GoEncodable json | GoUnsupported string

definition marshal :: "go_value \<Rightarrow> json_error + string" where
  "marshal v =
     (case v of
        GoNil \<Rightarrow> Inr ''null''
      | GoEncodable j \<Rightarrow> Inr (json_print j)
      | GoUnsupported t \<Rightarrow> Inl (UnsupportedTypeError t))"

datatype go_error = EJson json_error | ENet net_error | ENewRequest

datatype client_error =
    WrappedError string go_error  \<comment> \<open>\<open>fmt.Errorf("<prefix>: %w", err)\<close>\<close>
  | APIError Error  \<comment> \<open>an \<open>*Error\<close> returned as the error\<close>

text \<open>The start of \<open>err.Error()\<close> that this package writes: the prefix of a wrapped
  error (the cause's own text follows and is not modelled), or the whole text of an
  \<open>*Error\<close>.\<close>

definition Error_text :: "client_error \<Rightarrow> string" where
  "Error_text e = (case e of WrappedError p _ \<Rightarrow> p @ '': '' | APIError a \<Rightarrow> Error_Error a)"

text \<open>The body reader of \<open>do\<close>: none for a nil interface, else the marshalled bytes.\<close>

definition request_body :: "go_value \<Rightarrow> json_error + string option" where
  "request_body body =
     (if body = GoNil then Inr None
      else (case marshal body of Inl e \<Rightarrow> Inl e | Inr bytes \<Rightarrow> Inr (Some bytes)))"

text \<open>The request \<open>do\<close> builds: \<open>http.NewRequest\<close> and the three \<open>Header.Set\<close> calls.\<close>

definition build_request :: "Client \<Rightarrow> string \<Rightarrow> string \<Rightarrow> string option \<Rightarrow> http_request" where
  "build_request c method url body =
     \<lparr>req_method = method, req_url = url,
      req_header =
        header_set ''X-Server-API-Key'' (APIKey c)
          (header_set ''Accept'' ''application/json''
            (header_set ''Content-Type'' ''application/json'' [])),
      req_body = body\<rparr>"

definition do :: "http_env \<Rightarrow> Client \<Rightarrow> string \<Rightarrow> string \<Rightarrow> go_value \<Rightarrow> client_error + Response" where
  "do env c method path body =
     (let url = BaseURL c @ path in
      case request_body body of
        Inl e \<Rightarrow> Inl (WrappedError ''error marshaling request body'' (EJson e))
      | Inr bodyReader \<Rightarrow>
          if \<not> env_new_request env method url then Inl (WrappedError ''error creating request'' ENewRequest)
          else
            (case http_client_do env (HTTPClient c) (build_request c method url bodyReader) of
               Inl e \<Rightarrow> Inl (WrappedError ''error performing request'' (ENet e))
             | Inr resp \<Rightarrow>
                 (case read_all (HTTPClient c) resp of
                    Inl e \<Rightarrow> Inl (WrappedError ''error reading response body'' (ENet e))
                  | Inr respBody \<Rightarrow>
                      if StatusCode resp \<noteq> StatusOK then
                        (case unmarshal (dec_struct Error_fields) Error_zero respBody of
                           Inl e \<Rightarrow> Inl (WrappedError ''error unmarshaling error response'' (EJson e))
                         | Inr apiError \<Rightarrow> Inl (APIError apiError))
                      else
                        (case unmarshal (dec_struct Response_fields) Response_zero respBody of
                           Inl e \<Rightarrow> Inl (WrappedError ''error unmarshaling response'' (EJson e))
                         | Inr apiResp \<Rightarrow>
                             if Response.Status apiResp \<noteq> ''success'' then
                               (case unmarshal (dec_struct Error_fields) Error_zero respBody of
                                  Inl e \<Rightarrow> Inl (WrappedError ''error unmarshaling error response'' (EJson e))
                                | Inr apiError \<Rightarrow> Inl (APIError apiError))
                             else Inr apiResp))))"

text \<open>The request \<open>do\<close> hands to \<open>HTTPClient.Do\<close>, if it gets that far.\<close>

definition sent_request :: "http_env \<Rightarrow> Client \<Rightarrow> string \<Rightarrow> string \<Rightarrow> go_value \<Rightarrow> http_request option" where
  "sent_request env c method path body =
     (let url = BaseURL c @ path in
      case request_body body of
        Inl e \<Rightarrow> None
      | Inr bodyReader \<Rightarrow>
          if \<not> env_new_request env method url then None
          else Some (build_request c method url bodyReader))"

definition post :: "http_env \<Rightarrow> Client \<Rightarrow> string \<Rightarrow> go_value \<Rightarrow> client_error + Response" where
  "post env c path body = do env c MethodPost path body"

subsection \<open>Test fixtures\<close>

text \<open>
  The \<open>httptest\<close> servers of \<open>client_test.go\<close> (\<open>src/unnamed/part_002\<close>): every
  request reaches a handler that answers at once with a fixed status and body.
  \<open>delay_env\<close> is the same world with the headers of every response arriving \<open>d\<close>
  nanoseconds later.
\<close>

definition test_server :: "int \<Rightarrow> string \<Rightarrow> http_env" where
  "test_server st body =
     \<lparr>env_new_request = (\<lambda>m u. True), env_url_error = (\<lambda>u. None),
      env_round_trip = (\<lambda>req. Inr \<lparr>StatusCode = st, resp_body = body, resp_read_error = None,
                                    resp_header_time = 0, resp_body_time = 0\<rparr>)\<rparr>"

definition delay_env :: "nat \<Rightarrow> http_env \<Rightarrow> http_env" where
  "delay_env d env =
     env\<lparr>env_round_trip := (\<lambda>req. case env_round_trip env req of
          Inl e \<Rightarrow> Inl e
        | Inr resp \<Rightarrow> Inr (resp\<lparr>resp_header_time := resp_header_time resp + d\<rparr>))\<rparr>"

definition error_body :: string where
  "error_body = ''{\"status\": \"error\", \"time\": 0.123, \"flags\": {}, \"data\": {\"error\": \"test error\"}, \"error_code\": \"test-error\", \"message\": \"Test error message\"}''"

subsection \<open>Properties of the transport wrapper\<close>

lemma canonical_header_keys [simp]:
  "canonical_header_key ''Content-Type'' = ''Content-Type''"
  "canonical_header_key ''Accept'' = ''Accept''"
  "canonical_header_key ''X-Server-API-Key'' = ''X-Server-Api-Key''"
  by code_simp+

lemma build_request_simps [simp]:
  "req_method (build_request c m u b) = m" "req_url (build_request c m u b) = u"
  "req_body (build_request c m u b) = b"
  by (simp_all add: build_request_def)

lemma build_request_header:
  "req_header (build_request c m u b) =
     [(''Content-Type'', [''application/json'']), (''Accept'', [''application/json'']),
      (''X-Server-Api-Key'', [APIKey c])]"
  by (simp add: build_request_def header_set_def)

lemma valid_header_value_json: "valid_header_value ''application/json''"
  by (simp add: valid_header_value_def)

lemma fold_name_envelope_names [simp]:
  "fold_name ''status'' = ''STATUS''" "fold_name ''time'' = ''TIME''" "fold_name ''flags'' = ''FLAGS''"
  "fold_name ''data'' = ''DATA''" "fold_name ''error_code'' = ''ERROR_CODE''"
  "fold_name ''message'' = ''MESSAGE''"
  by code_simp+

lemma Error_fields_distinct: "distinct (map (fold_name \<circ> fst) Error_fields)"
  by (simp add: Error_fields_def)

lemma Response_fields_distinct: "distinct (map (fold_name \<circ> fst) Response_fields)"
  by (simp add: Response_fields_def)

lemma Error_fields_keep:
  "f \<in> set Error_fields \<Longrightarrow> snd f v x = Inr x' \<Longrightarrow>
     (fold_name (fst f) \<noteq> fold_name ''message'' \<longrightarrow> Message x' = Message x) \<and>
     (fold_name (fst f) \<noteq> fold_name ''status'' \<longrightarrow> Error.Status x' = Error.Status x)"
  by (auto simp: Error_fields_def field_def split: sum.splits)

lemma Response_fields_keep_Status:
  "f \<in> set Response_fields \<Longrightarrow> snd f v x = Inr x' \<Longrightarrow>
     fold_name (fst f) \<noteq> fold_name ''status'' \<Longrightarrow> Response.Status x' = Response.Status x"
  by (auto simp: Response_fields_def field_def split: sum.splits)

lemma Error_members:
  assumes "dec_members Error_fields ms r = Inr r'"
  shows "Message r' = member_string ''message'' ms (Message r)"
    and "Error.Status r' = member_string ''status'' ms (Error.Status r)"
proof -
  show "Message r' = member_string ''message'' ms (Message r)"
  proof (rule dec_members_string_field [OF assms, where upd = Message_update])
    fix k assume "fold_name k = fold_name ''message''"
    then show "field_lookup Error_fields k = Some (snd (field ''message'' Message Message_update dec_string))"
      by (intro field_lookup_unique [OF Error_fields_distinct]) (simp_all add: Error_fields_def)
  qed (auto dest!: field_lookup_SomeD dest: Error_fields_keep)
  show "Error.Status r' = member_string ''status'' ms (Error.Status r)"
  proof (rule dec_members_string_field [OF assms, where upd = Error.Status_update])
    fix k assume "fold_name k = fold_name ''status''"
    then show "field_lookup Error_fields k = Some (snd (field ''status'' Error.Status Error.Status_update dec_string))"
      by (intro field_lookup_unique [OF Error_fields_distinct]) (simp_all add: Error_fields_def)
  qed (auto dest!: field_lookup_SomeD dest: Error_fields_keep)
qed

lemma Response_Status_member:
  assumes "dec_members Response_fields ms r = Inr r'"
  shows "Response.Status r' = member_string ''status'' ms (Response.Status r)"
proof (rule dec_members_string_field [OF assms, where upd = Response.Status_update])
  fix k assume "fold_name k = fold_name ''status''"
  then show "field_lookup Response_fields k = Some (snd (field ''status'' Response.Status Response.Status_update dec_string))"
    by (intro field_lookup_unique [OF Response_fields_distinct]) (simp_all add: Response_fields_def)
qed (auto dest!: field_lookup_SomeD dest: Response_fields_keep_Status)

lemma Response_fields_keep_Data:
  "f \<in> set Response_fields \<Longrightarrow> snd f v x = Inr x' \<Longrightarrow>
     fold_name (fst f) \<noteq> fold_name ''data'' \<Longrightarrow> Response.Data x' = Response.Data x"
  by (auto simp: Response_fields_def field_def split: sum.splits)

lemma Response_Data_member:
  assumes "dec_members Response_fields ms r = Inr r'"
  shows "Response.Data r' = member_value ''data'' ms (Response.Data r)"
proof (rule dec_members_raw_field [OF assms, where upd = Response.Data_update])
  fix k assume "fold_name k = fold_name ''data''"
  then show "field_lookup Response_fields k = Some (snd (field ''data'' Response.Data Response.Data_update dec_raw))"
    by (intro field_lookup_unique [OF Response_fields_distinct]) (simp_all add: Response_fields_def)
qed (auto dest!: field_lookup_SomeD dest: Response_fields_keep_Data)

lemma build_request_eq:
  "build_request c m u b =
     \<lparr>req_method = m, req_url = u,
      req_header = [(''Content-Type'', [''application/json'']), (''Accept'', [''application/json'']),
                    (''X-Server-Api-Key'', [APIKey c])],
      req_body = b\<rparr>"
  by (simp add: build_request_def header_set_def)

lemma do_Inr_iff:
  "do env c m p b = Inr r \<longleftrightarrow>
     (\<exists>bytes resp body. request_body b = Inr bytes \<and> env_new_request env m (BaseURL c @ p) \<and>
        http_client_do env (HTTPClient c) (build_request c m (BaseURL c @ p) bytes) = Inr resp \<and>
        read_all (HTTPClient c) resp = Inr body \<and> StatusCode resp = StatusOK \<and>
        unmarshal (dec_struct Response_fields) Response_zero body = Inr r \<and>
        Response.Status r = ''success'')"
  by (auto simp: do_def Let_def split: sum.splits if_splits)

lemma http_client_do_Inr:
  "http_client_do env hc req = Inr resp \<Longrightarrow>
     env_round_trip env req = Inr resp \<and> \<not> timed_out (Timeout hc) (resp_header_time resp)"
  by (auto simp: http_client_do_def split: option.splits sum.splits if_splits)

text \<open>What a response of \<open>do\<close> is made of: a 200 reply, read in full, whose body is
  an object with status \<open>success\<close>; its \<open>Data\<close> is the last \<open>data\<close> member.\<close>

lemma do_Inr_envelope:
  assumes "do env c m p b = Inr r"
  shows "\<exists>bytes resp body ms. request_body b = Inr bytes \<and>
     env_round_trip env (build_request c m (BaseURL c @ p) bytes) = Inr resp \<and>
     http_client_do env (HTTPClient c) (build_request c m (BaseURL c @ p) bytes) = Inr resp \<and>
     StatusCode resp = 200 \<and> read_all (HTTPClient c) resp = Inr body \<and>
     json_parse body = Some (JObject ms) \<and> member_string ''status'' ms [] = ''success'' \<and>
     Response.Data r = member_value ''data'' ms None"
proof -
  from assms obtain bytes resp body where
    rb: "request_body b = Inr bytes" and
    rt: "http_client_do env (HTTPClient c) (build_request c m (BaseURL c @ p) bytes) = Inr resp"
    and st: "StatusCode resp = StatusOK" and rd: "read_all (HTTPClient c) resp = Inr body"
    and dec: "unmarshal (dec_struct Response_fields) Response_zero body = Inr r"
    and ok: "Response.Status r = ''success''"
    by (auto simp: do_Inr_iff)
  from dec obtain j where j: "json_parse body = Some j"
    and cases: "j = JNull \<and> r = Response_zero \<or> (\<exists>ms. j = JObject ms \<and> dec_members Response_fields ms Response_zero = Inr r)"
    by (blast dest: unmarshal_struct_Inr)
  from cases ok obtain ms where ms: "j = JObject ms" and dm: "dec_members Response_fields ms Response_zero = Inr r"
    by (auto simp: Response_zero_def)
  from Response_Status_member [OF dm] ok have "member_string ''status'' ms [] = ''success''"
    by (simp add: Response_zero_def)
  moreover from Response_Data_member [OF dm] have "Response.Data r = member_value ''data'' ms None"
    by (simp add: Response_zero_def)
  moreover from http_client_do_Inr [OF rt] have "env_round_trip env (build_request c m (BaseURL c @ p) bytes) = Inr resp"
    by simp
  ultimately show ?thesis using rb rt st rd j ms by (auto simp: StatusOK_def)
qed

text \<open>C1: whenever \<open>do\<close> returns a response, the request went through the
  HTTP client, the reply had status code 200, its body was read in full and parsed as
  a JSON object, and the object's \<open>status\<close> member (as \<open>encoding/json\<close> matches
  keys: case-insensitively, last occurrence winning) is the string \<open>success\<close>.\<close>

theorem do_success_envelope:
  assumes "do env c m p b = Inr r"
  shows "\<exists>bytes resp body ms.
     http_client_do env (HTTPClient c) (build_request c m (BaseURL c @ p) bytes) = Inr resp \<and>
     StatusCode resp = 200 \<and> read_all (HTTPClient c) resp = Inr body \<and>
     json_parse body = Some (JObject ms) \<and> member_string ''status'' ms [] = ''success''"
  using do_Inr_envelope [OF assms] by blast

text \<open>C19: \<open>do\<close> exchanges at most one request with the network, the one it
  builds (\<open>sent_request\<close>): two environments that agree on creating requests, on
  checking the URL, and on the round trip of that one request give the same result.\<close>

theorem do_only_sent_request:
  assumes "env_new_request env' = env_new_request env" and "env_url_error env' = env_url_error env"
    and "\<And>req. sent_request env c m p b = Some req \<Longrightarrow> env_round_trip env' req = env_round_trip env req"
  shows "do env' c m p b = do env c m p b"
proof (cases "request_body b")
  case (Inl e)
  then show ?thesis by (simp add: do_def)
next
  case (Inr br)
  let ?req = "build_request c m (BaseURL c @ p) br"
  show ?thesis
  proof (cases "env_new_request env m (BaseURL c @ p)")
    case False
    with Inr assms(1) show ?thesis by (simp add: do_def)
  next
    case True
    with Inr have "sent_request env c m p b = Some ?req" by (simp add: sent_request_def)
    with assms(3) have rt: "env_round_trip env' ?req = env_round_trip env ?req" by blast
    have "http_client_do env' (HTTPClient c) ?req = http_client_do env (HTTPClient c) ?req"
      unfolding http_client_do_def by (simp only: assms(2) rt)
    with Inr True assms(1) show ?thesis by (simp add: do_def Let_def)
  qed
qed

theorem do_only_sent_request_witness:
  "do \<lparr>env_new_request = (\<lambda>m u. True), env_url_error = (\<lambda>u. None),
       env_round_trip = (\<lambda>req. if req_method req = ''POST''
                                then env_round_trip (test_server 200 ''{\"status\":\"success\"}'') req
                                else Inl ''method not allowed'')\<rparr>
      (NewClient ''k'') ''POST'' ''/x'' GoNil =
   do (test_server 200 ''{\"status\":\"success\"}'') (NewClient ''k'') ''POST'' ''/x'' GoNil"
proof (rule do_only_sent_request)
  fix req
  assume "sent_request (test_server 200 ''{\"status\":\"success\"}'') (NewClient ''k'') ''POST'' ''/x'' GoNil = Some req"
  then have "req_method req = ''POST''"
    by (auto simp: sent_request_def request_body_def test_server_def split: if_splits)
  then show "env_round_trip \<lparr>env_new_request = (\<lambda>m u. True), env_url_error = (\<lambda>u. None),
       env_round_trip = (\<lambda>req. if req_method req = ''POST''
                                then env_round_trip (test_server 200 ''{\"status\":\"success\"}'') req
                                else Inl ''method not allowed'')\<rparr> req =
     env_round_trip (test_server 200 ''{\"status\":\"success\"}'') req"
    by simp
qed (simp_all add: test_server_def)

theorem do_success_envelope_witness:
  "do (test_server 200 ''{\"status\":\"success\",\"data\":{}}'') (NewClient ''k'') ''POST'' ''/x'' GoNil
     = Inr \<lparr>Response.Status = ''success'', Response.Time = [], Response.Flags = None, Response.Data = Some (JObject [])\<rparr>
   \<and> (\<exists>bytes resp body ms.
     http_client_do (test_server 200 ''{\"status\":\"success\",\"data\":{}}'') (HTTPClient (NewClient ''k'')) (build_request (NewClient ''k'') ''POST'' (BaseURL (NewClient ''k'') @ ''/x'') bytes) = Inr resp \<and>
     StatusCode resp = 200 \<and> read_all (HTTPClient (NewClient ''k'')) resp = Inr body \<and>
     json_parse body = Some (JObject ms) \<and> member_string ''status'' ms [] = ''success'')"
proof -
  have h: "do (test_server 200 ''{\"status\":\"success\",\"data\":{}}'') (NewClient ''k'') ''POST'' ''/x'' GoNil
     = Inr \<lparr>Response.Status = ''success'', Response.Time = [], Response.Flags = None, Response.Data = Some (JObject [])\<rparr>"
    by code_simp
  show ?thesis using h do_success_envelope [OF h] by blast
qed

lemma read_all_Inr:
  "read_all hc resp = Inr body \<Longrightarrow> \<not> timed_out (Timeout hc) (resp_header_time resp + resp_body_time resp)"
  by (auto simp: read_all_def split: if_splits)

lemma do_Inr_not_timed_out:
  assumes "do env c m p b = Inr r"
  shows "\<exists>bytes resp. request_body b = Inr bytes \<and> env_round_trip env (build_request c m (BaseURL c @ p) bytes) = Inr resp \<and>
     \<not> timed_out (Timeout (HTTPClient c)) (resp_header_time resp + resp_body_time resp)"
  using assms by (fastforce simp: do_Inr_iff dest!: http_client_do_Inr read_all_Inr)

lemma sint_DefaultTimeout: "sint DefaultTimeout = 30000000000"
  by (simp add: DefaultTimeout_def Second_def)

text \<open>C6: with a positive timeout, every response \<open>do\<close> returns arrived (headers and
  whole body) within the client's timeout.\<close>

theorem do_within_timeout:
  assumes "do env c m p b = Inr r" and "0 < sint (Timeout (HTTPClient c))"
  shows "\<exists>bytes resp. request_body b = Inr bytes \<and> env_round_trip env (build_request c m (BaseURL c @ p) bytes) = Inr resp \<and>
     int (resp_header_time resp + resp_body_time resp) \<le> sint (Timeout (HTTPClient c))"
  using do_Inr_not_timed_out [OF assms(1)] assms(2) by (fastforce simp: timed_out_def not_less)

text \<open>A client from \<open>NewClient\<close> talks to \<open>DefaultBaseURL\<close> and every
  successful call took at most 30 seconds (\<open>DefaultTimeout\<close>, in nanoseconds).\<close>

theorem NewClient_30s_deadline:
  assumes "do env (NewClient k) m p b = Inr r"
  shows "\<exists>bytes resp. env_round_trip env (build_request (NewClient k) m (DefaultBaseURL @ p) bytes) = Inr resp \<and>
     resp_header_time resp + resp_body_time resp \<le> 30000000000"
proof -
  from do_Inr_not_timed_out [OF assms] obtain bytes resp where
    rt: "env_round_trip env (build_request (NewClient k) m (BaseURL (NewClient k) @ p) bytes) = Inr resp"
    and t: "int (resp_header_time resp + resp_body_time resp) \<le> 30000000000"
    by (auto simp: NewClient_def sint_DefaultTimeout timed_out_def)
  from t have "resp_header_time resp + resp_body_time resp \<le> 30000000000" by linarith
  with rt show ?thesis by (auto simp: NewClient_def)
qed

text \<open>C2: a reply with a status code other than 200 whose body decodes as an
  \<open>Error\<close> makes \<open>do\<close> return that \<open>Error\<close> as an \<open>*Error\<close>, and its
  \<open>Error()\<close> text is \<open>postal API error: <status> - <message>\<close>, taken from the body.\<close>

theorem do_http_error_message:
  assumes "request_body b = Inr bytes" and "env_new_request env m (BaseURL c @ p)"
    and "http_client_do env (HTTPClient c) (build_request c m (BaseURL c @ p) bytes) = Inr resp"
    and "read_all (HTTPClient c) resp = Inr body" and "StatusCode resp \<noteq> 200"
    and "json_parse body = Some (JObject ms)"
    and "dec_members Error_fields ms Error_zero = Inr e"
  shows "do env c m p b = Inl (APIError e) \<and> Message e = member_string ''message'' ms [] \<and>
     Error_Error e = ''postal API error: '' @ member_string ''status'' ms [] @ '' - '' @ member_string ''message'' ms []"
  using assms Error_members [OF assms(7)]
  by (simp add: do_def Let_def unmarshal_def dec_struct_def StatusOK_def Error_Error_def Error_zero_def)

text \<open>C3: a 200 reply whose envelope \<open>status\<close> is not \<open>success\<close> is an API
  error: \<open>do\<close> decodes the same body again as an \<open>Error\<close> and returns it, carrying
  the body's status and message.\<close>

theorem do_envelope_status_error:
  assumes "request_body b = Inr bytes" and "env_new_request env m (BaseURL c @ p)"
    and "http_client_do env (HTTPClient c) (build_request c m (BaseURL c @ p) bytes) = Inr resp"
    and "read_all (HTTPClient c) resp = Inr body" and "StatusCode resp = 200"
    and "json_parse body = Some (JObject ms)"
    and "dec_members Response_fields ms Response_zero = Inr r"
    and "member_string ''status'' ms [] \<noteq> ''success''"
    and "dec_members Error_fields ms Error_zero = Inr e"
  shows "do env c m p b = Inl (APIError e) \<and> Error.Status e = member_string ''status'' ms [] \<and>
     Message e = member_string ''message'' ms []"
  using assms Error_members [OF assms(9)] Response_Status_member [OF assms(7)]
  by (simp add: do_def Let_def unmarshal_def dec_struct_def StatusOK_def Error_zero_def Response_zero_def)

text \<open>C4: a body that is not valid JSON gives the wrapped JSON syntax error,
  \<open>error unmarshaling response\<close> for status 200 and \<open>error unmarshaling error
  response\<close> otherwise.\<close>

theorem do_malformed_body:
  assumes "request_body b = Inr bytes" and "env_new_request env m (BaseURL c @ p)"
    and "http_client_do env (HTTPClient c) (build_request c m (BaseURL c @ p) bytes) = Inr resp"
    and "read_all (HTTPClient c) resp = Inr body" and "json_parse body = None"
  shows "do env c m p b =
     Inl (WrappedError (if StatusCode resp = 200 then ''error unmarshaling response''
                        else ''error unmarshaling error response'') (EJson SyntaxError))"
  using assms by (simp add: do_def Let_def unmarshal_def StatusOK_def)

text \<open>C8: an API key that is not a valid header value (it holds a control byte such
  as a newline) makes every call fail in the transport with \<open>error performing
  request\<close>, before anything is sent, whatever the server would answer.\<close>

theorem do_invalid_api_key:
  assumes "request_body b = Inr bytes" and "env_new_request env m (BaseURL c @ p)"
    and "env_url_error env (BaseURL c @ p) = None" and "\<not> valid_header_value (APIKey c)"
  shows "do env c m p b =
     Inl (WrappedError ''error performing request'' (ENet (InvalidHeaderValue ''X-Server-Api-Key'')))"
  using assms by (simp add: do_def Let_def http_client_do_def build_request_header valid_header_value_json)

text \<open>C12: with a timeout of zero or less (\<open>NewClientWithOptions\<close> accepts any
  duration) the client sets no deadline: however long the server takes, the result is
  the same as for an immediate reply.\<close>

theorem do_nonpositive_timeout_ignores_delay:
  assumes "sint (Timeout (HTTPClient c)) \<le> 0"
  shows "do (delay_env d env) c m p b = do env c m p b"
proof -
  have "\<not> timed_out (Timeout (HTTPClient c)) n" for n
    using assms by (simp add: timed_out_def)
  moreover have "read_all (HTTPClient c) (resp\<lparr>resp_header_time := t\<rparr>) = read_all (HTTPClient c) resp" for resp t
    using assms by (simp add: read_all_def timed_out_def split: option.splits)
  ultimately show ?thesis
    by (simp add: do_def Let_def http_client_do_def delay_env_def split: option.splits sum.splits)
qed

text \<open>\<open>do\<close> treats every status other than 200 as an error, so a 201 reply
  carrying a success envelope comes back as an \<open>*Error\<close> whose status is
  \<open>success\<close> (the specification speaks of non-2xx statuses).\<close>

theorem do_201_success_is_error:
  "do (test_server 201 ''{\"status\":\"success\",\"data\":{}}'') (NewClient ''k'') ''POST'' ''/send/message'' GoNil =
     Inl (APIError \<lparr>Error.Status = ''success'', Error.Time = [], Error.Flags = None,
                    Error.Data = Some (JObject []), ErrorCode = [], Message = []\<rparr>)"
  by code_simp

text \<open>C13: a body that \<open>json.Marshal\<close> refuses (a channel, a function) makes
  \<open>do\<close> fail with \<open>error marshaling request body\<close> before any request is built.\<close>

theorem do_marshal_error:
  "do env c m p (GoUnsupported t) =
     Inl (WrappedError ''error marshaling request body'' (EJson (UnsupportedTypeError t)))"
  by (simp add: do_def request_body_def marshal_def)

theorem do_http_error_message_witness:
  "do (test_server 500 error_body) (NewClient ''k'') ''POST'' ''/test'' GoNil =
     Inl (APIError \<lparr>Error.Status = ''error'', Error.Time = ''0.123'', Error.Flags = Some (JObject []),
        Error.Data = Some (JObject [(''error'', JString ''test error'')]), ErrorCode = ''test-error'',
        Message = ''Test error message''\<rparr>) \<and>
   Error_Error \<lparr>Error.Status = ''error'', Error.Time = ''0.123'', Error.Flags = Some (JObject []),
        Error.Data = Some (JObject [(''error'', JString ''test error'')]), ErrorCode = ''test-error'',
        Message = ''Test error message''\<rparr> = ''postal API error: error - Test error message''"
proof -
  let ?env = "test_server 500 error_body" and ?c = "NewClient ''k''"
  let ?req = "build_request ?c ''POST'' (BaseURL ?c @ ''/test'') None"
  let ?resp = "\<lparr>StatusCode = 500, resp_body = error_body, resp_read_error = None, resp_header_time = 0, resp_body_time = 0\<rparr>"
  let ?ms = "[(''status'', JString ''error''), (''time'', JNumber ''0.123''), (''flags'', JObject []),
     (''data'', JObject [(''error'', JString ''test error'')]), (''error_code'', JString ''test-error''),
     (''message'', JString ''Test error message'')]"
  have h1: "request_body GoNil = Inr None" by (simp add: request_body_def)
  have h2: "env_new_request ?env ''POST'' (BaseURL ?c @ ''/test'')" by (simp add: test_server_def)
  have h3: "http_client_do ?env (HTTPClient ?c) ?req = Inr ?resp"
    by (simp add: http_client_do_def test_server_def build_request_header valid_header_value_def timed_out_def NewClient_def)
  have h4: "read_all (HTTPClient ?c) ?resp = Inr error_body" by (simp add: read_all_def timed_out_def)
  have h6: "json_parse error_body = Some (JObject ?ms)" by (simp add: error_body_def) code_simp
  have h7: "dec_members Error_fields ?ms Error_zero =
     Inr \<lparr>Error.Status = ''error'', Error.Time = ''0.123'', Error.Flags = Some (JObject []),
        Error.Data = Some (JObject [(''error'', JString ''test error'')]), ErrorCode = ''test-error'',
        Message = ''Test error message''\<rparr>"
    by code_simp
  from do_http_error_message [OF h1 h2 h3 h4 _ h6 h7] show ?thesis by simp
qed
theorem do_within_timeout_witness:
  "\<exists>bytes resp. request_body GoNil = Inr bytes \<and> env_round_trip (test_server 200 ''{\"status\":\"success\"}'')
       (build_request (NewClient ''k'') ''POST'' (BaseURL (NewClient ''k'') @ ''/x'') bytes) = Inr resp \<and>
     int (resp_header_time resp + resp_body_time resp) \<le> sint (Timeout (HTTPClient (NewClient ''k'')))"
proof -
  have h1: "do (test_server 200 ''{\"status\":\"success\"}'') (NewClient ''k'') ''POST'' ''/x'' GoNil =
      Inr (Response_zero\<lparr>Response.Status := ''success''\<rparr>)"
    by code_simp
  have h2: "0 < sint (Timeout (HTTPClient (NewClient ''k'')))"
    by (simp add: NewClient_def sint_DefaultTimeout)
  show ?thesis using do_within_timeout [OF h1 h2] .
qed

theorem NewClient_30s_deadline_witness:
  "\<exists>bytes resp. env_round_trip (test_server 200 ''{\"status\":\"success\"}'')
       (build_request (NewClient ''k'') ''POST'' (DefaultBaseURL @ ''/x'') bytes) = Inr resp \<and>
     resp_header_time resp + resp_body_time resp \<le> 30000000000"
proof -
  have h: "do (test_server 200 ''{\"status\":\"success\"}'') (NewClient ''k'') ''POST'' ''/x'' GoNil =
      Inr (Response_zero\<lparr>Response.Status := ''success''\<rparr>)"
    by code_simp
  show ?thesis using NewClient_30s_deadline [OF h] .
qed



theorem do_envelope_status_error_witness:
  "do (test_server 200 error_body) (NewClient ''k'') ''POST'' ''/test'' GoNil =
     Inl (APIError \<lparr>Error.Status = ''error'', Error.Time = ''0.123'', Error.Flags = Some (JObject []),
        Error.Data = Some (JObject [(''error'', JString ''test error'')]), ErrorCode = ''test-error'',
        Message = ''Test error message''\<rparr>)"
proof -
  let ?env = "test_server 200 error_body" and ?c = "NewClient ''k''"
  let ?resp = "\<lparr>StatusCode = 200, resp_body = error_body, resp_read_error = None, resp_header_time = 0, resp_body_time = 0\<rparr>"
  let ?ms = "[(''status'', JString ''error''), (''time'', JNumber ''0.123''), (''flags'', JObject []),
     (''data'', JObject [(''error'', JString ''test error'')]), (''error_code'', JString ''test-error''),
     (''message'', JString ''Test error message'')]"
  have h1: "request_body GoNil = Inr None" by (simp add: request_body_def)
  have h2: "env_new_request ?env ''POST'' (BaseURL ?c @ ''/test'')" by (simp add: test_server_def)
  have h3: "http_client_do ?env (HTTPClient ?c) (build_request ?c ''POST'' (BaseURL ?c @ ''/test'') None) = Inr ?resp"
    by (simp add: http_client_do_def test_server_def build_request_header valid_header_value_def
        timed_out_def NewClient_def)
  have h4: "read_all (HTTPClient ?c) ?resp = Inr error_body" by (simp add: read_all_def timed_out_def)
  have h6: "json_parse error_body = Some (JObject ?ms)" by (simp add: error_body_def) code_simp
  have h7: "dec_members Response_fields ?ms Response_zero =
     Inr \<lparr>Response.Status = ''error'', Response.Time = ''0.123'', Response.Flags = Some (JObject []),
        Response.Data = Some (JObject [(''error'', JString ''test error'')])\<rparr>"
    by code_simp
  have h8: "member_string ''status'' ?ms [] \<noteq> ''success''" by code_simp
  have h9: "dec_members Error_fields ?ms Error_zero =
     Inr \<lparr>Error.Status = ''error'', Error.Time = ''0.123'', Error.Flags = Some (JObject []),
        Error.Data = Some (JObject [(''error'', JString ''test error'')]), ErrorCode = ''test-error'',
        Message = ''Test error message''\<rparr>"
    by code_simp
  from do_envelope_status_error [OF h1 h2 h3 h4 _ h6 h7 h8 h9] show ?thesis by simp
qed

theorem do_malformed_body_witness:
  "do (test_server 200 ''{\"status\":\"success\",\"time\":0.123,\"flags\":{},\"data\":invalid-json}'')
      (NewClient ''k'') ''POST'' ''/test'' GoNil =
     Inl (WrappedError ''error unmarshaling response'' (EJson SyntaxError))"
proof -
  let ?b = "''{\"status\":\"success\",\"time\":0.123,\"flags\":{},\"data\":invalid-json}''"
  let ?env = "test_server 200 ?b" and ?c = "NewClient ''k''"
  let ?resp = "\<lparr>StatusCode = 200, resp_body = ?b, resp_read_error = None, resp_header_time = 0, resp_body_time = 0\<rparr>"
  have h1: "request_body GoNil = Inr None" by (simp add: request_body_def)
  have h2: "env_new_request ?env ''POST'' (BaseURL ?c @ ''/test'')" by (simp add: test_server_def)
  have h3: "http_client_do ?env (HTTPClient ?c) (build_request ?c ''POST'' (BaseURL ?c @ ''/test'') None) = Inr ?resp"
    by (simp add: http_client_do_def test_server_def build_request_header valid_header_value_def
        timed_out_def NewClient_def)
  have h4: "read_all (HTTPClient ?c) ?resp = Inr ?b" by (simp add: read_all_def timed_out_def)
  have h5: "json_parse ?b = None" by code_simp
  from do_malformed_body [OF h1 h2 h3 h4 h5] show ?thesis by simp
qed

theorem do_invalid_api_key_witness:
  "do (test_server 200 []) (NewClient (''key'' @ [CHR 0x0A])) ''POST'' ''/send/message'' GoNil =
     Inl (WrappedError ''error performing request'' (ENet (InvalidHeaderValue ''X-Server-Api-Key'')))"
proof -
  have h1: "request_body GoNil = Inr None" by (simp add: request_body_def)
  have h2: "env_new_request (test_server 200 []) ''POST'' (BaseURL (NewClient (''key'' @ [CHR 0x0A])) @ ''/send/message'')"
    by (simp add: test_server_def)
  have h3: "env_url_error (test_server 200 []) (BaseURL (NewClient (''key'' @ [CHR 0x0A])) @ ''/send/message'') = None"
    by (simp add: test_server_def)
  have h4: "\<not> valid_header_value (APIKey (NewClient (''key'' @ [CHR 0x0A])))"
    by (simp add: valid_header_value_def NewClient_def)
  show ?thesis by (rule do_invalid_api_key [OF h1 h2 h3 h4])
qed

theorem do_nonpositive_timeout_ignores_delay_witness:
  "do (delay_env 1000000000000 (test_server 200 ''{\"status\":\"success\"}'')) (NewClientWithOptions ''k'' ''http://h'' 0)
      ''POST'' ''/x'' GoNil =
   do (test_server 200 ''{\"status\":\"success\"}'') (NewClientWithOptions ''k'' ''http://h'' 0) ''POST'' ''/x'' GoNil"
proof -
  have "sint (Timeout (HTTPClient (NewClientWithOptions ''k'' ''http://h'' 0))) \<le> 0"
    by (simp add: NewClientWithOptions_def)
  then show ?thesis by (rule do_nonpositive_timeout_ignores_delay)
qed

end
