(* ===== verification/GoTime.thy ===== *)
theory GoTime
  imports GoJson
begin

text \<open>
  \<open>time.Time\<close> as a JSON value (Go's \<open>Time.UnmarshalJSON\<close>): \<open>null\<close> leaves the
  time unchanged, anything but a JSON string is an error, and a string must be an
  RFC 3339 date-time as Go's strict parser reads it (\<open>parseRFC3339\<close>): a four-digit
  year, month, a day that exists in that month, hour, minute and second in range, an
  optional fraction after a period, and \<open>Z\<close> or a numeric offset \<open>+hh:mm\<close>/\<open>-hh:mm\<close>.
  A decoded time keeps its text; its instant is not modelled. Go reads the raw bytes
  between the quotes without unescaping them, so an escaped digit that the model
  accepts after unquoting is refused by Go.
\<close>

type_synonym gotime = string

definition is_leap :: "nat \<Rightarrow> bool" where
  "is_leap y \<longleftrightarrow> y mod 4 = 0 \<and> (y mod 100 \<noteq> 0 \<or> y mod 400 = 0)"

definition days_in :: "nat \<Rightarrow> nat \<Rightarrow> nat" where
  "days_in m y =
     (if m = 2 then (if is_leap y then 29 else 28)
      else if m = 4 \<or> m = 6 \<or> m = 9 \<or> m = 11 then 30
      else 31)"

text \<open>Go's \<open>parseUint\<close>: all digits and within \<open>[lo, hi]\<close>.\<close>

definition num_in :: "string \<Rightarrow> nat \<Rightarrow> nat \<Rightarrow> bool" where
  "num_in s lo hi \<longleftrightarrow> s \<noteq> [] \<and> list_all is_digit s \<and> lo \<le> nat_of_digits s \<and> nat_of_digits s \<le> hi"

definition slice :: "string \<Rightarrow> nat \<Rightarrow> nat \<Rightarrow> string" where
  "slice s i j = take (j - i) (drop i s)"

definition rfc3339_zone_ok :: "string \<Rightarrow> bool" where
  "rfc3339_zone_ok z \<longleftrightarrow>
     z = ''Z'' \<or>
     (length z = 6 \<and> (z ! 0 = CHR ''+'' \<or> z ! 0 = CHR ''-'') \<and> z ! 3 = CHR '':'' \<and>
      num_in (slice z 1 3) 0 23 \<and> num_in (slice z 4 6) 0 59)"

definition rfc3339_ok :: "string \<Rightarrow> bool" where
  "rfc3339_ok s \<longleftrightarrow>
     19 \<le> length s \<and>
     num_in (slice s 0 4) 0 9999 \<and> num_in (slice s 5 7) 1 12 \<and>
     num_in (slice s 8 10) 1 (days_in (nat_of_digits (slice s 5 7)) (nat_of_digits (slice s 0 4))) \<and>
     num_in (slice s 11 13) 0 23 \<and> num_in (slice s 14 16) 0 59 \<and> num_in (slice s 17 19) 0 59 \<and>
     s ! 4 = CHR ''-'' \<and> s ! 7 = CHR ''-'' \<and> s ! 10 = CHR ''T'' \<and> s ! 13 = CHR '':'' \<and> s ! 16 = CHR '':'' \<and>
     (let r = drop 19 s;
          z = (if 2 \<le> length r \<and> r ! 0 = CHR ''.'' \<and> is_digit (r ! 1)
               then dropWhile is_digit (drop 1 r) else r)
      in rfc3339_zone_ok z)"

definition dec_time :: "gotime decoder" where
  "dec_time j cur =
     (case j of
        JNull \<Rightarrow> Inr cur
      | JString s \<Rightarrow> if rfc3339_ok s then Inr s else Inl TimeParseError
      | _ \<Rightarrow> Inl TimeParseError)"

end
