(* ===== verification/Models.thy ===== *)
theory Models
  imports GoTime
begin

text \<open>
  The data transfer objects of package \<open>models\<close>: \<open>src/models/message.go\<close>
  (\<open>Message\<close>, \<open>MessageStatus\<close>, \<open>MessageDetails\<close>, \<open>Attachment\<close>,
  \<open>Delivery\<close>) and the file \<open>models/send.go\<close>, which the repository ships inside
  \<open>src/README.md\<close> (lines 861 to 954: \<open>SendMessageRequest\<close>,
  \<open>SendRawRequest\<close>, \<open>SendMessageResponse\<close>). Each struct is a record; its JSON
  tags become a field table for decoding (name and Go kind of each field, in
  declaration order) and, for the request types, an encoder that follows
  \<open>omitempty\<close>. Go's zero value of each struct is \<open><Type>_zero\<close>.
\<close>

subsection \<open>models/message.go\<close>

text \<open>\<open>MessageStatus\<close> and \<open>MessageDetails\<close> are empty structs (placeholders in the
  source): a JSON object of any members decodes into them.\<close>

datatype MessageStatus = MessageStatus
datatype MessageDetails = MessageDetails

record Attachment =
  Name :: string
  ContentType :: string
  Data :: string
  Size :: goint

record Message =
  ID :: goint
  Token :: string
  Status :: "MessageStatus option"
  Details :: "MessageDetails option"
  Inspection :: raw_message
  PlainBody :: string
  HTMLBody :: string
  Attachments :: "Attachment slice"
  Headers :: "string gomap"
  RawMessage :: string

record Delivery =
  ID :: goint
  Status :: string
  Details :: string
  Output :: string
  SentWithSSL :: bool
  LogID :: goint
  Time :: float64
  Timestamp :: gotime

definition Attachment_zero :: Attachment where
  "Attachment_zero = \<lparr>Name = [], ContentType = [], Attachment.Data = [], Size = 0\<rparr>"

definition Message_zero :: Message where
  "Message_zero =
     \<lparr>Message.ID = 0, Message.Token = [], Message.Status = None, Message.Details = None,
      Inspection = None, Message.PlainBody = [], Message.HTMLBody = [], Message.Attachments = None,
      Message.Headers = None, RawMessage = []\<rparr>"

text \<open>The zero \<open>time.Time\<close> keeps no text here; it is written as the empty string.\<close>

definition Delivery_zero :: Delivery where
  "Delivery_zero =
     \<lparr>Delivery.ID = 0, Delivery.Status = [], Delivery.Details = [], Output = [], SentWithSSL = False,
      LogID = 0, Delivery.Time = [], Timestamp = []\<rparr>"

definition MessageStatus_fields :: "MessageStatus field list" where
  "MessageStatus_fields = []"

definition MessageDetails_fields :: "MessageDetails field list" where
  "MessageDetails_fields = []"

definition Attachment_fields :: "Attachment field list" where
  "Attachment_fields =
     [field ''name'' Name Name_update dec_string,
      field ''content_type'' ContentType ContentType_update dec_string,
      field ''data'' Attachment.Data Attachment.Data_update dec_string,
      field ''size'' Size Size_update dec_int]"

definition Message_fields :: "Message field list" where
  "Message_fields =
     [field ''id'' Message.ID Message.ID_update dec_int,
      field ''token'' Message.Token Message.Token_update dec_string,
      field ''status'' Message.Status Message.Status_update
        (dec_ptr MessageStatus (dec_struct MessageStatus_fields)),
      field ''details'' Message.Details Message.Details_update
        (dec_ptr MessageDetails (dec_struct MessageDetails_fields)),
      field ''inspection'' Inspection Inspection_update dec_raw,
      field ''plain_body'' Message.PlainBody Message.PlainBody_update dec_string,
      field ''html_body'' Message.HTMLBody Message.HTMLBody_update dec_string,
      field ''attachments'' Message.Attachments Message.Attachments_update
        (dec_slice Attachment_zero (dec_struct Attachment_fields)),
      field ''headers'' Message.Headers Message.Headers_update (dec_map [] dec_string),
      field ''raw_message'' RawMessage RawMessage_update dec_string]"

definition Delivery_fields :: "Delivery field list" where
  "Delivery_fields =
     [field ''id'' Delivery.ID Delivery.ID_update dec_int,
      field ''status'' Delivery.Status Delivery.Status_update dec_string,
      field ''details'' Delivery.Details Delivery.Details_update dec_string,
      field ''output'' Output Output_update dec_string,
      field ''sent_with_ssl'' SentWithSSL SentWithSSL_update dec_bool,
      field ''log_id'' LogID LogID_update dec_int,
      field ''time'' Delivery.Time Delivery.Time_update dec_float,
      field ''timestamp'' Timestamp Timestamp_update dec_time]"

definition enc_Attachment :: "Attachment \<Rightarrow> json" where
  "enc_Attachment a =
     JObject [(''name'', JString (Name a)), (''content_type'', JString (ContentType a)),
              (''data'', JString (Attachment.Data a)), (''size'', enc_int (Size a))]"

subsection \<open>models/send.go\<close>

record SendMessageRequest =
  To :: "string slice"
  CC :: "string slice"
  BCC :: "string slice"
  From :: string
  Sender :: string
  Subject :: string
  Tag :: string
  ReplyTo :: string
  PlainBody :: string
  HTMLBody :: string
  Attachments :: "Attachment slice"
  Headers :: "string gomap"
  Bounce :: bool

record SendRawRequest =
  MailFrom :: string
  RcptTo :: "string slice"
  Data :: string
  Bounce :: bool

record SendMessageResponse =
  MessageID :: goint
  Token :: string

definition SendMessageResponse_zero :: SendMessageResponse where
  "SendMessageResponse_zero = \<lparr>MessageID = 0, SendMessageResponse.Token = []\<rparr>"

definition SendMessageResponse_fields :: "SendMessageResponse field list" where
  "SendMessageResponse_fields =
     [field ''message_id'' MessageID MessageID_update dec_int,
      field ''token'' SendMessageResponse.Token SendMessageResponse.Token_update dec_string]"

text \<open>Decoding the request structs, as \<open>json.Unmarshal\<close> does with their tags (what a
  Go server built on this package reads from a request body).\<close>

definition SendMessageRequest_zero :: SendMessageRequest where
  "SendMessageRequest_zero =
     \<lparr>To = None, CC = None, BCC = None, From = [], Sender = [], Subject = [], Tag = [],
      ReplyTo = [], SendMessageRequest.PlainBody = [], SendMessageRequest.HTMLBody = [],
      SendMessageRequest.Attachments = None, SendMessageRequest.Headers = None,
      SendMessageRequest.Bounce = False\<rparr>"

definition SendMessageRequest_fields :: "SendMessageRequest field list" where
  "SendMessageRequest_fields =
     [field ''to'' To To_update (dec_slice [] dec_string),
      field ''cc'' CC CC_update (dec_slice [] dec_string),
      field ''bcc'' BCC BCC_update (dec_slice [] dec_string),
      field ''from'' From From_update dec_string,
      field ''sender'' Sender Sender_update dec_string,
      field ''subject'' Subject Subject_update dec_string,
      field ''tag'' Tag Tag_update dec_string,
      field ''reply_to'' ReplyTo ReplyTo_update dec_string,
      field ''plain_body'' SendMessageRequest.PlainBody SendMessageRequest.PlainBody_update dec_string,
      field ''html_body'' SendMessageRequest.HTMLBody SendMessageRequest.HTMLBody_update dec_string,
      field ''attachments'' SendMessageRequest.Attachments SendMessageRequest.Attachments_update
        (dec_slice Attachment_zero (dec_struct Attachment_fields)),
      field ''headers'' SendMessageRequest.Headers SendMessageRequest.Headers_update (dec_map [] dec_string),
      field ''bounce'' SendMessageRequest.Bounce SendMessageRequest.Bounce_update dec_bool]"

definition SendRawRequest_zero :: SendRawRequest where
  "SendRawRequest_zero = \<lparr>MailFrom = [], RcptTo = None, SendRawRequest.Data = [], SendRawRequest.Bounce = False\<rparr>"

definition SendRawRequest_fields :: "SendRawRequest field list" where
  "SendRawRequest_fields =
     [field ''mail_from'' MailFrom MailFrom_update dec_string,
      field ''rcpt_to'' RcptTo RcptTo_update (dec_slice [] dec_string),
      field ''data'' SendRawRequest.Data SendRawRequest.Data_update dec_string,
      field ''bounce'' SendRawRequest.Bounce SendRawRequest.Bounce_update dec_bool]"

text \<open>\<open>json.Marshal\<close> of the request structs: every field in declaration order, the
  \<open>omitempty\<close> ones left out when empty (nil or empty slice or map, empty string,
  \<open>false\<close>).\<close>

definition enc_SendMessageRequest :: "SendMessageRequest \<Rightarrow> json" where
  "enc_SendMessageRequest r =
     JObject
      (enc_field ''to'' False (slice_empty (To r)) (enc_slice JString (To r)) @
       enc_field ''cc'' True (slice_empty (CC r)) (enc_slice JString (CC r)) @
       enc_field ''bcc'' True (slice_empty (BCC r)) (enc_slice JString (BCC r)) @
       enc_field ''from'' False (From r = []) (JString (From r)) @
       enc_field ''sender'' True (Sender r = []) (JString (Sender r)) @
       enc_field ''subject'' False (Subject r = []) (JString (Subject r)) @
       enc_field ''tag'' True (Tag r = []) (JString (Tag r)) @
       enc_field ''reply_to'' True (ReplyTo r = []) (JString (ReplyTo r)) @
       enc_field ''plain_body'' True (SendMessageRequest.PlainBody r = [])
         (JString (SendMessageRequest.PlainBody r)) @
       enc_field ''html_body'' True (SendMessageRequest.HTMLBody r = [])
         (JString (SendMessageRequest.HTMLBody r)) @
       enc_field ''attachments'' True (slice_empty (SendMessageRequest.Attachments r))
         (enc_slice enc_Attachment (SendMessageRequest.Attachments r)) @
       enc_field ''headers'' True (map_empty (SendMessageRequest.Headers r))
         (enc_map JString (SendMessageRequest.Headers r)) @
       enc_field ''bounce'' True (\<not> SendMessageRequest.Bounce r) (JBool (SendMessageRequest.Bounce r)))"

definition enc_SendRawRequest :: "SendRawRequest \<Rightarrow> json" where
  "enc_SendRawRequest r =
     JObject
      (enc_field ''mail_from'' False (MailFrom r = []) (JString (MailFrom r)) @
       enc_field ''rcpt_to'' False (slice_empty (RcptTo r)) (enc_slice JString (RcptTo r)) @
       enc_field ''data'' False (SendRawRequest.Data r = []) (JString (SendRawRequest.Data r)) @
       enc_field ''bounce'' True (\<not> SendRawRequest.Bounce r) (JBool (SendRawRequest.Bounce r)))"


subsection \<open>What decoding a send response computes\<close>

lemma fold_name_SendMessageResponse_names [simp]:
  "fold_name ''message_id'' = ''MESSAGE_ID''" "fold_name ''token'' = ''TOKEN''"
  by code_simp+

lemma SendMessageResponse_fields_distinct: "distinct (map (fold_name \<circ> fst) SendMessageResponse_fields)"
  by (simp add: SendMessageResponse_fields_def)

lemma SendMessageResponse_fields_keep:
  "f \<in> set SendMessageResponse_fields \<Longrightarrow> snd f v x = Inr x' \<Longrightarrow>
     (fold_name (fst f) \<noteq> fold_name ''message_id'' \<longrightarrow> MessageID x' = MessageID x) \<and>
     (fold_name (fst f) \<noteq> fold_name ''token'' \<longrightarrow> SendMessageResponse.Token x' = SendMessageResponse.Token x)"
  by (auto simp: SendMessageResponse_fields_def field_def split: sum.splits)

lemma SendMessageResponse_members:
  assumes "dec_members SendMessageResponse_fields ms r = Inr r'"
  shows "r' = \<lparr>MessageID = member_int ''message_id'' ms (MessageID r),
               SendMessageResponse.Token = member_string ''token'' ms (SendMessageResponse.Token r)\<rparr>"
proof -
  have "MessageID r' = member_int ''message_id'' ms (MessageID r)"
  proof (rule dec_members_int_field [OF assms, where upd = MessageID_update])
    fix k assume "fold_name k = fold_name ''message_id''"
    then show "field_lookup SendMessageResponse_fields k = Some (snd (field ''message_id'' MessageID MessageID_update dec_int))"
      by (intro field_lookup_unique [OF SendMessageResponse_fields_distinct]) (simp_all add: SendMessageResponse_fields_def)
  qed (auto dest!: field_lookup_SomeD dest: SendMessageResponse_fields_keep)
  moreover have "SendMessageResponse.Token r' = member_string ''token'' ms (SendMessageResponse.Token r)"
  proof (rule dec_members_string_field [OF assms, where upd = SendMessageResponse.Token_update])
    fix k assume "fold_name k = fold_name ''token''"
    then show "field_lookup SendMessageResponse_fields k = Some (snd (field ''token'' SendMessageResponse.Token SendMessageResponse.Token_update dec_string))"
      by (intro field_lookup_unique [OF SendMessageResponse_fields_distinct]) (simp_all add: SendMessageResponse_fields_def)
  qed (auto dest!: field_lookup_SomeD dest: SendMessageResponse_fields_keep)
  ultimately show ?thesis by simp
qed


lemma SendMessageResponse_lookup_message_id:
  "field_lookup SendMessageResponse_fields ''message_id'' =
     Some (snd (field ''message_id'' MessageID MessageID_update dec_int))"
  by (intro field_lookup_unique [OF SendMessageResponse_fields_distinct]) (simp_all add: SendMessageResponse_fields_def)

text \<open>C16: a \<open>message_id\<close> member holding an integer literal decodes exactly when
  the integer fits in \<open>int64\<close>, and then the message ID reads back, as a signed 64-bit
  value, as that integer; a larger one is an error, never a wrapped value.\<close>

theorem SendMessageResponse_message_id:
  assumes "int_of_lit l = Some n"
  shows "dec_struct SendMessageResponse_fields (JObject [(''message_id'', JNumber l)]) SendMessageResponse_zero = Inr x \<longleftrightarrow>
     - (2 ^ 63) \<le> n \<and> n < 2 ^ 63 \<and> sint (MessageID x) = n \<and> SendMessageResponse.Token x = []"
proof -
  have "(word_of_int n = MessageID x) \<longleftrightarrow> sint (MessageID x) = n" if "- (2 ^ 63) \<le> n" "n < 2 ^ 63"
  proof
    assume "word_of_int n = MessageID x"
    then have "sint (MessageID x) = signed_take_bit (LENGTH(64) - 1) n" by (metis sint_sbintrunc')
    with that show "sint (MessageID x) = n" by (simp add: signed_take_bit_int_eq_self_iff)
  next
    assume "sint (MessageID x) = n"
    then show "word_of_int n = MessageID x" by (metis scast_eq scast_id)
  qed
  then show ?thesis
    using assms
    by (cases x) (auto simp: dec_struct_def SendMessageResponse_lookup_message_id field_def dec_int_def
        int64_of_lit_def SendMessageResponse_zero_def)
qed

theorem SendMessageResponse_message_id_witness:
  "dec_struct SendMessageResponse_fields (JObject [(''message_id'', JNumber ''9223372036854775807'')]) SendMessageResponse_zero
     = Inr \<lparr>MessageID = 9223372036854775807, SendMessageResponse.Token = []\<rparr> \<longleftrightarrow>
   - (2 ^ 63) \<le> (9223372036854775807::int) \<and> (9223372036854775807::int) < 2 ^ 63 \<and>
   sint (MessageID \<lparr>MessageID = 9223372036854775807::goint, SendMessageResponse.Token = []\<rparr>) = 9223372036854775807 \<and>
   SendMessageResponse.Token \<lparr>MessageID = 9223372036854775807::goint, SendMessageResponse.Token = []\<rparr> = []"
proof -
  have "int_of_lit ''9223372036854775807'' = Some 9223372036854775807"
    by (simp add: int_of_lit_def nat_of_digits_def digit_val_def is_digit_def)
  then show ?thesis by (rule SendMessageResponse_message_id)
qed

end
