(* ===== verification/Messages.thy ===== *)
theory Messages
  imports Client Models
begin

text \<open>
  The endpoint methods of \<open>messages.go\<close> (the file \<open>src/unnamed/part_001\<close>): each
  builds its request body, calls \<open>post\<close> with its fixed path and decodes the
  envelope's \<open>data\<close> into its result type, wrapping a decoding failure. The pointer
  arguments of \<open>SendMessage\<close> and \<open>SendRaw\<close> may be nil (\<open>None\<close>):
  \<open>json.Marshal\<close> of a nil pointer is \<open>null\<close>, and a nil pointer stored in an
  \<open>interface{}\<close> is not a nil interface, so \<open>do\<close> still sends that body.
\<close>

text \<open>\<open>map[string]interface{}{"id": id}\<close>, as \<open>json.Marshal\<close> encodes it.\<close>

definition id_body :: "goint \<Rightarrow> go_value" where
  "id_body i = GoEncodable (JObject [(''id'', enc_int i)])"

definition GetMessage :: "http_env \<Rightarrow> Client \<Rightarrow> goint \<Rightarrow> client_error + Message" where
  "GetMessage env c i =
     (case post env c ''/messages/message'' (id_body i) of
        Inl e \<Rightarrow> Inl e
      | Inr resp \<Rightarrow>
          (case unmarshal_raw (dec_struct Message_fields) Message_zero (Response.Data resp) of
             Inl e \<Rightarrow> Inl (WrappedError ''error unmarshaling response'' (EJson e))
           | Inr message \<Rightarrow> Inr message))"

definition GetMessageDeliveries :: "http_env \<Rightarrow> Client \<Rightarrow> goint \<Rightarrow> client_error + Delivery slice" where
  "GetMessageDeliveries env c i =
     (case post env c ''/messages/deliveries'' (id_body i) of
        Inl e \<Rightarrow> Inl e
      | Inr resp \<Rightarrow>
          (case unmarshal_raw (dec_slice Delivery_zero (dec_struct Delivery_fields)) None (Response.Data resp) of
             Inl e \<Rightarrow> Inl (WrappedError ''error unmarshaling response'' (EJson e))
           | Inr deliveries \<Rightarrow> Inr deliveries))"

definition SendMessage :: "http_env \<Rightarrow> Client \<Rightarrow> SendMessageRequest option \<Rightarrow> client_error + SendMessageResponse" where
  "SendMessage env c req =
     (case post env c ''/send/message''
             (GoEncodable (case req of None \<Rightarrow> JNull | Some r \<Rightarrow> enc_SendMessageRequest r)) of
        Inl e \<Rightarrow> Inl e
      | Inr resp \<Rightarrow>
          (case unmarshal_raw (dec_struct SendMessageResponse_fields) SendMessageResponse_zero (Response.Data resp) of
             Inl e \<Rightarrow> Inl (WrappedError ''error unmarshaling send response'' (EJson e))
           | Inr sendResp \<Rightarrow> Inr sendResp))"

definition SendRaw :: "http_env \<Rightarrow> Client \<Rightarrow> SendRawRequest option \<Rightarrow> client_error + SendMessageResponse" where
  "SendRaw env c req =
     (case post env c ''/send/raw''
             (GoEncodable (case req of None \<Rightarrow> JNull | Some r \<Rightarrow> enc_SendRawRequest r)) of
        Inl e \<Rightarrow> Inl e
      | Inr resp \<Rightarrow>
          (case unmarshal_raw (dec_struct SendMessageResponse_fields) SendMessageResponse_zero (Response.Data resp) of
             Inl e \<Rightarrow> Inl (WrappedError ''error unmarshaling send response'' (EJson e))
           | Inr sendResp \<Rightarrow> Inr sendResp))"


subsection \<open>Test fixtures\<close>

text \<open>The request of the specification's example, its stub reply, and the raw request of
  \<open>TestSendRaw\<close>.\<close>

definition spec_request :: SendMessageRequest where
  "spec_request =
     \<lparr>To = Some [''a@b.com''], CC = None, BCC = None, From = ''c@d.com'', Sender = [], Subject = [],
      Tag = [], ReplyTo = [], SendMessageRequest.PlainBody = [], SendMessageRequest.HTMLBody = [],
      SendMessageRequest.Attachments = None, SendMessageRequest.Headers = None,
      SendMessageRequest.Bounce = False\<rparr>"

definition spec_reply :: string where
  "spec_reply = ''{\"status\":\"success\",\"data\":{\"message_id\":123,\"token\":\"t\"}}''"

definition raw_request :: SendRawRequest where
  "raw_request =
     \<lparr>MailFrom = ''test@example.com'', RcptTo = Some [''recipient@example.com''],
      SendRawRequest.Data = ''base64-encoded-data'', SendRawRequest.Bounce = False\<rparr>"

subsection \<open>What the endpoints send and return\<close>

lemma id_body_request:
  "request_body (id_body i) = Inr (Some (''{\"id\":'' @ int_lit (sint i) @ ''}''))"
proof -
  have "json_quote ''id'' = ''\"id\"''" by code_simp
  then show ?thesis by (simp add: request_body_def marshal_def id_body_def enc_int_def)
qed

lemma endpoint_Inr:
  assumes "(case post env c p b of
              Inl e \<Rightarrow> Inl e
            | Inr resp \<Rightarrow>
                (case unmarshal_raw d z (Response.Data resp) of
                   Inl e \<Rightarrow> Inl (WrappedError msg (EJson e))
                 | Inr x \<Rightarrow> Inr x)) = Inr x"
  shows "\<exists>bytes resp body ms j. request_body b = Inr bytes \<and>
     env_round_trip env (build_request c ''POST'' (BaseURL c @ p) bytes) = Inr resp \<and>
     StatusCode resp = 200 \<and> read_all (HTTPClient c) resp = Inr body \<and>
     json_parse body = Some (JObject ms) \<and> member_string ''status'' ms [] = ''success'' \<and>
     member_value ''data'' ms None = Some j \<and> d j z = Inr x"
proof -
  from assms obtain r where r: "do env c ''POST'' p b = Inr r"
    and dx: "unmarshal_raw d z (Response.Data r) = Inr x"
    by (auto simp: post_def MethodPost_def split: sum.splits)
  from dx obtain j where "Response.Data r = Some j" and "d j z = Inr x"
    by (auto simp: unmarshal_raw_def split: option.splits)
  with do_Inr_envelope [OF r] show ?thesis by metis
qed

text \<open>C5: a successful \<open>SendMessage\<close> made exactly one exchange: a POST to the base URL
  plus \<open>/send/message\<close>, with the headers \<open>Content-Type\<close> and \<open>Accept\<close> set to
  \<open>application/json\<close> and \<open>X-Server-Api-Key\<close> to the client's key, carrying the
  \<open>json.Marshal\<close> encoding of the request; the reply was a 200 success envelope and
  the result is read from its \<open>data\<close> member: the zero response for \<open>null\<close>, otherwise
  the last \<open>message_id\<close> and \<open>token\<close> members of the object.\<close>

theorem SendMessage_success:
  assumes "SendMessage env c (Some req) = Inr x"
  shows "\<exists>resp body ms j.
     env_round_trip env
       \<lparr>req_method = ''POST'', req_url = BaseURL c @ ''/send/message'',
        req_header = [(''Content-Type'', [''application/json'']), (''Accept'', [''application/json'']),
                      (''X-Server-Api-Key'', [APIKey c])],
        req_body = Some (json_print (enc_SendMessageRequest req))\<rparr> = Inr resp \<and>
     StatusCode resp = 200 \<and> read_all (HTTPClient c) resp = Inr body \<and>
     json_parse body = Some (JObject ms) \<and> member_string ''status'' ms [] = ''success'' \<and>
     member_value ''data'' ms None = Some j \<and>
     (j = JNull \<and> x = SendMessageResponse_zero \<or>
      (\<exists>dm. j = JObject dm \<and>
         x = \<lparr>MessageID = member_int ''message_id'' dm 0, SendMessageResponse.Token = member_string ''token'' dm []\<rparr>))"
proof -
  from endpoint_Inr [OF assms [unfolded SendMessage_def]] obtain resp body ms j where
    rt: "env_round_trip env (build_request c ''POST'' (BaseURL c @ ''/send/message'')
           (Some (json_print (enc_SendMessageRequest req)))) = Inr resp"
    and rest: "StatusCode resp = 200 \<and> read_all (HTTPClient c) resp = Inr body \<and>
     json_parse body = Some (JObject ms) \<and> member_string ''status'' ms [] = ''success'' \<and>
     member_value ''data'' ms None = Some j"
    and dj: "dec_struct SendMessageResponse_fields j SendMessageResponse_zero = Inr x"
    by (auto simp: request_body_def marshal_def)
  from dj have "j = JNull \<and> x = SendMessageResponse_zero \<or>
      (\<exists>dm. j = JObject dm \<and>
         x = \<lparr>MessageID = member_int ''message_id'' dm 0, SendMessageResponse.Token = member_string ''token'' dm []\<rparr>)"
    by (auto simp: dec_struct_def SendMessageResponse_zero_def dest!: SendMessageResponse_members split: json.splits)
  with rt rest show ?thesis by (auto simp: build_request_eq)
qed

text \<open>C9: a successful \<open>GetMessage\<close> posted \<open>{"id":<id>}\<close> to
  \<open>/messages/message\<close>, got a 200 success envelope, and that envelope has a \<open>data\<close>
  member, which decodes into the returned \<open>Message\<close>.\<close>

theorem GetMessage_success:
  assumes "GetMessage env c i = Inr m"
  shows "\<exists>resp body ms j.
     env_round_trip env (build_request c ''POST'' (BaseURL c @ ''/messages/message'')
       (Some (''{\"id\":'' @ int_lit (sint i) @ ''}''))) = Inr resp \<and>
     StatusCode resp = 200 \<and> read_all (HTTPClient c) resp = Inr body \<and>
     json_parse body = Some (JObject ms) \<and> member_string ''status'' ms [] = ''success'' \<and>
     member_value ''data'' ms None = Some j \<and> dec_struct Message_fields j Message_zero = Inr m"
  using endpoint_Inr [OF assms [unfolded GetMessage_def]] by (simp add: id_body_request)

text \<open>C14: a successful \<open>GetMessageDeliveries\<close> posted \<open>{"id":<id>}\<close> to
  \<open>/messages/deliveries\<close>; a \<open>null\<close> data member gives a nil slice, and an array
  gives one delivery per element, in order, each decoded from a zero \<open>Delivery\<close>.\<close>

theorem GetMessageDeliveries_success:
  assumes "GetMessageDeliveries env c i = Inr ds"
  shows "\<exists>resp body ms j.
     env_round_trip env (build_request c ''POST'' (BaseURL c @ ''/messages/deliveries'')
       (Some (''{\"id\":'' @ int_lit (sint i) @ ''}''))) = Inr resp \<and>
     StatusCode resp = 200 \<and> read_all (HTTPClient c) resp = Inr body \<and>
     json_parse body = Some (JObject ms) \<and> member_string ''status'' ms [] = ''success'' \<and>
     member_value ''data'' ms None = Some j \<and>
     (j = JNull \<and> ds = None \<or>
      (\<exists>vs xs. j = JArray vs \<and> ds = Some xs \<and>
         list_all2 (\<lambda>v x. dec_struct Delivery_fields v Delivery_zero = Inr x) vs xs))"
proof -
  from endpoint_Inr [OF assms [unfolded GetMessageDeliveries_def]] obtain resp body ms j where
    main: "env_round_trip env (build_request c ''POST'' (BaseURL c @ ''/messages/deliveries'')
       (Some (''{\"id\":'' @ int_lit (sint i) @ ''}''))) = Inr resp \<and>
     StatusCode resp = 200 \<and> read_all (HTTPClient c) resp = Inr body \<and>
     json_parse body = Some (JObject ms) \<and> member_string ''status'' ms [] = ''success'' \<and>
     member_value ''data'' ms None = Some j"
    and dj: "dec_slice Delivery_zero (dec_struct Delivery_fields) j None = Inr ds"
    by (auto simp: id_body_request)
  from dj have "j = JNull \<and> ds = None \<or>
      (\<exists>vs xs. j = JArray vs \<and> ds = Some xs \<and>
         list_all2 (\<lambda>v x. dec_struct Delivery_fields v Delivery_zero = Inr x) vs xs)"
    by (auto simp: dec_slice_def split: json.splits sum.splits dest!: dec_elems_Nil_Inr)
  with main show ?thesis by blast
qed


text \<open>C15: a successful \<open>SendRaw\<close> posted the encoded raw request to \<open>/send/raw\<close>
  and its result is read from the envelope's \<open>data\<close> member as for \<open>SendMessage\<close>.\<close>

theorem SendRaw_success:
  assumes "SendRaw env c (Some req) = Inr x"
  shows "\<exists>resp body ms j.
     env_round_trip env (build_request c ''POST'' (BaseURL c @ ''/send/raw'')
       (Some (json_print (enc_SendRawRequest req)))) = Inr resp \<and>
     StatusCode resp = 200 \<and> read_all (HTTPClient c) resp = Inr body \<and>
     json_parse body = Some (JObject ms) \<and> member_string ''status'' ms [] = ''success'' \<and>
     member_value ''data'' ms None = Some j \<and>
     (j = JNull \<and> x = SendMessageResponse_zero \<or>
      (\<exists>dm. j = JObject dm \<and>
         x = \<lparr>MessageID = member_int ''message_id'' dm 0, SendMessageResponse.Token = member_string ''token'' dm []\<rparr>))"
proof -
  from endpoint_Inr [OF assms [unfolded SendRaw_def]] obtain resp body ms j where
    main: "env_round_trip env (build_request c ''POST'' (BaseURL c @ ''/send/raw'')
       (Some (json_print (enc_SendRawRequest req)))) = Inr resp \<and>
     StatusCode resp = 200 \<and> read_all (HTTPClient c) resp = Inr body \<and>
     json_parse body = Some (JObject ms) \<and> member_string ''status'' ms [] = ''success'' \<and>
     member_value ''data'' ms None = Some j"
    and dj: "dec_struct SendMessageResponse_fields j SendMessageResponse_zero = Inr x"
    by (auto simp: request_body_def marshal_def)
  from dj have "j = JNull \<and> x = SendMessageResponse_zero \<or>
      (\<exists>dm. j = JObject dm \<and>
         x = \<lparr>MessageID = member_int ''message_id'' dm 0, SendMessageResponse.Token = member_string ''token'' dm []\<rparr>)"
    by (auto simp: dec_struct_def SendMessageResponse_zero_def dest!: SendMessageResponse_members split: json.splits)
  with main show ?thesis by blast
qed

theorem SendMessage_success_witness:
  "\<exists>resp body ms j.
     env_round_trip (test_server 200 spec_reply)
       \<lparr>req_method = ''POST'', req_url = BaseURL (NewClient ''k'') @ ''/send/message'',
        req_header = [(''Content-Type'', [''application/json'']), (''Accept'', [''application/json'']),
                      (''X-Server-Api-Key'', [APIKey (NewClient ''k'')])],
        req_body = Some (json_print (enc_SendMessageRequest spec_request))\<rparr> = Inr resp \<and>
     StatusCode resp = 200 \<and> read_all (HTTPClient (NewClient ''k'')) resp = Inr body \<and>
     json_parse body = Some (JObject ms) \<and> member_string ''status'' ms [] = ''success'' \<and>
     member_value ''data'' ms None = Some j \<and>
     (j = JNull \<and> \<lparr>MessageID = 123, SendMessageResponse.Token = ''t''\<rparr> = SendMessageResponse_zero \<or>
      (\<exists>dm. j = JObject dm \<and>
         \<lparr>MessageID = 123, SendMessageResponse.Token = ''t''\<rparr> =
           \<lparr>MessageID = member_int ''message_id'' dm 0, SendMessageResponse.Token = member_string ''token'' dm []\<rparr>))"
proof -
  have h: "SendMessage (test_server 200 spec_reply) (NewClient ''k'') (Some spec_request) =
      Inr \<lparr>MessageID = 123, SendMessageResponse.Token = ''t''\<rparr>"
    by code_simp
  show ?thesis using SendMessage_success [OF h] .
qed

theorem SendRaw_success_witness:
  "\<exists>resp body ms j.
     env_round_trip (test_server 200 spec_reply) (build_request (NewClient ''k'') ''POST''
       (BaseURL (NewClient ''k'') @ ''/send/raw'') (Some (json_print (enc_SendRawRequest raw_request)))) = Inr resp \<and>
     StatusCode resp = 200 \<and> read_all (HTTPClient (NewClient ''k'')) resp = Inr body \<and>
     json_parse body = Some (JObject ms) \<and> member_string ''status'' ms [] = ''success'' \<and>
     member_value ''data'' ms None = Some j \<and>
     (j = JNull \<and> \<lparr>MessageID = 123, SendMessageResponse.Token = ''t''\<rparr> = SendMessageResponse_zero \<or>
      (\<exists>dm. j = JObject dm \<and>
         \<lparr>MessageID = 123, SendMessageResponse.Token = ''t''\<rparr> =
           \<lparr>MessageID = member_int ''message_id'' dm 0, SendMessageResponse.Token = member_string ''token'' dm []\<rparr>))"
proof -
  have h: "SendRaw (test_server 200 spec_reply) (NewClient ''k'') (Some raw_request) =
      Inr \<lparr>MessageID = 123, SendMessageResponse.Token = ''t''\<rparr>"
    by code_simp
  show ?thesis using SendRaw_success [OF h] .
qed

theorem GetMessage_success_witness:
  "\<exists>resp body ms j.
     env_round_trip (test_server 200 ''{\"status\":\"success\",\"data\":{\"id\":5,\"token\":\"abc\"}}'')
       (build_request (NewClient ''k'') ''POST'' (BaseURL (NewClient ''k'') @ ''/messages/message'')
       (Some (''{\"id\":'' @ int_lit (sint (5::goint)) @ ''}''))) = Inr resp \<and>
     StatusCode resp = 200 \<and> read_all (HTTPClient (NewClient ''k'')) resp = Inr body \<and>
     json_parse body = Some (JObject ms) \<and> member_string ''status'' ms [] = ''success'' \<and>
     member_value ''data'' ms None = Some j \<and>
     dec_struct Message_fields j Message_zero = Inr (Message_zero\<lparr>Message.ID := 5, Message.Token := ''abc''\<rparr>)"
proof -
  have h: "GetMessage (test_server 200 ''{\"status\":\"success\",\"data\":{\"id\":5,\"token\":\"abc\"}}'')
      (NewClient ''k'') 5 = Inr (Message_zero\<lparr>Message.ID := 5, Message.Token := ''abc''\<rparr>)"
    by code_simp
  show ?thesis using GetMessage_success [OF h] .
qed

theorem GetMessageDeliveries_success_witness:
  "\<exists>resp body ms j.
     env_round_trip (test_server 200 ''{\"status\":\"success\",\"data\":null}'')
       (build_request (NewClient ''k'') ''POST'' (BaseURL (NewClient ''k'') @ ''/messages/deliveries'')
       (Some (''{\"id\":'' @ int_lit (sint (5::goint)) @ ''}''))) = Inr resp \<and>
     StatusCode resp = 200 \<and> read_all (HTTPClient (NewClient ''k'')) resp = Inr body \<and>
     json_parse body = Some (JObject ms) \<and> member_string ''status'' ms [] = ''success'' \<and>
     member_value ''data'' ms None = Some j \<and>
     (j = JNull \<and> (None :: Delivery slice) = None \<or>
      (\<exists>vs xs. j = JArray vs \<and> (None :: Delivery slice) = Some xs \<and>
         list_all2 (\<lambda>v x. dec_struct Delivery_fields v Delivery_zero = Inr x) vs xs))"
proof -
  have h: "GetMessageDeliveries (test_server 200 ''{\"status\":\"success\",\"data\":null}'') (NewClient ''k'') 5 = Inr None"
    by code_simp
  show ?thesis using GetMessageDeliveries_success [OF h] .
qed


lemma do_request_blind:
  assumes "env_url_error env = (\<lambda>u. None)" "env_new_request env = (\<lambda>m u. True)"
    and "env_round_trip env = (\<lambda>req. rt)"
  shows "do env c m p1 (GoEncodable j1) = do env c m p2 (GoEncodable j2)"
proof -
  have h: "http_client_do env (HTTPClient c) (build_request c m (BaseURL c @ p1) (Some (json_print j1))) =
      http_client_do env (HTTPClient c) (build_request c m (BaseURL c @ p2) (Some (json_print j2)))"
    by (simp add: http_client_do_def build_request_def assms(1,3) split: option.split)
  then show ?thesis by (simp add: do_def request_body_def marshal_def assms(2) h)
qed

text \<open>C27: \<open>SendRaw\<close> handles a response exactly as \<open>SendMessage\<close> does (the two
  methods share the envelope check of \<open>do\<close> and decode \<open>data\<close> into a
  \<open>SendMessageResponse\<close> with the same error prefix). Against a server whose reply does
  not depend on the request, with no URL or request-creation failure, the two methods
  return the same result for any two requests, nil or not.\<close>

theorem SendRaw_SendMessage_equiv:
  assumes "env_url_error env = (\<lambda>u. None)" "env_new_request env = (\<lambda>m u. True)"
    and "env_round_trip env = (\<lambda>req. rt)"
  shows "SendRaw env c r' = SendMessage env c r"
proof -
  have "post env c ''/send/raw'' (GoEncodable (case r' of None \<Rightarrow> JNull | Some x \<Rightarrow> enc_SendRawRequest x)) =
        post env c ''/send/message'' (GoEncodable (case r of None \<Rightarrow> JNull | Some x \<Rightarrow> enc_SendMessageRequest x))"
    unfolding post_def by (rule do_request_blind [OF assms])
  then show ?thesis by (simp add: SendRaw_def SendMessage_def)
qed

theorem SendRaw_SendMessage_equiv_witness:
  "env_url_error (test_server 200 spec_reply) = (\<lambda>u. None) \<and> env_new_request (test_server 200 spec_reply) = (\<lambda>m u. True) \<and>
   env_round_trip (test_server 200 spec_reply) =
     (\<lambda>req. Inr \<lparr>StatusCode = 200, resp_body = spec_reply, resp_read_error = None, resp_header_time = 0, resp_body_time = 0\<rparr>) \<and>
   SendRaw (test_server 200 spec_reply) (NewClient ''k'') (Some raw_request) =
     SendMessage (test_server 200 spec_reply) (NewClient ''k'') (Some spec_request)"
proof -
  have a: "env_url_error (test_server 200 spec_reply) = (\<lambda>u. None)" "env_new_request (test_server 200 spec_reply) = (\<lambda>m u. True)"
    "env_round_trip (test_server 200 spec_reply) =
     (\<lambda>req. Inr \<lparr>StatusCode = 200, resp_body = spec_reply, resp_read_error = None, resp_header_time = 0, resp_body_time = 0\<rparr>)"
    by (simp_all add: test_server_def)
  show ?thesis using a SendRaw_SendMessage_equiv [OF a] by simp
qed

text \<open>C10: a success envelope without a \<open>data\<close> member makes every endpoint fail with
  a syntax error (\<open>json.Unmarshal\<close> of an empty \<open>RawMessage\<close>), under its own
  prefix, while \<open>"data": null\<close> gives the zero result without error: the zero
  \<open>Message\<close>, a nil slice of deliveries, the zero \<open>SendMessageResponse\<close>. This holds
  for every server, client and request.\<close>

theorem endpoints_data_absent_or_null:
  "(post env c ''/messages/message'' (id_body i) = Inr resp \<longrightarrow>
      (Response.Data resp = None \<longrightarrow> GetMessage env c i = Inl (WrappedError ''error unmarshaling response'' (EJson SyntaxError))) \<and>
      (Response.Data resp = Some JNull \<longrightarrow> GetMessage env c i = Inr Message_zero)) \<and>
   (post env c ''/messages/deliveries'' (id_body i) = Inr resp \<longrightarrow>
      (Response.Data resp = None \<longrightarrow> GetMessageDeliveries env c i = Inl (WrappedError ''error unmarshaling response'' (EJson SyntaxError))) \<and>
      (Response.Data resp = Some JNull \<longrightarrow> GetMessageDeliveries env c i = Inr None)) \<and>
   (post env c ''/send/message'' (GoEncodable (case r of None \<Rightarrow> JNull | Some x \<Rightarrow> enc_SendMessageRequest x)) = Inr resp \<longrightarrow>
      (Response.Data resp = None \<longrightarrow> SendMessage env c r = Inl (WrappedError ''error unmarshaling send response'' (EJson SyntaxError))) \<and>
      (Response.Data resp = Some JNull \<longrightarrow> SendMessage env c r = Inr SendMessageResponse_zero)) \<and>
   (post env c ''/send/raw'' (GoEncodable (case r' of None \<Rightarrow> JNull | Some x \<Rightarrow> enc_SendRawRequest x)) = Inr resp \<longrightarrow>
      (Response.Data resp = None \<longrightarrow> SendRaw env c r' = Inl (WrappedError ''error unmarshaling send response'' (EJson SyntaxError))) \<and>
      (Response.Data resp = Some JNull \<longrightarrow> SendRaw env c r' = Inr SendMessageResponse_zero))"
  by (simp add: GetMessage_def GetMessageDeliveries_def SendMessage_def SendRaw_def unmarshal_raw_def
      dec_struct_def dec_slice_def)

theorem endpoints_data_absent_or_null_witness:
  "post (test_server 200 ''{\"status\":\"success\"}'') (NewClient ''k'') ''/messages/message'' (id_body 5) = Inr \<lparr>Response.Status = ''success'', Response.Time = [], Response.Flags = None, Response.Data = None\<rparr> \<and>
   GetMessage (test_server 200 ''{\"status\":\"success\"}'') (NewClient ''k'') 5 = Inl (WrappedError ''error unmarshaling response'' (EJson SyntaxError))"
proof -
  have h: "post (test_server 200 ''{\"status\":\"success\"}'') (NewClient ''k'') ''/messages/message'' (id_body 5) = Inr \<lparr>Response.Status = ''success'', Response.Time = [], Response.Flags = None, Response.Data = None\<rparr>"
    by code_simp
  show ?thesis
    using h endpoints_data_absent_or_null [where env = "test_server 200 ''{\"status\":\"success\"}''" and c = "NewClient ''k''" and i = 5
        and resp = "\<lparr>Response.Status = ''success'', Response.Time = [], Response.Flags = None, Response.Data = None\<rparr>"] by simp
qed

text \<open>C11: a \<open>data\<close> member of the wrong JSON kind (neither an object nor
  \<open>null\<close>) never yields a result: \<open>GetMessage\<close> fails with \<open>error unmarshaling
  response\<close>, and \<open>SendMessage\<close> and \<open>SendRaw\<close> fail with \<open>error unmarshaling
  send response\<close>, each wrapping the type error that names the kind found.\<close>

theorem endpoints_data_wrong_kind:
  assumes "Response.Data resp = Some j" and "j \<noteq> JNull" and "\<not> (\<exists>ms. j = JObject ms)"
  shows "(post env c ''/messages/message'' (id_body i) = Inr resp \<longrightarrow>
      GetMessage env c i = Inl (WrappedError ''error unmarshaling response'' (EJson (UnmarshalTypeError (json_kind j))))) \<and>
   (post env c ''/send/message'' (GoEncodable (case r of None \<Rightarrow> JNull | Some x \<Rightarrow> enc_SendMessageRequest x)) = Inr resp \<longrightarrow>
      SendMessage env c r = Inl (WrappedError ''error unmarshaling send response'' (EJson (UnmarshalTypeError (json_kind j))))) \<and>
   (post env c ''/send/raw'' (GoEncodable (case r' of None \<Rightarrow> JNull | Some x \<Rightarrow> enc_SendRawRequest x)) = Inr resp \<longrightarrow>
      SendRaw env c r' = Inl (WrappedError ''error unmarshaling send response'' (EJson (UnmarshalTypeError (json_kind j)))))"
  using assms by (cases j) (simp_all add: GetMessage_def SendMessage_def SendRaw_def unmarshal_raw_def dec_struct_def)

theorem endpoints_data_wrong_kind_witness:
  "post (test_server 200 ''{\"status\":\"success\",\"data\":\"invalid-json\"}'') (NewClient ''k'') ''/send/message'' (GoEncodable (enc_SendMessageRequest spec_request)) =
     Inr \<lparr>Response.Status = ''success'', Response.Time = [], Response.Flags = None, Response.Data = Some (JString ''invalid-json'')\<rparr> \<and>
   SendMessage (test_server 200 ''{\"status\":\"success\",\"data\":\"invalid-json\"}'') (NewClient ''k'') (Some spec_request) =
     Inl (WrappedError ''error unmarshaling send response'' (EJson (UnmarshalTypeError ''string'')))"
proof -
  have h: "post (test_server 200 ''{\"status\":\"success\",\"data\":\"invalid-json\"}'') (NewClient ''k'') ''/send/message'' (GoEncodable (enc_SendMessageRequest spec_request)) =
     Inr \<lparr>Response.Status = ''success'', Response.Time = [], Response.Flags = None, Response.Data = Some (JString ''invalid-json'')\<rparr>"
    by code_simp
  show ?thesis
    using h endpoints_data_wrong_kind [where resp = "\<lparr>Response.Status = ''success'', Response.Time = [], Response.Flags = None, Response.Data = Some (JString ''invalid-json'')\<rparr>" and j = "JString ''invalid-json''"
        and env = "test_server 200 ''{\"status\":\"success\",\"data\":\"invalid-json\"}''" and c = "NewClient ''k''" and r = "Some spec_request"] by simp
qed

text \<open>C18: \<open>SendMessage\<close> does not refuse a nil request: the nil pointer reaches
  \<open>do\<close> inside a non-nil \<open>interface{}\<close>. Against a server that answers every
  request alike, a nil request gets the same result as any other; and whatever the
  server, the one request \<open>SendMessage\<close> sends for it is the POST with body
  \<open>null\<close>: a network that answers only that request gives the same result.\<close>

theorem SendMessage_nil_request:
  assumes "env_url_error env = (\<lambda>u. None)" and "env_new_request env = (\<lambda>m u. True)"
  shows "(env_round_trip env = (\<lambda>req. rt) \<longrightarrow> SendMessage env c None = SendMessage env c (Some r)) \<and>
    SendMessage env c None =
      SendMessage (env\<lparr>env_round_trip := (\<lambda>req.
          if req = build_request c ''POST'' (BaseURL c @ ''/send/message'') (Some ''null'')
          then env_round_trip env req else Inl ''unexpected request'')\<rparr>) c None"
proof (intro conjI impI)
  assume rt: "env_round_trip env = (\<lambda>req. rt)"
  have "post env c ''/send/message'' (GoEncodable JNull) =
        post env c ''/send/message'' (GoEncodable (enc_SendMessageRequest r))"
    unfolding post_def by (rule do_request_blind [OF assms rt])
  then show "SendMessage env c None = SendMessage env c (Some r)" by (simp add: SendMessage_def)
next
  show "SendMessage env c None =
      SendMessage (env\<lparr>env_round_trip := (\<lambda>req.
          if req = build_request c ''POST'' (BaseURL c @ ''/send/message'') (Some ''null'')
          then env_round_trip env req else Inl ''unexpected request'')\<rparr>) c None"
    by (simp add: SendMessage_def post_def do_def Let_def request_body_def marshal_def http_client_do_def assms MethodPost_def
        split: option.split)
qed

theorem SendMessage_nil_request_witness:
  "env_url_error (test_server 200 spec_reply) = (\<lambda>u. None) \<and> env_new_request (test_server 200 spec_reply) = (\<lambda>m u. True) \<and>
   SendMessage (test_server 200 spec_reply) (NewClient ''k'') None =
     SendMessage (test_server 200 spec_reply) (NewClient ''k'') (Some spec_request)"
proof -
  have a: "env_url_error (test_server 200 spec_reply) = (\<lambda>u. None)" "env_new_request (test_server 200 spec_reply) = (\<lambda>m u. True)"
    by (simp_all add: test_server_def)
  have rt: "env_round_trip (test_server 200 spec_reply) =
     (\<lambda>req. Inr \<lparr>StatusCode = 200, resp_body = spec_reply, resp_read_error = None, resp_header_time = 0, resp_body_time = 0\<rparr>)"
    by (simp add: test_server_def)
  from SendMessage_nil_request [OF a, where c = "NewClient ''k''" and r = spec_request
      and rt = "Inr \<lparr>StatusCode = 200, resp_body = spec_reply, resp_read_error = None, resp_header_time = 0, resp_body_time = 0\<rparr>"] rt
  have "SendMessage (test_server 200 spec_reply) (NewClient ''k'') None =
      SendMessage (test_server 200 spec_reply) (NewClient ''k'') (Some spec_request)" by blast
  with a show ?thesis by blast
qed

end
