(* ===== verification/ClientTests.thy ===== *)
theory ClientTests
  imports Client "HOL-Library.Sublist"
begin

text \<open>
  The tests of \<open>client_test.go\<close> (\<open>src/unnamed/part_002\<close>) run against the model.
  A test is the list of failures it reports, and it passes when the list is empty:
  \<^item> \<open>t.Errorf\<close> appends its message;
  \<^item> \<open>t.Fatal\<close> ends the test with its message.

  A message is recorded by its fixed text. An \<open>httptest\<close> server is an environment
  whose \<open>http.NewRequest\<close> is \<open>go_new_request\<close> and whose round trip is the
  handler's reply. A check the handler makes on the request it receives is applied to
  \<open>sent_request\<close>, the one request \<open>do\<close> hands to the transport
  (\<open>do_only_sent_request\<close>).

  The assertion \<open>strings.Contains(err.Error(), s)\<close> is read through
  \<open>Error_text\<close>, the part of the text this package writes. The cause's own text,
  which follows that part, is not modelled, so a passing verdict is sufficient for the
  real test to pass. White space inside the JSON bodies is written as single spaces.
\<close>

subsection \<open>The test harness\<close>

text \<open>\<open>t.Errorf\<close> when a condition fails.\<close>

definition check :: "bool \<Rightarrow> string \<Rightarrow> string list" where
  "check b msg = (if b then [] else [msg])"

text \<open>\<open>httptest.NewServer\<close> with a handler, and the reply its handler writes.\<close>

definition httptest_env :: "(http_request \<Rightarrow> http_response) \<Rightarrow> http_env" where
  "httptest_env h = \<lparr>env_new_request = go_new_request, env_url_error = (\<lambda>u. None),
     env_round_trip = (\<lambda>req. Inr (h req))\<rparr>"

definition reply :: "int \<Rightarrow> string \<Rightarrow> http_response" where
  "reply st body = \<lparr>StatusCode = st, resp_body = body, resp_read_error = None,
     resp_header_time = 0, resp_body_time = 0\<rparr>"

definition server_URL :: string where
  "server_URL = ''http://127.0.0.1:8080''"

definition test_client :: Client where
  "test_client = (NewClient ''test-api-key'')\<lparr>BaseURL := server_URL\<rparr>"

subsection \<open>The tests\<close>

definition TestNewClient :: "string list" where
  "TestNewClient =
     (let apiKey = ''test-api-key''; client = NewClient apiKey in
      check (APIKey client = apiKey) ''Expected APIKey to be test-api-key'' @
      check (BaseURL client = DefaultBaseURL) ''Expected BaseURL to be DefaultBaseURL'' @
      check (Timeout (HTTPClient client) = DefaultTimeout) ''Expected HTTPClient.Timeout to be DefaultTimeout'')"

definition TestNewClientWithOptions :: "string list" where
  "TestNewClientWithOptions =
     (let apiKey = ''test-api-key''; baseURL = ''https://custom.example.com/api/v1'';
          timeout = 60 * Second; client = NewClientWithOptions apiKey baseURL timeout in
      check (APIKey client = apiKey) ''Expected APIKey to be test-api-key'' @
      check (BaseURL client = baseURL) ''Expected BaseURL to be https://custom.example.com/api/v1'' @
      check (Timeout (HTTPClient client) = timeout) ''Expected HTTPClient.Timeout to be 1m0s'')"

definition TestClientDo_handler :: "http_request \<Rightarrow> string list" where
  "TestClientDo_handler r =
     check (req_method r = MethodPost) ''Expected request method to be POST'' @
     check (header_get ''Content-Type'' (req_header r) = ''application/json'')
       ''Expected Content-Type header to be application/json'' @
     check (header_get ''Accept'' (req_header r) = ''application/json'')
       ''Expected Accept header to be application/json'' @
     (let apiKey = ''test-api-key'' in
      check (header_get ''X-Server-API-Key'' (req_header r) = apiKey)
        ''Expected X-Server-API-Key header to be test-api-key'')"

definition TestClientDo_body :: string where
  "TestClientDo_body = ''{\"status\": \"success\", \"time\": 0.123, \"flags\": {}, \"data\": {\"test\": \"data\"}}''"

definition TestClientDo :: "string list" where
  "TestClientDo =
     (let env = httptest_env (\<lambda>r. reply 200 TestClientDo_body); client = test_client;
          body = GoEncodable (JObject [(''test'', JString ''data'')]);
          handler = (case sent_request env client MethodPost ''/test'' body of
                       Some r \<Rightarrow> TestClientDo_handler r | None \<Rightarrow> [])
      in handler @
         (case post env client ''/test'' body of
            Inl err \<Rightarrow> [''Expected no error'']
          | Inr resp \<Rightarrow>
              check (Response.Status resp = ''success'') ''Expected response status to be success'' @
              check (Response.Time resp = ''0.123'') ''Expected response time to be 0.123''))"

definition expect_api_error :: "client_error + Response \<Rightarrow> (Error \<Rightarrow> string list) \<Rightarrow> string list" where
  "expect_api_error r k =
     (case r of
        Inr _ \<Rightarrow> [''Expected error, got nil'']
      | Inl (APIError apiErr) \<Rightarrow> k apiErr
      | Inl _ \<Rightarrow> [''Expected error to be of type *Error''])"

definition expect_error_containing :: "client_error + 'a \<Rightarrow> string \<Rightarrow> string list" where
  "expect_error_containing r s =
     (case r of
        Inr _ \<Rightarrow> [''Expected error, got nil'']
      | Inl err \<Rightarrow> check (sublist s (Error_text err)) (''Expected error message to contain '' @ s))"

definition api_error_checks :: "Error \<Rightarrow> string list" where
  "api_error_checks apiErr =
     check (Error.Status apiErr = ''error'') ''Expected error status to be error'' @
     check (Message apiErr = ''Test error message'') ''Expected error message to be Test error message''"

definition TestClientDoError :: "string list" where
  "TestClientDoError =
     expect_api_error (post (httptest_env (\<lambda>r. reply 200 error_body)) test_client ''/test'' GoNil)
       api_error_checks"

definition TestClientDoHTTPError :: "string list" where
  "TestClientDoHTTPError =
     expect_api_error (post (httptest_env (\<lambda>r. reply 500 error_body)) test_client ''/test'' GoNil)
       api_error_checks"

definition TestErrorMethod :: "string list" where
  "TestErrorMethod =
     (let apiErr = \<lparr>Error.Status = ''error'', Error.Time = ''0.123'', Error.Flags = Some (JObject []),
                    Error.Data = Some (JObject [(''error'', JString ''test error'')]),
                    ErrorCode = ''test-error'', Message = ''Test error message''\<rparr>;
          r1 = check (Error_Error apiErr = ''postal API error: error - Test error message'')
                 ''Expected error string to be postal API error: error - Test error message'';
          apiErr = apiErr\<lparr>Message := []\<rparr>;
          r2 = check (Error_Error apiErr = ''postal API error: error - '')
                 ''Expected error string to be postal API error: error - '';
          apiErr = apiErr\<lparr>Error.Status := ''parameter-error'', Message := ''Invalid parameter''\<rparr>;
          r3 = check (Error_Error apiErr = ''postal API error: parameter-error - Invalid parameter'')
                 ''Expected error string to be postal API error: parameter-error - Invalid parameter''
      in r1 @ r2 @ r3)"

text \<open>No server listens behind a client that never gets that far: every exchange fails.\<close>

definition no_server_env :: http_env where
  "no_server_env = \<lparr>env_new_request = go_new_request, env_url_error = (\<lambda>u. None),
     env_round_trip = (\<lambda>req. Inl ''connection refused'')\<rparr>"

definition TestClientDoRequestCreationError :: "string list" where
  "TestClientDoRequestCreationError =
     (let client = (NewClient ''test-api-key'')\<lparr>BaseURL := ''http://invalid-url-with-'' @ [CHR 0x7F] @ ''-character''\<rparr>
      in expect_error_containing (post no_server_env client ''/test'' GoNil) ''error creating request'')"

definition TestClientDoMarshalError :: "string list" where
  "TestClientDoMarshalError =
     (let client = NewClient ''test-api-key''; badBody = GoUnsupported ''chan int''
      in expect_error_containing (post no_server_env client ''/test'' badBody) ''error marshaling request body'')"

text \<open>\<open>mockTransport\<close>: a transport whose \<open>RoundTrip\<close> always fails.\<close>

definition mockTransport_env :: http_env where
  "mockTransport_env = \<lparr>env_new_request = go_new_request, env_url_error = (\<lambda>u. None),
     env_round_trip = (\<lambda>req. Inl ''mock transport error'')\<rparr>"

definition TestClientDoHTTPClientError :: "string list" where
  "TestClientDoHTTPClientError =
     (let client = (NewClient ''test-api-key'')\<lparr>HTTPClient := \<lparr>Timeout = 0\<rparr>\<rparr>
      in expect_error_containing (post mockTransport_env client ''/test'' GoNil) ''error performing request'')"

text \<open>The server of \<open>TestClientDoReadBodyError\<close> writes part of an envelope and closes the
  connection; depending on timing the client reads the partial body or fails reading.\<close>

definition readbody_env :: "string option \<Rightarrow> http_env" where
  "readbody_env rd =
     httptest_env (\<lambda>r. (reply 200 ''{\"status\":\"success\",\"time\":0.123,\"flags\":{}'')\<lparr>resp_read_error := rd\<rparr>)"

definition TestClientDoUnmarshalResponseError :: "string list" where
  "TestClientDoUnmarshalResponseError =
     expect_error_containing
       (post (httptest_env (\<lambda>r. reply 200 ''{\"status\":\"success\",\"time\":0.123,\"flags\":{},\"data\":invalid-json}''))
          test_client ''/test'' GoNil)
       ''error unmarshaling response''"

definition TestClientDoUnmarshalErrorResponseError :: "string list" where
  "TestClientDoUnmarshalErrorResponseError =
     expect_error_containing
       (post (httptest_env (\<lambda>r. reply 200 ''{\"status\":\"error\",\"time\":0.123,\"flags\":{},\"data\":invalid-json}''))
          test_client ''/test'' GoNil)
       ''error unmarshaling response''"

definition TestClientDoHTTPErrorUnmarshalError :: "string list" where
  "TestClientDoHTTPErrorUnmarshalError =
     expect_error_containing
       (post (httptest_env (\<lambda>r. reply 500 ''{\"status\":\"error\",\"time\":0.123,\"flags\":{},\"data\":invalid-json}''))
          test_client ''/test'' GoNil)
       ''error unmarshaling error response''"

subsection \<open>Properties\<close>

lemma expect_api_error_Inl [simp]: "expect_api_error (Inl (APIError e)) k = k e"
  by (simp add: expect_api_error_def)

text \<open>Every test of \<open>client_test.go\<close> passes on the model. The tests cover the two
  constructors, the headers and method of a request, both kinds of API error, the text
  of \<open>Error()\<close>, and the wrapped errors of request creation, marshaling, the
  transport and decoding.\<close>

theorem client_test_go_passes:
  "TestNewClient = [] \<and> TestNewClientWithOptions = [] \<and> TestClientDo = [] \<and>
   TestClientDoError = [] \<and> TestClientDoHTTPError = [] \<and> TestErrorMethod = [] \<and>
   TestClientDoRequestCreationError = [] \<and> TestClientDoMarshalError = [] \<and>
   TestClientDoHTTPClientError = [] \<and> TestClientDoUnmarshalResponseError = [] \<and>
   TestClientDoUnmarshalErrorResponseError = [] \<and> TestClientDoHTTPErrorUnmarshalError = []"
  by code_simp

text \<open>\<open>TestClientDoReadBodyError\<close> asserts nothing because its outcome depends on
  timing. Both outcomes are errors: a read failure is reported as such, and the partial
  body that was read is not JSON.\<close>

theorem readbody_always_error:
  "post (readbody_env rd) test_client ''/test'' GoNil =
     Inl (case rd of
            None \<Rightarrow> WrappedError ''error unmarshaling response'' (EJson SyntaxError)
          | Some m \<Rightarrow> WrappedError ''error reading response body'' (ENet (ReadError m)))"
proof (cases rd)
  case None
  have "post (readbody_env None) test_client ''/test'' GoNil =
      Inl (WrappedError ''error unmarshaling response'' (EJson SyntaxError))"
    by code_simp
  with None show ?thesis by simp
next
  case (Some m)
  have ok: "go_new_request ''POST'' (server_URL @ ''/test'')"
    by (simp add: go_new_request_def valid_method_def is_token_char_def byte_in_def has_ctl_def server_URL_def)
  have hv: "valid_header_value ''test-api-key''" by (simp add: valid_header_value_def)
  from Some ok hv show ?thesis
    by (simp add: post_def MethodPost_def do_def request_body_def readbody_env_def httptest_env_def
        test_client_def NewClient_def http_client_do_def build_request_header valid_header_value_json
        timed_out_def read_all_def reply_def)
qed

text \<open>C20: a base URL or path holding a control byte (the \<open>0x7F\<close> of
  \<open>TestClientDoRequestCreationError\<close>) makes every call fail with \<open>error creating
  request\<close> under the standard \<open>http.NewRequest\<close>, before anything is sent.\<close>

theorem do_ctl_url:
  assumes "env_new_request env = go_new_request" and "has_ctl (BaseURL c @ p)"
    and "request_body b = Inr bytes"
  shows "do env c m p b = Inl (WrappedError ''error creating request'' ENewRequest)"
  using assms by (simp add: do_def go_new_request_def)

theorem do_ctl_url_witness:
  "do no_server_env ((NewClient ''k'')\<lparr>BaseURL := ''http://h'' @ [CHR 0x7F]\<rparr>) ''POST'' ''/test'' GoNil =
     Inl (WrappedError ''error creating request'' ENewRequest)"
proof -
  have "env_new_request no_server_env = go_new_request" by (simp add: no_server_env_def)
  moreover have "has_ctl (BaseURL ((NewClient ''k'')\<lparr>BaseURL := ''http://h'' @ [CHR 0x7F]\<rparr>) @ ''/test'')"
    by (simp add: has_ctl_def)
  moreover have "request_body GoNil = Inr None" by (simp add: request_body_def)
  ultimately show ?thesis by (rule do_ctl_url)
qed

text \<open>\<open>TestClientDoUnmarshalErrorResponseError\<close> does not reach the branch its
  name and comment describe. That branch is a 200 reply with status \<open>error\<close> whose body
  cannot be decoded as an \<open>Error\<close>. The test's body is not JSON, so it fails earlier,
  when the envelope is decoded, with \<open>error unmarshaling response\<close>. The branch itself is
  reachable: a well-formed envelope with status \<open>error\<close> and a numeric
  \<open>error_code\<close> decodes as a \<open>Response\<close> but not as an \<open>Error\<close>, and gives
  \<open>error unmarshaling error response\<close>.\<close>

theorem unmarshal_error_response_reachable:
  "post (httptest_env (\<lambda>r. reply 200 ''{\"status\":\"error\",\"time\":0.123,\"flags\":{},\"data\":invalid-json}''))
     test_client ''/test'' GoNil = Inl (WrappedError ''error unmarshaling response'' (EJson SyntaxError)) \<and>
   post (httptest_env (\<lambda>r. reply 200 ''{\"status\":\"error\",\"error_code\":5}''))
     test_client ''/test'' GoNil =
     Inl (WrappedError ''error unmarshaling error response'' (EJson (UnmarshalTypeError ''number 5'')))"
  by code_simp

end
