(* ===== verification/Base64.thy ===== *)
theory Base64
  imports Prelude
begin

text \<open>
  \<open>encoding/base64\<close> with the standard alphabet and padding (\<open>StdEncoding\<close>), as the
  raw-message example encodes the message text. \<open>base64_encode\<close> follows
  \<open>Encoding.Encode\<close>: whole groups of three bytes become four characters, and a final
  group of one or two bytes is padded with \<open>=\<close>. \<open>base64_decode\<close> is the decoding a
  receiver applies (RFC 4648, without line breaks); the round trip shows that the
  encoding loses nothing.
\<close>

definition b64_alphabet :: string where
  "b64_alphabet = ''ABCDEFGHIJKLMNOPQRSTUVWXYZabcdefghijklmnopqrstuvwxyz0123456789+/''"

definition b64_char :: "nat \<Rightarrow> char" where
  "b64_char k = b64_alphabet ! k"

fun base64_encode :: "string \<Rightarrow> string" where
  "base64_encode (a # b # c # rest) =
     (let val = of_char a * 65536 + of_char b * 256 + of_char c in
      [b64_char (val div 262144 mod 64), b64_char (val div 4096 mod 64),
       b64_char (val div 64 mod 64), b64_char (val mod 64)]) @ base64_encode rest"
| "base64_encode [a, b] =
     (let val = of_char a * 65536 + of_char b * 256 in
      [b64_char (val div 262144 mod 64), b64_char (val div 4096 mod 64),
       b64_char (val div 64 mod 64), CHR ''='']) "
| "base64_encode [a] =
     (let val = of_char a * 65536 in
      [b64_char (val div 262144 mod 64), b64_char (val div 4096 mod 64), CHR ''='', CHR ''=''])"
| "base64_encode [] = []"

definition b64_val :: "char \<Rightarrow> nat option" where
  "b64_val c =
     (let b = (of_char c :: nat) in
      if 65 \<le> b \<and> b \<le> 90 then Some (b - 65)
      else if 97 \<le> b \<and> b \<le> 122 then Some (b - 71)
      else if 48 \<le> b \<and> b \<le> 57 then Some (b + 4)
      else if b = 43 then Some 62
      else if b = 47 then Some 63
      else None)"

fun base64_decode :: "string \<Rightarrow> string option" where
  "base64_decode [] = Some []"
| "base64_decode (c1 # c2 # c3 # c4 # rest) =
     (case (b64_val c1, b64_val c2) of
        (Some v1, Some v2) \<Rightarrow>
          if c3 = CHR ''='' \<and> c4 = CHR ''='' \<and> rest = [] then
            Some [char_of ((v1 * 262144 + v2 * 4096) div 65536)]
          else
            (case b64_val c3 of
               None \<Rightarrow> None
             | Some v3 \<Rightarrow>
                 (let val = v1 * 262144 + v2 * 4096 + v3 * 64 in
                  if c4 = CHR ''='' \<and> rest = [] then
                    Some [char_of (val div 65536), char_of (val div 256 mod 256)]
                  else
                    (case b64_val c4 of
                       None \<Rightarrow> None
                     | Some v4 \<Rightarrow>
                         map_option (\<lambda>t. [char_of ((val + v4) div 65536), char_of ((val + v4) div 256 mod 256),
                                          char_of ((val + v4) mod 256)] @ t)
                           (base64_decode rest))))
      | _ \<Rightarrow> None)"
| "base64_decode _ = None"

subsection \<open>The round trip\<close>

lemma b64_val_chars: "list_all (\<lambda>k. b64_val (b64_char k) = Some k) [0..<64]"
  by (simp add: upt_rec b64_char_def b64_alphabet_def b64_val_def)
lemma mod_64_split: "(x::nat) mod (64 * m) = 64 * (x div 64 mod m) + x mod 64"
  by (simp add: mod_mult2_eq)

lemma b64_sextets:
  fixes x :: nat
  assumes "x < 16777216"
  shows "x div 262144 mod 64 * 262144 + x div 4096 mod 64 * 4096 + x div 64 mod 64 * 64 + x mod 64 = x"
proof -
  have "x = x mod (64 * (64 * (64 * 64)))" using assms by simp
  also have "\<dots> = 64 * (x div 64 mod (64 * (64 * 64))) + x mod 64" by (rule mod_64_split)
  also have "x div 64 mod (64 * (64 * 64)) = 64 * (x div 64 div 64 mod (64 * 64)) + x div 64 mod 64"
    by (rule mod_64_split)
  also have "x div 64 div 64 mod (64 * 64) = 64 * (x div 64 div 64 div 64 mod 64) + x div 64 div 64 mod 64"
    by (rule mod_64_split)
  finally have "x = 64 * (64 * (64 * (x div 64 div 64 div 64 mod 64) + x div 64 div 64 mod 64) + x div 64 mod 64) + x mod 64" .
  moreover have "x div 262144 mod 64 = x div 262144" using assms by simp
  ultimately show ?thesis by (simp add: div_mult2_eq [symmetric] algebra_simps)
qed

lemma mod_256_low: "(c::nat) < 256 \<Longrightarrow> (q * 256 + c) mod 256 = c"
  by simp

lemma bytes3:
  fixes a b c :: nat
  assumes "a < 256" "b < 256" "c < 256"
  shows "(a * 65536 + b * 256 + c) div 65536 = a" "(a * 65536 + b * 256 + c) div 256 mod 256 = b"
    "(a * 65536 + b * 256 + c) mod 256 = c" "a * 65536 + b * 256 + c < 16777216"
proof -
  have e: "a * 65536 + b * 256 + c = (a * 256 + b) * 256 + c" by simp
  show "(a * 65536 + b * 256 + c) div 65536 = a" using assms by simp
  have d: "((a * 256 + b) * 256 + c) div 256 = a * 256 + b" using assms by simp
  have m: "(a * 256 + b) mod 256 = b" using assms by simp
  show "(a * 65536 + b * 256 + c) div 256 mod 256 = b" by (simp only: e d m)
  have r: "((a * 256 + b) * 256 + c) mod 256 = c" by (rule mod_256_low [OF assms(3)])
  show "(a * 65536 + b * 256 + c) mod 256 = c" by (simp only: e r)
  show "a * 65536 + b * 256 + c < 16777216" using assms by simp
qed
lemma b64_val_char [simp]: "k < 64 \<Longrightarrow> b64_val (b64_char k) = Some k"
  using b64_val_chars by (simp add: list_all_iff)

lemma b64_char_not_pad [simp]: "k < 64 \<Longrightarrow> b64_char k \<noteq> CHR ''=''"
proof
  assume "k < 64" "b64_char k = CHR ''=''"
  then have "b64_val (CHR ''='') = Some k" using b64_val_char by metis
  then show False by (simp add: b64_val_def)
qed

lemma char_of_bytes3:
  assumes "(a::nat) < 256" "b < 256" "c < 256"
  shows "char_of ((a * 65536 + b * 256 + c) div 65536) = (char_of a :: char)"
    "char_of ((a * 65536 + b * 256 + c) div 256) = (char_of b :: char)"
    "char_of (a * 65536 + b * 256 + c) = (char_of c :: char)"
proof -
  note bs = bytes3 [OF assms]
  show "char_of ((a * 65536 + b * 256 + c) div 65536) = (char_of a :: char)" by (simp only: bs(1))
  have "char_of ((a * 65536 + b * 256 + c) div 256) = (char_of ((a * 65536 + b * 256 + c) div 256 mod 256) :: char)"
    by (simp only: char_of_mod_256)
  then show "char_of ((a * 65536 + b * 256 + c) div 256) = (char_of b :: char)" by (simp only: bs(2))
  have "char_of (a * 65536 + b * 256 + c) = (char_of ((a * 65536 + b * 256 + c) mod 256) :: char)"
    by (simp only: char_of_mod_256)
  then show "char_of (a * 65536 + b * 256 + c) = (char_of c :: char)" by (simp only: bs(3))
qed

lemma base64_roundtrip: "base64_decode (base64_encode s) = Some s"
proof (induction s rule: base64_encode.induct)
  case (1 a b c rest)
  let ?x = "of_char a * 65536 + of_char b * 256 + of_char c :: nat"
  have lt: "of_char a < (256::nat)" "of_char b < (256::nat)" "of_char c < (256::nat)"
    by (simp_all add: nat_of_char_less_256)
  note bs = bytes3 [OF lt] and cs = char_of_bytes3 [OF lt]
  have x: "?x div 262144 mod 64 * 262144 + ?x div 4096 mod 64 * 4096 + ?x div 64 mod 64 * 64 + ?x mod 64 = ?x"
    by (rule b64_sextets [OF bs(4)])
  show ?case using 1 bs cs x by (simp add: Let_def)
next
  case (2 a b)
  let ?x = "of_char a * 65536 + of_char b * 256 :: nat"
  have lt: "of_char a < (256::nat)" "of_char b < (256::nat)" "(0::nat) < 256"
    by (simp_all add: nat_of_char_less_256)
  note bs = bytes3 [OF lt, simplified] and cs = char_of_bytes3 [OF lt, simplified]
  have m: "?x mod 64 = 0" by simp
  have x: "?x div 262144 mod 64 * 262144 + ?x div 4096 mod 64 * 4096 + ?x div 64 mod 64 * 64 + ?x mod 64 = ?x"
    using lt by (intro b64_sextets) linarith
  show ?case using bs cs x m by (simp add: Let_def)
next
  case (3 a)
  let ?x = "of_char a * 65536 :: nat"
  have lt: "of_char a < (256::nat)" "(0::nat) < 256" "(0::nat) < 256"
    by (simp_all add: nat_of_char_less_256)
  note bs = bytes3 [OF lt, simplified] and cs = char_of_bytes3 [OF lt, simplified]
  have x: "?x div 262144 mod 64 * 262144 + ?x div 4096 mod 64 * 4096 + ?x div 64 mod 64 * 64 + ?x mod 64 = ?x"
    using lt by (intro b64_sextets) simp
  have d1: "of_char a div 4 mod 64 = of_char a div (4::nat)" using lt(1) by (simp add: div_less_iff_less_mult)
  have h: "of_char a div 4 < (64::nat)" using lt(1) by (simp add: div_less_iff_less_mult)
  show ?case using bs cs x h by (simp add: Let_def d1)
next
  case 4
  show ?case by simp
qed

end
