(* ===== verification/Examples.thy ===== *)
theory Examples
  imports Messages ClientTests Base64
begin

text \<open>
  The two example programs:
  \<^item> \<open>examples/message/send_message.go\<close>, package \<open>message\<close>;
  \<^item> \<open>src/unnamed/part_003\<close>, package \<open>raw\<close>.

  Each \<open>SendExample\<close> makes a client, sends one message, fetches that message and its
  deliveries by the returned ID, and prints a line per step. A run is the list of lines
  written to standard output, and the \<open>log.Fatalf\<close> that ends it, if any: its format
  prefix and the error. \<open>fmt.Printf("%d")\<close> of an \<open>int\<close> is \<open>int_lit\<close> of its signed
  value.
\<close>

record example_run =
  Stdout :: "string list"
  Fatal :: "(string \<times> client_error) option"

text \<open>The client of both programs: \<open>NewClient\<close>, with the base URL replaced when one is
  given.\<close>

definition example_client :: "string \<Rightarrow> string \<Rightarrow> Client" where
  "example_client apiKey baseURL =
     (let client = NewClient apiKey in
      if baseURL \<noteq> [] then client\<lparr>BaseURL := baseURL\<rparr> else client)"

definition delivery_lines :: "Delivery list \<Rightarrow> string list" where
  "delivery_lines ds =
     map (\<lambda>(i, delivery). ''Delivery '' @ int_lit (int i + 1) @ '' - Status: '' @ Delivery.Status delivery @
                          '', Details: '' @ Delivery.Details delivery)
       (enumerate 0 ds)"

text \<open>The second half of both programs, after the message was sent: fetch it, then its
  deliveries, printing as it goes.\<close>

definition fetch_and_report :: "http_env \<Rightarrow> Client \<Rightarrow> goint \<Rightarrow> string list \<Rightarrow> example_run" where
  "fetch_and_report env client messageID out =
     (case GetMessage env client messageID of
        Inl err \<Rightarrow> \<lparr>Stdout = out, Fatal = Some (''Error getting message'', err)\<rparr>
      | Inr message \<Rightarrow>
          (let out = out @ [''Message details - ID: '' @ int_lit (sint (Message.ID message)) @
                            '', Token: '' @ Message.Token message] in
           case GetMessageDeliveries env client messageID of
             Inl err \<Rightarrow> \<lparr>Stdout = out, Fatal = Some (''Error getting message deliveries'', err)\<rparr>
           | Inr deliveries \<Rightarrow>
               (let ds = (case deliveries of None \<Rightarrow> [] | Some xs \<Rightarrow> xs) in
                \<lparr>Stdout = out @ [''Message has '' @ int_lit (int (length ds)) @ '' deliveries''] @
                            delivery_lines ds,
                 Fatal = None\<rparr>)))"

subsection \<open>examples/message/send_message.go\<close>

definition message_example_request :: SendMessageRequest where
  "message_example_request =
     \<lparr>To = Some [''recipient@example.com''], CC = None, BCC = None, From = ''sender@yourdomain.com'',
      Sender = [], Subject = ''Hello from Postal API'', Tag = [], ReplyTo = [],
      SendMessageRequest.PlainBody = ''This is a test email sent using the Postal API Go client.'',
      SendMessageRequest.HTMLBody =
        ''<p>This is a test email sent using the <strong>Postal API Go client</strong>.</p>'',
      SendMessageRequest.Attachments = None,
      SendMessageRequest.Headers = Some (Mapping.update ''X-Custom-Header'' ''Custom Value'' Mapping.empty),
      SendMessageRequest.Bounce = False\<rparr>"

definition SendExample_message :: "http_env \<Rightarrow> string \<Rightarrow> string \<Rightarrow> example_run" where
  "SendExample_message env apiKey baseURL =
     (let client = example_client apiKey baseURL; req = message_example_request in
      case SendMessage env client (Some req) of
        Inl err \<Rightarrow> \<lparr>Stdout = [], Fatal = Some (''Error sending message'', err)\<rparr>
      | Inr resp \<Rightarrow>
          fetch_and_report env client (MessageID resp)
            [''Message sent successfully! Message ID: '' @ int_lit (sint (MessageID resp)) @
             '', Token: '' @ SendMessageResponse.Token resp])"

subsection \<open>The raw-message example (package raw)\<close>

definition raw_example_message :: string where
  "raw_example_message =
     ''From: sender@yourdomain.com'' @ [CHR 0x0A] @
     ''To: recipient@example.com'' @ [CHR 0x0A] @
     ''Subject: Hello from Postal API'' @ [CHR 0x0A] @
     ''Content-Type: text/plain; charset=utf-8'' @ [CHR 0x0A] @ [CHR 0x0A] @
     ''This is a test email sent using the Postal API Go client with a raw RFC2822 message.'' @ [CHR 0x0A]"

definition raw_example_request :: "string \<Rightarrow> SendRawRequest" where
  "raw_example_request rawMessage =
     (let encodedMessage = base64_encode rawMessage in
      \<lparr>MailFrom = ''sender@yourdomain.com'', RcptTo = Some [''recipient@example.com''],
       SendRawRequest.Data = encodedMessage, SendRawRequest.Bounce = False\<rparr>)"

definition SendExample_raw :: "http_env \<Rightarrow> string \<Rightarrow> string \<Rightarrow> example_run" where
  "SendExample_raw env apiKey baseURL =
     (let client = example_client apiKey baseURL; req = raw_example_request raw_example_message in
      case SendRaw env client (Some req) of
        Inl err \<Rightarrow> \<lparr>Stdout = [], Fatal = Some (''Error sending raw message'', err)\<rparr>
      | Inr resp \<Rightarrow>
          fetch_and_report env client (MessageID resp)
            [''Raw message sent successfully! Message ID: '' @ int_lit (sint (MessageID resp)) @
             '', Token: '' @ SendMessageResponse.Token resp])"

subsection \<open>A Postal server for the examples\<close>

text \<open>A stub that accepts both kinds of send with message ID 42, and answers the two
  fetches only for the body \<open>{"id":42}\<close>, with one delivery.\<close>

definition example_handler :: "http_request \<Rightarrow> http_response" where
  "example_handler req =
     (if req_url req = DefaultBaseURL @ ''/send/raw'' \<or> req_url req = DefaultBaseURL @ ''/send/message'' then
        reply 200 ''{\"status\":\"success\",\"data\":{\"message_id\":42,\"token\":\"abc\"}}''
      else if req_url req = DefaultBaseURL @ ''/messages/message'' \<and> req_body req = Some ''{\"id\":42}'' then
        reply 200 ''{\"status\":\"success\",\"data\":{\"id\":42,\"token\":\"abc\"}}''
      else if req_url req = DefaultBaseURL @ ''/messages/deliveries'' \<and> req_body req = Some ''{\"id\":42}'' then
        reply 200 ''{\"status\":\"success\",\"data\":[{\"id\":1,\"status\":\"Sent\",\"details\":\"Message delivered\"}]}''
      else reply 404 ''{\"status\":\"error\",\"message\":\"not found\"}'')"

subsection \<open>Properties\<close>

lemma base64_raw_example: "base64_encode raw_example_message =
  ''RnJvbTogc2VuZGVyQHlvdXJkb21haW4uY29tClRvOiByZWNpcGllbnRAZXhhbXBsZS5jb20KU3ViamVjdDogSGVsbG8gZnJvbSBQb3N0YWwgQVBJCkNvbnRlbnQtVHlwZTogdGV4dC9wbGFpbjsgY2hhcnNldD11dGYtOAoKVGhpcyBpcyBhIHRlc3QgZW1haWwgc2VudCB1c2luZyB0aGUgUG9zdGFsIEFQSSBHbyBjbGllbnQgd2l0aCBhIHJhdyBSRkMyODIyIG1lc3NhZ2UuCg==''"
  by (simp add: raw_example_message_def b64_char_def b64_alphabet_def)

text \<open>C21: a run of the message example that ends without \<open>log.Fatalf\<close> made the three
  calls in order, fetching by the ID the send returned, and printed one line per call
  plus one per delivery.\<close>

theorem SendExample_message_completes:
  assumes "Fatal (SendExample_message env k u) = None"
  shows "\<exists>resp message ds.
     SendMessage env (example_client k u) (Some message_example_request) = Inr resp \<and>
     GetMessage env (example_client k u) (MessageID resp) = Inr message \<and>
     GetMessageDeliveries env (example_client k u) (MessageID resp) = Inr ds \<and>
     Stdout (SendExample_message env k u) =
       [''Message sent successfully! Message ID: '' @ int_lit (sint (MessageID resp)) @
          '', Token: '' @ SendMessageResponse.Token resp,
        ''Message details - ID: '' @ int_lit (sint (Message.ID message)) @ '', Token: '' @ Message.Token message,
        ''Message has '' @ int_lit (int (length (case ds of None \<Rightarrow> [] | Some xs \<Rightarrow> xs))) @ '' deliveries''] @
       delivery_lines (case ds of None \<Rightarrow> [] | Some xs \<Rightarrow> xs)"
  using assms
  by (auto simp: SendExample_message_def fetch_and_report_def Let_def split: sum.splits)

text \<open>C22: the message example stops at the first call that fails, with that call's
  \<open>log.Fatalf\<close> prefix and error, having printed exactly the lines of the calls before
  it.\<close>

theorem SendExample_message_fatal:
  assumes "Fatal (SendExample_message env k u) = Some (msg, e)"
  shows "(msg = ''Error sending message'' \<and> Stdout (SendExample_message env k u) = [] \<and>
          SendMessage env (example_client k u) (Some message_example_request) = Inl e) \<or>
         (\<exists>resp. msg = ''Error getting message'' \<and> length (Stdout (SendExample_message env k u)) = 1 \<and>
          SendMessage env (example_client k u) (Some message_example_request) = Inr resp \<and>
          GetMessage env (example_client k u) (MessageID resp) = Inl e) \<or>
         (\<exists>resp message. msg = ''Error getting message deliveries'' \<and>
          length (Stdout (SendExample_message env k u)) = 2 \<and>
          SendMessage env (example_client k u) (Some message_example_request) = Inr resp \<and>
          GetMessage env (example_client k u) (MessageID resp) = Inr message \<and>
          GetMessageDeliveries env (example_client k u) (MessageID resp) = Inl e)"
  using assms
  by (auto simp: SendExample_message_def fetch_and_report_def Let_def split: sum.splits)

text \<open>The raw-message example, run against a server that knows message 42, prints
  the four lines of a complete run. The server answers the fetches only for the ID it
  returned, so the program threads that ID through.\<close>

theorem SendExample_raw_run:
  "SendExample_raw (httptest_env example_handler) ''key'' [] =
     \<lparr>Stdout = [''Raw message sent successfully! Message ID: 42, Token: abc'',
                 ''Message details - ID: 42, Token: abc'', ''Message has 1 deliveries'',
                 ''Delivery 1 - Status: Sent, Details: Message delivered''],
      Fatal = None\<rparr>"
  unfolding SendExample_raw_def raw_example_request_def Let_def base64_raw_example by code_simp

lemma SendExample_message_run:
  "SendExample_message (httptest_env example_handler) ''key'' [] =
     \<lparr>Stdout = [''Message sent successfully! Message ID: 42, Token: abc'',
                 ''Message details - ID: 42, Token: abc'', ''Message has 1 deliveries'',
                 ''Delivery 1 - Status: Sent, Details: Message delivered''],
      Fatal = None\<rparr>"
  by code_simp

theorem SendExample_message_completes_witness:
  "\<exists>resp message ds.
     SendMessage (httptest_env example_handler) (example_client ''key'' []) (Some message_example_request) = Inr resp \<and>
     GetMessage (httptest_env example_handler) (example_client ''key'' []) (MessageID resp) = Inr message \<and>
     GetMessageDeliveries (httptest_env example_handler) (example_client ''key'' []) (MessageID resp) = Inr ds \<and>
     Stdout (SendExample_message (httptest_env example_handler) ''key'' []) =
       [''Message sent successfully! Message ID: '' @ int_lit (sint (MessageID resp)) @
          '', Token: '' @ SendMessageResponse.Token resp,
        ''Message details - ID: '' @ int_lit (sint (Message.ID message)) @ '', Token: '' @ Message.Token message,
        ''Message has '' @ int_lit (int (length (case ds of None \<Rightarrow> [] | Some xs \<Rightarrow> xs))) @ '' deliveries''] @
       delivery_lines (case ds of None \<Rightarrow> [] | Some xs \<Rightarrow> xs)"
  using SendExample_message_completes [OF SendExample_message_run [THEN arg_cong [where f = Fatal], simplified]] .

lemma SendExample_message_send_fails:
  "SendExample_message (httptest_env (\<lambda>r. reply 500 error_body)) ''key'' [] =
     \<lparr>Stdout = [], Fatal = Some (''Error sending message'', APIError \<lparr>Error.Status = ''error'', Error.Time = ''0.123'', Error.Flags = Some (JObject []), Error.Data = Some (JObject [(''error'', JString ''test error'')]), ErrorCode = ''test-error'', Message = ''Test error message''\<rparr>)\<rparr>"
  by code_simp

theorem SendExample_message_fatal_witness:
  "(''Error sending message'' = ''Error sending message'' \<and> Stdout (SendExample_message (httptest_env (\<lambda>r. reply 500 error_body)) ''key'' []) = [] \<and>
          SendMessage (httptest_env (\<lambda>r. reply 500 error_body)) (example_client ''key'' []) (Some message_example_request) = Inl (APIError \<lparr>Error.Status = ''error'', Error.Time = ''0.123'', Error.Flags = Some (JObject []), Error.Data = Some (JObject [(''error'', JString ''test error'')]), ErrorCode = ''test-error'', Message = ''Test error message''\<rparr>)) \<or>
         (\<exists>resp. ''Error sending message'' = ''Error getting message'' \<and> length (Stdout (SendExample_message (httptest_env (\<lambda>r. reply 500 error_body)) ''key'' [])) = 1 \<and>
          SendMessage (httptest_env (\<lambda>r. reply 500 error_body)) (example_client ''key'' []) (Some message_example_request) = Inr resp \<and>
          GetMessage (httptest_env (\<lambda>r. reply 500 error_body)) (example_client ''key'' []) (MessageID resp) = Inl (APIError \<lparr>Error.Status = ''error'', Error.Time = ''0.123'', Error.Flags = Some (JObject []), Error.Data = Some (JObject [(''error'', JString ''test error'')]), ErrorCode = ''test-error'', Message = ''Test error message''\<rparr>)) \<or>
         (\<exists>resp message. ''Error sending message'' = ''Error getting message deliveries'' \<and>
          length (Stdout (SendExample_message (httptest_env (\<lambda>r. reply 500 error_body)) ''key'' [])) = 2 \<and>
          SendMessage (httptest_env (\<lambda>r. reply 500 error_body)) (example_client ''key'' []) (Some message_example_request) = Inr resp \<and>
          GetMessage (httptest_env (\<lambda>r. reply 500 error_body)) (example_client ''key'' []) (MessageID resp) = Inr message \<and>
          GetMessageDeliveries (httptest_env (\<lambda>r. reply 500 error_body)) (example_client ''key'' []) (MessageID resp) = Inl (APIError \<lparr>Error.Status = ''error'', Error.Time = ''0.123'', Error.Flags = Some (JObject []), Error.Data = Some (JObject [(''error'', JString ''test error'')]), ErrorCode = ''test-error'', Message = ''Test error message''\<rparr>))"
  using SendExample_message_fatal [OF SendExample_message_send_fails [THEN arg_cong [where f = Fatal], simplified]] .

end
