(* ===== verification/JsonRoundtrip.thy ===== *)
theory JsonRoundtrip
  imports GoJson
begin

text \<open>
  What the client sends is what the server reads: the text \<open>json.Marshal\<close> writes
  (\<open>json_print\<close>, \<open>GoJson\<close>) is read back by the scanner of \<open>Json\<close> as the same
  value. A value prints to text that parses back when its strings are valid UTF-8 (Go
  replaces invalid bytes by U+FFFD, which cannot round-trip), its numbers are the
  canonical integer literals \<open>strconv.AppendInt\<close> writes, and its nesting stays below
  Go's limit. The fuel \<open>json_parse\<close> gives the scanner is then provably enough: each
  of \<open>parse_value\<close>, \<open>parse_elements\<close> and \<open>parse_members\<close> needs no more fuel
  than the length of the text it reads.
\<close>

subsection \<open>Well-formed values\<close>

text \<open>\<open>utf8.Valid\<close>: ASCII bytes, and well-formed multi-byte sequences as
  \<open>utf8_len\<close> recognises them.\<close>

function valid_utf8 :: "string \<Rightarrow> bool" where
  "valid_utf8 [] = True"
| "valid_utf8 (c # cs) =
     (if (of_char c :: nat) < 128 then valid_utf8 cs
      else if utf8_len (c # cs) = 0 then False
      else valid_utf8 (drop (utf8_len (c # cs)) (c # cs)))"
  by pat_completeness auto
termination
  by (relation "measure length") auto

definition digits_ok :: "string \<Rightarrow> bool" where
  "digits_ok ds \<longleftrightarrow> ds \<noteq> [] \<and> list_all is_digit ds \<and> (ds = ''0'' \<or> hd ds \<noteq> CHR ''0'')"

definition int_lit_ok :: "string \<Rightarrow> bool" where
  "int_lit_ok l = (case l of [] \<Rightarrow> False | c # ds \<Rightarrow> if c = CHR ''-'' then digits_ok ds else digits_ok l)"

definition json_delim :: "string \<Rightarrow> bool" where
  "json_delim rest = (case rest of [] \<Rightarrow> True | c # _ \<Rightarrow> c = CHR '','' \<or> c = CHR '']'' \<or> c = CHR ''}'')"

text \<open>The values \<open>json.Marshal\<close> can write and read back, and their nesting depth.\<close>

fun json_ok :: "json \<Rightarrow> bool"
and elems_ok :: "json list \<Rightarrow> bool"
and members_ok :: "(string \<times> json) list \<Rightarrow> bool" where
  "json_ok JNull = True"
| "json_ok (JBool b) = True"
| "json_ok (JNumber l) = int_lit_ok l"
| "json_ok (JString s) = valid_utf8 s"
| "json_ok (JArray vs) = elems_ok vs"
| "json_ok (JObject ms) = members_ok ms"
| "elems_ok [] = True"
| "elems_ok (v # vs) = (json_ok v \<and> elems_ok vs)"
| "members_ok [] = True"
| "members_ok ((k, v) # ms) = (valid_utf8 k \<and> json_ok v \<and> members_ok ms)"

fun jdepth :: "json \<Rightarrow> nat"
and elems_depth :: "json list \<Rightarrow> nat"
and members_depth :: "(string \<times> json) list \<Rightarrow> nat" where
  "jdepth (JArray vs) = Suc (elems_depth vs)"
| "jdepth (JObject ms) = Suc (members_depth ms)"
| "jdepth _ = 0"
| "elems_depth [] = 0"
| "elems_depth (v # vs) = max (jdepth v) (elems_depth vs)"
| "members_depth [] = 0"
| "members_depth ((k, v) # ms) = max (jdepth v) (members_depth ms)"

subsection \<open>Strings\<close>

lemma hex_val_hex_digits: "list_all (\<lambda>j. hex_val (hex_digit j) = Some j) [0..<16]"
  by code_simp

lemma hex_val_hex_digit: "hex_val (hex_digit k) = Some (k mod 16)"
proof -
  have "k mod 16 \<in> set [0..<16]" by simp
  with hex_val_hex_digits have "hex_val (hex_digit (k mod 16)) = Some (k mod 16)"
    by (simp add: list_all_iff)
  then show ?thesis by (simp add: hex_digit_def)
qed

lemma utf8_len_take_append:
  "utf8_len xs = n \<Longrightarrow> n \<noteq> 0 \<Longrightarrow> utf8_len (take n xs @ ys) = n"
  by (cases xs rule: utf8_len.cases) (auto simp: Let_def split: if_splits list.splits)

lemma utf8_len_le: "utf8_len xs \<le> length xs"
  by (cases xs rule: utf8_len.cases) (auto simp: Let_def split: if_splits list.splits)


lemma hex_val_0: "hex_val (CHR ''0'') = Some 0"
  by simp

lemma char_of_controls:
  "char_of (8::nat) = CHR 0x08" "char_of (12::nat) = CHR 0x0C" "char_of (10::nat) = CHR 0x0A"
  "char_of (13::nat) = CHR 0x0D" "char_of (9::nat) = CHR 0x09"
  by code_simp+

lemma scan_string_escape_ascii:
  assumes "(of_char c :: nat) < 128"
  shows "scan_string (escape_ascii c @ t) = prepend [c] (scan_string t)"
proof -
  let ?b = "of_char c :: nat"
  have cc: "char_of ?b = c" by simp
  show ?thesis
  proof (cases "c = CHR 0x22 \<or> c = CHR 0x5C")
    case True
    then show ?thesis by (auto simp: escape_ascii_def)
  next
    case False
    note nq = False
    show ?thesis
    proof (cases "?b = 0x08 \<or> ?b = 0x0C \<or> ?b = 0x0A \<or> ?b = 0x0D \<or> ?b = 0x09")
      case True
      then show ?thesis using nq cc
        by (auto simp: escape_ascii_def simp flip: char_of_controls) (metis char_of_char)+
    next
      case False
      note nesc = False
      show ?thesis
      proof (cases "?b < 0x20 \<or> c = CHR ''<'' \<or> c = CHR ''>'' \<or> c = CHR ''&''")
        case True
        have lt: "?b < 128" by (rule assms)
        have d: "?b div 16 mod 16 = ?b div 16" using lt by simp
        have h: "hex4 (CHR ''0'' # CHR ''0'' # hex_digit (?b div 16) # hex_digit ?b # t) = Some ?b"
          using d by (simp del: hex_val.simps add: hex_val_hex_digit hex_val_0)
        have e: "escape_ascii c = [CHR 0x5C, CHR ''u'', CHR ''0'', CHR ''0'', hex_digit (?b div 16), hex_digit ?b]"
          using True nq nesc by (auto simp: escape_ascii_def Let_def)
        have u: "utf8_encode ?b = [c]" using lt by (simp add: utf8_encode_def)
        show ?thesis
          by (simp only: e append_Cons append_Nil scan_string.simps(2))
             (use lt in \<open>simp del: hex_val.simps hex4.simps add: h u prepend_def\<close>)
      next
        case False
        then show ?thesis using nq nesc assms by (auto simp: escape_ascii_def prepend_def)
      qed
    qed
  qed
qed

lemma quote_bytes_nonascii:
  assumes "\<not> (of_char c :: nat) < 128" "utf8_len (c # cs) \<noteq> 0"
    "take 3 (c # cs) \<noteq> [CHR 0xE2, CHR 0x80, CHR 0xA8]" "take 3 (c # cs) \<noteq> [CHR 0xE2, CHR 0x80, CHR 0xA9]"
  shows "quote_bytes (c # cs) = take (utf8_len (c # cs)) (c # cs) @ quote_bytes (drop (utf8_len (c # cs)) (c # cs))"
  using assms by (subst quote_bytes.simps) (simp only: Let_def if_False)

lemma scan_string_nonascii:
  assumes c: "\<not> (of_char c :: nat) < 128" and n0: "utf8_len (c # cs) \<noteq> 0"
  shows "scan_string (take (utf8_len (c # cs)) (c # cs) @ q) =
           prepend (take (utf8_len (c # cs)) (c # cs)) (scan_string q)"
proof -
  define n where "n = utf8_len (c # cs)"
  have le: "n \<le> length (c # cs)" unfolding n_def by (rule utf8_len_le)
  from n0 obtain m where m: "n = Suc m" unfolding n_def by (cases "utf8_len (c # cs)") auto
  let ?r = "take m cs @ q"
  have xs: "take n (c # cs) @ q = c # ?r" by (simp add: m)
  have l: "utf8_len (c # ?r) = n"
    using utf8_len_take_append [of "c # cs" n q] n0 xs unfolding n_def by simp
  have tk: "take n (c # ?r) = take n (c # cs)" and dr: "drop n (c # ?r) = q"
    using le by (simp_all add: m)
  from c have nq: "c \<noteq> CHR 0x22" "c \<noteq> CHR 0x5C" "\<not> (of_char c :: nat) < 32" by auto
  have "scan_string (c # ?r) = prepend (take n (c # ?r)) (scan_string (drop n (c # ?r)))"
    using nq c n0 l unfolding n_def by (simp add: Let_def del: utf8_len.simps)
  then show ?thesis using xs tk dr unfolding n_def by simp
qed

lemma char_of_eqI: "(of_char c :: nat) = n \<Longrightarrow> char_of n = c"
  by (metis char_of_char)

lemma char_of_sep:
  "char_of (226::nat) = CHR 0xE2" "char_of (128::nat) = CHR 0x80"
  "char_of (168::nat) = CHR 0xA8" "char_of (169::nat) = CHR 0xA9"
  by (rule char_of_eqI, simp)+

lemma utf8_encode_2028: "utf8_encode 0x2028 = [CHR 0xE2, CHR 0x80, CHR 0xA8]"
  by (simp add: utf8_encode_def char_of_sep)

lemma utf8_encode_2029: "utf8_encode 0x2029 = [CHR 0xE2, CHR 0x80, CHR 0xA9]"
  by (simp add: utf8_encode_def char_of_sep)

lemma scan_string_u2028: "scan_string ([CHR 0x5C] @ ''u2028'' @ q) = prepend [CHR 0xE2, CHR 0x80, CHR 0xA8] (scan_string q)"
  by (simp add: utf8_encode_2028)

lemma scan_string_u2029: "scan_string ([CHR 0x5C] @ ''u2029'' @ q) = prepend [CHR 0xE2, CHR 0x80, CHR 0xA9] (scan_string q)"
  by (simp add: utf8_encode_2029)

lemma quote_bytes_sep:
  "quote_bytes (CHR 0xE2 # CHR 0x80 # CHR 0xA8 # t) = [CHR 0x5C] @ ''u2028'' @ quote_bytes t"
  "quote_bytes (CHR 0xE2 # CHR 0x80 # CHR 0xA9 # t) = [CHR 0x5C] @ ''u2029'' @ quote_bytes t"
  by (simp_all add: byte_in_def)

lemma valid_utf8_sep:
  "valid_utf8 (CHR 0xE2 # CHR 0x80 # CHR 0xA8 # t) = valid_utf8 t"
  "valid_utf8 (CHR 0xE2 # CHR 0x80 # CHR 0xA9 # t) = valid_utf8 t"
  by (simp_all add: byte_in_def)

lemma scan_quote_sep:
  assumes "scan_string (quote_bytes t @ CHR 0x22 # rest) = Some (t, rest)"
  shows "scan_string (quote_bytes (CHR 0xE2 # CHR 0x80 # CHR 0xA8 # t) @ CHR 0x22 # rest) =
           Some (CHR 0xE2 # CHR 0x80 # CHR 0xA8 # t, rest)"
    "scan_string (quote_bytes (CHR 0xE2 # CHR 0x80 # CHR 0xA9 # t) @ CHR 0x22 # rest) =
           Some (CHR 0xE2 # CHR 0x80 # CHR 0xA9 # t, rest)"
  using assms by (simp_all only: quote_bytes_sep append_assoc scan_string_u2028 scan_string_u2029)
    (simp_all add: prepend_def)

lemma scan_string_quote:
  "valid_utf8 s \<Longrightarrow> scan_string (quote_bytes s @ CHR 0x22 # rest) = Some (s, rest)"
proof (induction "length s" arbitrary: s rule: less_induct)
  case less
  show ?case
  proof (cases s)
    case Nil
    then show ?thesis by simp
  next
    case (Cons c cs)
    have IH: "\<And>t. length t < length s \<Longrightarrow> valid_utf8 t \<Longrightarrow>
                scan_string (quote_bytes t @ CHR 0x22 # rest) = Some (t, rest)"
      using less.hyps by blast
    show ?thesis
    proof (cases "(of_char c :: nat) < 128")
      case True
      with less.prems Cons have "valid_utf8 cs" by simp
      with IH [of cs] Cons True show ?thesis by (simp add: scan_string_escape_ascii prepend_def)
    next
      case False
      let ?n = "utf8_len (c # cs)"
      from less.prems Cons False have n0: "?n \<noteq> 0" and v: "valid_utf8 (drop ?n (c # cs))"
        by (auto simp del: utf8_len.simps split: if_splits)
      have split3: "c # cs = take 3 (c # cs) @ drop 2 cs" by simp
      consider (ls) "take 3 (c # cs) = [CHR 0xE2, CHR 0x80, CHR 0xA8]"
        | (ps) "take 3 (c # cs) = [CHR 0xE2, CHR 0x80, CHR 0xA9]"
        | (other) "take 3 (c # cs) \<noteq> [CHR 0xE2, CHR 0x80, CHR 0xA8]"
            "take 3 (c # cs) \<noteq> [CHR 0xE2, CHR 0x80, CHR 0xA9]"
        by blast
      then show ?thesis
      proof cases
        case ls
        have c: "c = CHR 0xE2" and t2: "take 2 cs = [CHR 0x80, CHR 0xA8]" using ls by simp_all
        have cs2: "cs = take 2 cs @ drop 2 cs" by (rule append_take_drop_id [symmetric])
        have eq: "s = CHR 0xE2 # CHR 0x80 # CHR 0xA8 # drop 2 cs"
          by (subst Cons, subst cs2, simp only: c t2 append_Cons append_Nil)
        have v2: "valid_utf8 (drop 2 cs)" using less.prems eq by (simp only: valid_utf8_sep)
        have "scan_string (quote_bytes (drop 2 cs) @ CHR 0x22 # rest) = Some (drop 2 cs, rest)"
          using IH [OF _ v2] eq by simp
        then show ?thesis unfolding eq by (rule scan_quote_sep(1))
      next
        case ps
        have c: "c = CHR 0xE2" and t2: "take 2 cs = [CHR 0x80, CHR 0xA9]" using ps by simp_all
        have cs2: "cs = take 2 cs @ drop 2 cs" by (rule append_take_drop_id [symmetric])
        have eq: "s = CHR 0xE2 # CHR 0x80 # CHR 0xA9 # drop 2 cs"
          by (subst Cons, subst cs2, simp only: c t2 append_Cons append_Nil)
        have v2: "valid_utf8 (drop 2 cs)" using less.prems eq by (simp only: valid_utf8_sep)
        have "scan_string (quote_bytes (drop 2 cs) @ CHR 0x22 # rest) = Some (drop 2 cs, rest)"
          using IH [OF _ v2] eq by simp
        then show ?thesis unfolding eq by (rule scan_quote_sep(2))
      next
        case other
        have lt: "length (drop ?n (c # cs)) < length s" using n0 Cons by simp
        have IH': "scan_string (quote_bytes (drop ?n (c # cs)) @ CHR 0x22 # rest) = Some (drop ?n (c # cs), rest)"
          by (rule IH [OF lt v])
        have "quote_bytes (c # cs) @ CHR 0x22 # rest =
              take ?n (c # cs) @ (quote_bytes (drop ?n (c # cs)) @ CHR 0x22 # rest)"
          using quote_bytes_nonascii [OF False n0 other] by simp
        then show ?thesis
          using scan_string_nonascii [OF False n0] IH' Cons by (simp add: prepend_def)
      qed
    qed
  qed
qed

subsection \<open>Integer literals\<close>

lemma digits_of_nat_hd: "n \<noteq> 0 \<Longrightarrow> hd (digits_of_nat n) \<noteq> CHR ''0''"
proof (induction n rule: digits_of_nat.induct)
  case (1 n)
  show ?case
  proof (cases "n < 10")
    case True
    have m: "(48 + n) mod 256 = 48 + n" using True by simp
    have "of_char (char_of (48 + n) :: char) \<noteq> (48::nat)" using 1(2) by (simp only: of_char_of m)
    have "char_of (48 + n) \<noteq> CHR ''0''"
    proof
      assume "char_of (48 + n) = CHR ''0''"
      then have "(of_char (char_of (48 + n) :: char) :: nat) = 48" by simp
      with \<open>of_char (char_of (48 + n) :: char) \<noteq> (48::nat)\<close> show False by simp
    qed
    then show ?thesis using True by (subst digits_of_nat.simps) simp
  next
    case False
    then have "n div 10 \<noteq> 0" by simp
    with 1(1) False show ?thesis by (subst digits_of_nat.simps) simp
  qed
qed

lemma digits_of_nat_zero: "digits_of_nat 0 = ''0''"
  by (subst digits_of_nat.simps) (simp add: char_of_eqI)

lemma digits_ok_digits_of_nat: "digits_ok (digits_of_nat n)"
  using digits_of_nat_hd [of n] digits_of_nat_digits [of n]
  by (cases "n = 0") (auto simp: digits_ok_def digits_of_nat_zero list_all_iff)

lemma digits_ok_not_minus: "digits_ok (c # cs) \<Longrightarrow> c \<noteq> CHR ''-''"
  by (auto simp: digits_ok_def is_digit_def)

lemma int_lit_ok_int_lit: "int_lit_ok (int_lit i)"
proof (cases "i < 0")
  case True
  then show ?thesis using digits_ok_digits_of_nat by (simp add: int_lit_def int_lit_ok_def)
next
  case False
  obtain c cs where d: "digits_of_nat (nat i) = c # cs" by (cases "digits_of_nat (nat i)") auto
  then show ?thesis using False digits_ok_digits_of_nat [of "nat i"] digits_ok_not_minus
    by (simp add: int_lit_def int_lit_ok_def)
qed

lemma json_delim_simps:
  "json_delim rest \<Longrightarrow> scan_frac rest = Some ([], rest)"
  "json_delim rest \<Longrightarrow> scan_exp rest = Some ([], rest)"
  "json_delim rest \<Longrightarrow> takeWhile is_digit rest = []"
  "json_delim rest \<Longrightarrow> dropWhile is_digit rest = rest"
  by (auto simp: json_delim_def scan_frac_def scan_exp_def is_digit_def split: list.splits)

lemma scan_digits:
  assumes "digits_ok ds" "json_delim rest" and sg: "sg = [] \<or> sg = ''-''"
  shows "scan_int_part (sg @ ds @ rest) = Some (sg @ ds, rest)"
proof -
  obtain c cs where ds: "ds = c # cs" using assms(1) by (cases ds) (auto simp: digits_ok_def)
  have c: "is_digit c" and cs: "list_all is_digit cs" and z: "c = CHR ''0'' \<Longrightarrow> cs = []"
    using assms(1) by (auto simp: digits_ok_def ds)
  have nm: "c \<noteq> CHR ''-''" using c by (auto simp: is_digit_def)
  have tw: "takeWhile is_digit (cs @ rest) = cs" "dropWhile is_digit (cs @ rest) = rest"
    using cs json_delim_simps(3,4) [OF assms(2)] by (simp_all add: list_all_iff)
  show ?thesis using sg c nm z tw by (auto simp: scan_int_part_def ds)
qed

lemma scan_number_int_lit:
  assumes "int_lit_ok l" "json_delim rest"
  shows "scan_number (l @ rest) = Some (l, rest)"
proof -
  have "scan_int_part (l @ rest) = Some (l, rest)"
  proof (cases l)
    case Nil then show ?thesis using assms(1) by (simp add: int_lit_ok_def)
  next
    case (Cons c ds)
    show ?thesis
    proof (cases "c = CHR ''-''")
      case True
      then show ?thesis using scan_digits [OF _ assms(2), of ds "''-''"] assms(1) Cons
        by (simp add: int_lit_ok_def)
    next
      case False
      then show ?thesis using scan_digits [OF _ assms(2), of l "[]"] assms(1) Cons
        by (simp add: int_lit_ok_def)
    qed
  qed
  then show ?thesis using json_delim_simps(1,2) [OF assms(2)] by (simp add: scan_number_def)
qed

lemma list_all_digits_of_nat: "list_all is_digit (digits_of_nat n)"
  using digits_of_nat_digits [of n] by (simp add: list_all_iff)

lemma int_of_lit_int_lit: "int_of_lit (int_lit i) = Some i"
proof (cases "i < 0")
  case True
  then show ?thesis by (simp add: int_lit_def int_of_lit_def list_all_digits_of_nat)
next
  case False
  obtain c cs where d: "digits_of_nat (nat i) = c # cs" by (cases "digits_of_nat (nat i)") auto
  have a: "list_all is_digit (c # cs)" using list_all_digits_of_nat [of "nat i"] d by simp
  then have "c \<noteq> CHR ''-''" by (auto simp: is_digit_def)
  moreover have "int (nat_of_digits (c # cs)) = i"
    using False nat_of_digits_digits_of_nat [of "nat i"] unfolding d by simp
  ultimately show ?thesis using False a d by (simp add: int_lit_def int_of_lit_def)
qed

lemma dec_int_enc_int: "dec_int (enc_int w) cur = Inr w"
proof -
  have "- (2 ^ 63) \<le> sint w" "sint w < 2 ^ 63"
    using sint_ge [of w] sint_lt [of w] by simp_all
  then show ?thesis by (simp add: dec_int_def enc_int_def int64_of_lit_def int_of_lit_int_lit)
qed

subsection \<open>Values\<close>

lemma int_lit_ok_head: "int_lit_ok l \<Longrightarrow> \<exists>c r. l = c # r \<and> (c = CHR ''-'' \<or> is_digit c)"
  by (auto simp: int_lit_ok_def digits_ok_def list_all_iff split: list.splits if_splits)

lemma json_print_head:
  "json_ok j \<Longrightarrow> \<exists>c r. json_print j = c # r \<and> \<not> is_ws c \<and> c \<noteq> CHR '']'' \<and> c \<noteq> CHR ''}''"
proof (cases j)
  case (JNumber l)
  assume "json_ok j"
  with JNumber int_lit_ok_head [of l] show ?thesis by (auto simp: is_ws_def is_digit_def)
qed (auto simp: is_ws_def json_quote_def)

lemma parse_print:
  "json_ok j \<Longrightarrow> d + jdepth j \<le> max_nesting_depth \<Longrightarrow> length (json_print j) \<le> n \<Longrightarrow> json_delim rest \<Longrightarrow>
     parse_value n d (json_print j @ rest) = Some (j, rest)"
  "vs \<noteq> [] \<Longrightarrow> elems_ok vs \<Longrightarrow> d + elems_depth vs \<le> max_nesting_depth \<Longrightarrow> length (print_elems vs) < n \<Longrightarrow>
     parse_elements n d (print_elems vs @ CHR '']'' # rest) = Some (vs, rest)"
  "ms \<noteq> [] \<Longrightarrow> members_ok ms \<Longrightarrow> d + members_depth ms \<le> max_nesting_depth \<Longrightarrow> length (print_members ms) < n \<Longrightarrow>
     parse_members n d (print_members ms @ CHR ''}'' # rest) = Some (ms, rest)"
proof (induction j and vs and ms arbitrary: n d rest and n d rest and n d rest rule: json_print_print_elems_print_members.induct)
  case 1
  then show ?case by (cases n) (auto simp: is_ws_def)
next
  case (2 b)
  then show ?case by (cases b; cases n) (auto simp: is_ws_def)
next
  case (3 l)
  obtain c r where l: "l = c # r" and c: "c = CHR ''-'' \<or> is_digit c"
    using int_lit_ok_head [of l] 3(1) by auto
  have sc: "scan_number (c # r @ rest) = Some (l, rest)"
    using scan_number_int_lit [of l rest] 3 l by simp
  from 3(3) l obtain m where "n = Suc m" by (cases n) auto
  moreover have "\<not> is_ws c \<and> c \<noteq> CHR ''{'' \<and> c \<noteq> CHR ''['' \<and> c \<noteq> CHR 0x22 \<and>
                   c \<noteq> CHR ''t'' \<and> c \<noteq> CHR ''f'' \<and> c \<noteq> CHR ''n''"
    using c by (auto simp: is_ws_def is_digit_def)
  ultimately show ?case using sc l by simp
next
  case (4 s)
  from 4(3) obtain m where "n = Suc m" by (cases n) (auto simp: json_quote_def)
  with 4 show ?case by (simp add: json_quote_def is_ws_def scan_string_quote)
next
  case (5 vs)
  from 5(4) obtain m where n: "n = Suc m" by (cases n) auto
  show ?case
  proof (cases vs)
    case Nil
    with 5 n show ?thesis by (simp add: is_ws_def max_nesting_depth_def)
  next
    case (Cons v vs')
    obtain c r where h: "json_print v = c # r" "\<not> is_ws c" "c \<noteq> CHR '']''"
      using json_print_head [of v] 5(2) Cons by auto
    have "parse_elements m (Suc d) (print_elems vs @ CHR '']'' # rest) = Some (vs, rest)"
      using 5 n Cons by simp
    with 5 n Cons h show ?thesis by (simp add: is_ws_def)
  qed
next
  case (6 ms)
  from 6(4) obtain m where n: "n = Suc m" by (cases n) auto
  show ?case
  proof (cases ms)
    case Nil
    with 6 n show ?thesis by (simp add: is_ws_def max_nesting_depth_def)
  next
    case (Cons kv ms')
    have "parse_members m (Suc d) (print_members ms @ CHR ''}'' # rest) = Some (ms, rest)"
      using 6 n Cons by simp
    with 6 n Cons show ?thesis by (cases kv) (simp add: is_ws_def json_quote_def)
  qed
next
  case 7
  then show ?case by simp
next
  case (8 v vs)
  from \<open>length (print_elems (v # vs)) < n\<close> obtain m where n: "n = Suc m" by (cases n) auto
  let ?tail = "(if vs = [] then [] else '','' @ print_elems vs) @ CHR '']'' # rest"
  have dl: "json_delim ?tail" by (simp add: json_delim_def)
  have v: "parse_value m d (json_print v @ ?tail) = Some (v, ?tail)"
    using 8 n dl by simp
  show ?case
  proof (cases "vs = []")
    case True
    with v n show ?thesis by (simp add: is_ws_def)
  next
    case False
    have "parse_elements m d (print_elems vs @ CHR '']'' # rest) = Some (vs, rest)"
      using 8 n False by simp
    with v n False show ?thesis by (simp add: is_ws_def)
  qed
next
  case 9
  then show ?case by simp
next
  case (10 k v ms)
  from \<open>length (print_members ((k, v) # ms)) < n\<close> obtain m where n: "n = Suc m" by (cases n) auto
  let ?tail = "(if ms = [] then [] else '','' @ print_members ms) @ CHR ''}'' # rest"
  have dl: "json_delim ?tail" by (simp add: json_delim_def)
  have v: "parse_value m d (json_print v @ ?tail) = Some (v, ?tail)"
    using 10 n dl by (simp add: json_quote_def)
  have k: "scan_string (quote_bytes k @ CHR 0x22 # CHR '':'' # json_print v @ ?tail) =
           Some (k, CHR '':'' # json_print v @ ?tail)"
    using \<open>members_ok ((k, v) # ms)\<close> by (simp add: scan_string_quote)
  show ?case
  proof (cases "ms = []")
    case True
    with v k n show ?thesis by (simp add: is_ws_def json_quote_def)
  next
    case False
    have "parse_members m d (print_members ms @ CHR ''}'' # rest) = Some (ms, rest)"
      using 10 n False by (simp add: json_quote_def)
    with v k n False show ?thesis by (simp add: is_ws_def json_quote_def)
  qed
qed

lemma parse_value_print:
  assumes "json_ok j" "jdepth j \<le> max_nesting_depth"
  shows "parse_value (Suc (2 * length (json_print j))) 0 (json_print j) = Some (j, [])"
  using parse_print(1) [of j 0 "Suc (2 * length (json_print j))" "[]"] assms
  by (simp add: json_delim_def)

text \<open>Printing then parsing is the identity on well-formed values, with the fuel
  \<open>json_parse\<close> gives the scanner; so \<open>json.Unmarshal\<close> of printed text decodes the
  printed value.\<close>

lemma json_parse_print:
  assumes "json_ok j" "jdepth j \<le> max_nesting_depth"
  shows "json_parse (json_print j) = Some j"
  using parse_value_print [OF assms] by (simp add: json_parse_def)

lemma unmarshal_print:
  assumes "json_ok j" "jdepth j \<le> max_nesting_depth"
  shows "unmarshal d z (json_print j) = d j z"
  using json_parse_print [OF assms] by (simp add: unmarshal_def)

end
