(* ===== verification/JsonFuel.thy ===== *)
theory JsonFuel
  imports JsonRoundtrip
begin

text \<open>
  The fuel of the scanner is enough. \<open>parse_value\<close>, \<open>parse_elements\<close> and
  \<open>parse_members\<close> take a fuel argument so that they are total. Whatever a call
  returns with some fuel, it returns with every fuel at least the number of characters
  it consumed (\<open>parse_fuel_all\<close>). So the fuel \<open>Suc (2 * length s)\<close> of
  \<open>json_parse\<close> finds every value that any fuel finds (\<open>json_parse_complete\<close>): an
  input is never rejected for want of fuel. The scanners of strings and numbers always
  consume input.

  The scanner also keeps the nesting depth invariant of Go's \<open>pushParseState\<close>: a
  call at depth \<open>d \<le> max_nesting_depth\<close> returns values whose nesting, added to
  \<open>d\<close>, stays within \<open>max_nesting_depth\<close> (\<open>parse_depth\<close>), so no value
  \<open>json_parse\<close> returns nests deeper than 10000.
\<close>

lemma prepend_SomeD: "prepend p q = Some (x, t) \<Longrightarrow> \<exists>x'. q = Some (x', t)"
  by (auto simp: prepend_def)

lemma scan_string_length: "scan_string s = Some (x, t) \<Longrightarrow> length t < length s"
proof (induction "length s" arbitrary: s x t rule: less_induct)
  case less
  have IH: "\<And>s' x' t'. scan_string s' = Some (x', t') \<Longrightarrow> length s' < length s \<Longrightarrow> length t' < length s'"
    using less.hyps by blast
  show ?case
  proof (cases s)
    case Nil
    with less.prems show ?thesis by simp
  next
    case (Cons c cs)
    from less.prems Cons show ?thesis
      by (auto simp: Let_def simp del: utf8_len.simps hex4.simps hex_val.simps next_u4.simps
          split: if_splits option.splits list.splits dest!: prepend_SomeD)
         (fastforce dest: IH)+
  qed
qed

lemma scan_number_length: "scan_number s = Some (l, t) \<Longrightarrow> length t < length s"
proof -
  assume a: "scan_number s = Some (l, t)"
  then obtain i r1 f r2 e where i: "scan_int_part s = Some (i, r1)" and f: "scan_frac r1 = Some (f, r2)"
    and e: "scan_exp r2 = Some (e, t)"
    by (auto simp: scan_number_def split: option.splits)
  have "length r1 < length s"
    using i by (auto simp: scan_int_part_def length_dropWhile_le less_Suc_eq_le split: if_splits list.splits)
      (meson le_SucI le_imp_less_Suc length_dropWhile_le order.strict_trans1)+
  moreover have "length r2 \<le> length r1"
    using f by (auto simp: scan_frac_def split: if_splits list.splits)
      (meson le_SucI length_dropWhile_le)
  moreover have "length t \<le> length r2"
    using e by (auto simp: scan_exp_def Let_def split: if_splits list.splits prod.splits)
      (meson le_SucI length_dropWhile_le order_trans)+
  ultimately show ?thesis by linarith
qed

lemma fuel_Suc:
  assumes "\<And>k. b - a \<le> Suc k \<Longrightarrow> P (Suc k)" and "a < b" and "b - a \<le> m"
  shows "P m"
  using assms by (cases m) auto

lemma fuel_all:
  assumes "\<And>k. b - a \<le> Suc k \<Longrightarrow> P (Suc k)" and "a < b"
  shows "a < b \<and> (\<forall>m. b - a \<le> m \<longrightarrow> P m)"
  using assms fuel_Suc [of b a P] by blast

lemma skip_ws_Cons_length: "skip_ws s = c # r \<Longrightarrow> length r < length s"
  using length_skip_ws [of s] by simp

lemma parse_value_fuel_step:
  assumes IHe: "\<And>d s vs r. parse_elements n d s = Some (vs, r) \<Longrightarrow>
      length r < length s \<and> (\<forall>m. length s - length r \<le> m \<longrightarrow> parse_elements m d s = Some (vs, r))"
    and IHm: "\<And>d s ms r. parse_members n d s = Some (ms, r) \<Longrightarrow>
      length r < length s \<and> (\<forall>m. length s - length r \<le> m \<longrightarrow> parse_members m d s = Some (ms, r))"
    and pv: "parse_value (Suc n) d s = Some (v, r)"
  shows "length r < length s \<and> (\<forall>m. length s - length r \<le> m \<longrightarrow> parse_value m d s = Some (v, r))"
proof -
  obtain c r0 where sw: "skip_ws s = c # r0" using pv by (cases "skip_ws s") auto
  have l0: "length r0 < length s" by (rule skip_ws_Cons_length [OF sw])
  consider (obj) "c = CHR ''{''" | (arr) "c = CHR ''[''" | (other) "c \<noteq> CHR ''{''" "c \<noteq> CHR ''[''" by blast
  then show ?thesis
  proof cases
    case obj
    from pv sw obj have dd: "\<not> max_nesting_depth \<le> d" by (auto split: if_splits)
    obtain c' r' where sw2: "skip_ws r0 = c' # r'" using pv sw obj dd by (cases "skip_ws r0") auto
    have l1: "length r' < length r0" by (rule skip_ws_Cons_length [OF sw2])
    show ?thesis
    proof (cases "c' = CHR ''}''")
      case True
      with pv sw obj dd sw2 have vr: "v = JObject []" "r = r'" by auto
      have "parse_value (Suc k) d s = Some (v, r)" for k using sw obj dd sw2 True vr by simp
      then show ?thesis using l0 l1 vr by (intro fuel_all) simp_all
    next
      case False
      with pv sw obj dd sw2 obtain ms where pm: "parse_members n (Suc d) r0 = Some (ms, r)" and v: "v = JObject ms"
        by (auto split: option.splits)
      from IHm [OF pm] have lt: "length r < length r0"
        and all: "\<And>m. length r0 - length r \<le> m \<Longrightarrow> parse_members m (Suc d) r0 = Some (ms, r)" by auto
      have "parse_value (Suc k) d s = Some (v, r)" if "length s - length r \<le> Suc k" for k
        using sw obj dd sw2 False v all [of k] that l0 by simp
      then show ?thesis using lt l0 by (intro fuel_all) simp_all
    qed
  next
    case arr
    then have nobj: "c \<noteq> CHR ''{''" by auto
    from pv sw arr nobj have dd: "\<not> max_nesting_depth \<le> d" by (auto split: if_splits)
    obtain c' r' where sw2: "skip_ws r0 = c' # r'" using pv sw arr nobj dd by (cases "skip_ws r0") auto
    have l1: "length r' < length r0" by (rule skip_ws_Cons_length [OF sw2])
    show ?thesis
    proof (cases "c' = CHR '']''")
      case True
      with pv sw arr nobj dd sw2 have vr: "v = JArray []" "r = r'" by auto
      have "parse_value (Suc k) d s = Some (v, r)" for k using sw arr nobj dd sw2 True vr by simp
      then show ?thesis using l0 l1 vr by (intro fuel_all) simp_all
    next
      case False
      with pv sw arr nobj dd sw2 obtain vs where pe: "parse_elements n (Suc d) r0 = Some (vs, r)" and v: "v = JArray vs"
        by (auto split: option.splits)
      from IHe [OF pe] have lt: "length r < length r0"
        and all: "\<And>m. length r0 - length r \<le> m \<Longrightarrow> parse_elements m (Suc d) r0 = Some (vs, r)" by auto
      have "parse_value (Suc k) d s = Some (v, r)" if "length s - length r \<le> Suc k" for k
        using sw arr nobj dd sw2 False v all [of k] that l0 by simp
      then show ?thesis using lt l0 by (intro fuel_all) simp_all
    qed
  next
    case other
    have eq: "parse_value (Suc k) d s = parse_value (Suc n) d s" for k using sw other by simp
    have "length r < length (c # r0)"
      using pv sw other
      by (auto split: if_splits dest!: scan_string_length scan_number_length)
    with l0 have lt: "length r < length s" by simp
    have "parse_value (Suc k) d s = Some (v, r)" for k using eq pv by simp
    then show ?thesis using lt by (intro fuel_all) simp_all
  qed
qed

lemma parse_elements_fuel_step:
  assumes IHv: "\<And>d s v r. parse_value n d s = Some (v, r) \<Longrightarrow>
      length r < length s \<and> (\<forall>m. length s - length r \<le> m \<longrightarrow> parse_value m d s = Some (v, r))"
    and IHe: "\<And>d s vs r. parse_elements n d s = Some (vs, r) \<Longrightarrow>
      length r < length s \<and> (\<forall>m. length s - length r \<le> m \<longrightarrow> parse_elements m d s = Some (vs, r))"
    and pe: "parse_elements (Suc n) d s = Some (vs, r)"
  shows "length r < length s \<and> (\<forall>m. length s - length r \<le> m \<longrightarrow> parse_elements m d s = Some (vs, r))"
proof -
  obtain v r1 where pv: "parse_value n d s = Some (v, r1)" using pe by (auto split: option.splits)
  from IHv [OF pv] have l1: "length r1 < length s"
    and all1: "\<And>m. length s - length r1 \<le> m \<Longrightarrow> parse_value m d s = Some (v, r1)" by auto
  obtain c t where sw: "skip_ws r1 = c # t" using pe pv by (cases "skip_ws r1") auto
  have lt: "length t < length r1" by (rule skip_ws_Cons_length [OF sw])
  show ?thesis
  proof (cases "c = CHR '',''")
    case True
    with pe pv sw obtain vs' where pe2: "parse_elements n d t = Some (vs', r)" and vs: "vs = v # vs'"
      by (auto split: option.splits)
    from IHe [OF pe2] have l2: "length r < length t"
      and all2: "\<And>m. length t - length r \<le> m \<Longrightarrow> parse_elements m d t = Some (vs', r)" by auto
    have "parse_elements (Suc k) d s = Some (vs, r)" if "length s - length r \<le> Suc k" for k
    proof -
      have "length s - length r1 \<le> k" "length t - length r \<le> k" using that l1 l2 lt by linarith+
      then show ?thesis using all1 all2 sw True vs by simp
    qed
    then show ?thesis using l1 l2 lt by (intro fuel_all) simp_all
  next
    case False
    with pe pv sw have c: "c = CHR '']''" and vr: "vs = [v]" "r = t" by (auto split: if_splits)
    have "parse_elements (Suc k) d s = Some (vs, r)" if "length s - length r \<le> Suc k" for k
    proof -
      have "length s - length r1 \<le> k" using that l1 lt unfolding vr(2) by linarith
      then show ?thesis using all1 sw c vr by simp
    qed
    then show ?thesis using l1 lt vr by (intro fuel_all) simp_all
  qed
qed

lemma parse_members_fuel_step:
  assumes IHv: "\<And>d s v r. parse_value n d s = Some (v, r) \<Longrightarrow>
      length r < length s \<and> (\<forall>m. length s - length r \<le> m \<longrightarrow> parse_value m d s = Some (v, r))"
    and IHm: "\<And>d s ms r. parse_members n d s = Some (ms, r) \<Longrightarrow>
      length r < length s \<and> (\<forall>m. length s - length r \<le> m \<longrightarrow> parse_members m d s = Some (ms, r))"
    and pm: "parse_members (Suc n) d s = Some (ms, r)"
  shows "length r < length s \<and> (\<forall>m. length s - length r \<le> m \<longrightarrow> parse_members m d s = Some (ms, r))"
proof -
  obtain c0 r0 where sw0: "skip_ws s = c0 # r0" using pm by (cases "skip_ws s") auto
  have l0: "length r0 < length s" by (rule skip_ws_Cons_length [OF sw0])
  from pm sw0 have q: "c0 = CHR 0x22" by (auto split: if_splits)
  obtain k r1 where ss: "scan_string r0 = Some (k, r1)" using pm sw0 q by (auto split: option.splits)
  have l1: "length r1 < length r0" by (rule scan_string_length [OF ss])
  obtain c1 r2 where sw1: "skip_ws r1 = c1 # r2" using pm sw0 q ss by (cases "skip_ws r1") auto
  have l2: "length r2 < length r1" by (rule skip_ws_Cons_length [OF sw1])
  from pm sw0 q ss sw1 have col: "c1 = CHR '':''" by (auto split: if_splits)
  obtain v r3 where pv: "parse_value n d r2 = Some (v, r3)" using pm sw0 q ss sw1 col by (auto split: option.splits)
  from IHv [OF pv] have l3: "length r3 < length r2"
    and all3: "\<And>m. length r2 - length r3 \<le> m \<Longrightarrow> parse_value m d r2 = Some (v, r3)" by auto
  obtain c3 r4 where sw3: "skip_ws r3 = c3 # r4" using pm sw0 q ss sw1 col pv by (cases "skip_ws r3") auto
  have l4: "length r4 < length r3" by (rule skip_ws_Cons_length [OF sw3])
  note pre = sw0 q ss sw1 col
  show ?thesis
  proof (cases "c3 = CHR '',''")
    case True
    with pm pre pv sw3 obtain ms' where pm2: "parse_members n d r4 = Some (ms', r)" and ms: "ms = (k, v) # ms'"
      by (auto split: option.splits)
    from IHm [OF pm2] have l5: "length r < length r4"
      and all5: "\<And>m. length r4 - length r \<le> m \<Longrightarrow> parse_members m d r4 = Some (ms', r)" by auto
    have "parse_members (Suc j) d s = Some (ms, r)" if "length s - length r \<le> Suc j" for j
    proof -
      have "length r2 - length r3 \<le> j" "length r4 - length r \<le> j" using that l0 l1 l2 l3 l4 l5 by linarith+
      then show ?thesis using all3 all5 pre sw3 True ms by simp
    qed
    then show ?thesis using l0 l1 l2 l3 l4 l5 by (intro fuel_all) simp_all
  next
    case False
    with pm pre pv sw3 have c: "c3 = CHR ''}''" and mr: "ms = [(k, v)]" "r = r4" by (auto split: if_splits)
    have "parse_members (Suc j) d s = Some (ms, r)" if "length s - length r \<le> Suc j" for j
    proof -
      have "length r2 - length r3 \<le> j" using that l0 l1 l2 l3 l4 unfolding mr(2) by linarith
      then show ?thesis using all3 pre sw3 c mr by simp
    qed
    then show ?thesis using l0 l1 l2 l3 l4 mr by (intro fuel_all) simp_all
  qed
qed

lemma parse_fuel_all:
  "(parse_value n d s = Some (v, r) \<longrightarrow>
      length r < length s \<and> (\<forall>m. length s - length r \<le> m \<longrightarrow> parse_value m d s = Some (v, r))) \<and>
   (parse_elements n d s = Some (vs, r) \<longrightarrow>
      length r < length s \<and> (\<forall>m. length s - length r \<le> m \<longrightarrow> parse_elements m d s = Some (vs, r))) \<and>
   (parse_members n d s = Some (ms, r) \<longrightarrow>
      length r < length s \<and> (\<forall>m. length s - length r \<le> m \<longrightarrow> parse_members m d s = Some (ms, r)))"
proof (induction n arbitrary: d s v vs ms r)
  case 0
  then show ?case by simp
next
  case (Suc n)
  have IHv: "\<And>d s v r. parse_value n d s = Some (v, r) \<Longrightarrow>
      length r < length s \<and> (\<forall>m. length s - length r \<le> m \<longrightarrow> parse_value m d s = Some (v, r))"
    and IHe: "\<And>d s vs r. parse_elements n d s = Some (vs, r) \<Longrightarrow>
      length r < length s \<and> (\<forall>m. length s - length r \<le> m \<longrightarrow> parse_elements m d s = Some (vs, r))"
    and IHm: "\<And>d s ms r. parse_members n d s = Some (ms, r) \<Longrightarrow>
      length r < length s \<and> (\<forall>m. length s - length r \<le> m \<longrightarrow> parse_members m d s = Some (ms, r))"
    using Suc.IH by blast+
  show ?case
    using parse_value_fuel_step [OF IHe IHm] parse_elements_fuel_step [OF IHv IHe]
      parse_members_fuel_step [OF IHv IHm] by blast
qed

text \<open>Every text that the scanner reads as one value, with any fuel and with only white
  space after it, is accepted by \<open>json_parse\<close> as that value.\<close>

lemma json_parse_complete:
  assumes "parse_value m 0 s = Some (v, r)" and "skip_ws r = []"
  shows "json_parse s = Some v"
proof -
  have "length s - length r \<le> Suc (2 * length s)" by simp
  then have "parse_value (Suc (2 * length s)) 0 s = Some (v, r)"
    using parse_fuel_all [of m 0 s v r] assms(1) by blast
  with assms(2) show ?thesis by (simp add: json_parse_def)
qed

subsection \<open>Nesting depth\<close>

lemma parse_depth:
  "(parse_value n d s = Some (v, r) \<longrightarrow> d \<le> max_nesting_depth \<longrightarrow> d + jdepth v \<le> max_nesting_depth) \<and>
   (parse_elements n d s = Some (vs, r) \<longrightarrow> d \<le> max_nesting_depth \<longrightarrow> d + elems_depth vs \<le> max_nesting_depth) \<and>
   (parse_members n d s = Some (ms, r) \<longrightarrow> d \<le> max_nesting_depth \<longrightarrow> d + members_depth ms \<le> max_nesting_depth)"
proof (induction n arbitrary: d s v vs ms r)
  case 0
  then show ?case by simp
next
  case (Suc n)
  have IHv: "\<And>d s v r. parse_value n d s = Some (v, r) \<Longrightarrow> d \<le> max_nesting_depth \<Longrightarrow> d + jdepth v \<le> max_nesting_depth"
    and IHe: "\<And>d s vs r. parse_elements n d s = Some (vs, r) \<Longrightarrow> d \<le> max_nesting_depth \<Longrightarrow> d + elems_depth vs \<le> max_nesting_depth"
    and IHm: "\<And>d s ms r. parse_members n d s = Some (ms, r) \<Longrightarrow> d \<le> max_nesting_depth \<Longrightarrow> d + members_depth ms \<le> max_nesting_depth"
    using Suc.IH by blast+
  have v: "d + jdepth v \<le> max_nesting_depth" if "parse_value (Suc n) d s = Some (v, r)" "d \<le> max_nesting_depth"
    using that
    by (auto simp del: max_nesting_depth_def split: list.splits if_splits option.splits dest!: IHe IHm)
  have e: "d + elems_depth vs \<le> max_nesting_depth" if "parse_elements (Suc n) d s = Some (vs, r)" "d \<le> max_nesting_depth"
    using that
    by (auto simp: max_def simp del: max_nesting_depth_def split: list.splits if_splits option.splits dest!: IHv IHe)
  have m: "d + members_depth ms \<le> max_nesting_depth" if "parse_members (Suc n) d s = Some (ms, r)" "d \<le> max_nesting_depth"
    using that
    by (auto simp: max_def simp del: max_nesting_depth_def split: list.splits if_splits option.splits dest!: IHv IHm)
  show ?case using v e m by blast
qed

text \<open>No value that \<open>json_parse\<close> accepts nests more than
  \<open>max_nesting_depth\<close> arrays and objects deep: Go's scanner refuses a deeper input
  with "exceeded max depth".\<close>

lemma json_parse_depth: "json_parse s = Some v \<Longrightarrow> jdepth v \<le> max_nesting_depth"
  using parse_depth [of "Suc (2 * length s)" 0 s v] by (auto simp: json_parse_def split: option.splits if_splits)

end
