(* ===== verification/RequestRoundtrip.thy ===== *)
theory RequestRoundtrip
  imports Messages JsonRoundtrip JsonFuel
begin

text \<open>
  The requests the client sends, read back. \<open>SendMessage\<close> and \<open>SendRaw\<close> marshal
  their request structs (\<open>enc_SendMessageRequest\<close>, \<open>enc_SendRawRequest\<close>) into the
  body \<open>do\<close> posts. Here that body is parsed by the scanner and decoded with the
  structs' own tags (\<open>SendMessageRequest_fields\<close>, \<open>SendRawRequest_fields\<close>), as a Go
  server built on package \<open>models\<close> would do. The requests are well formed when their
  strings are valid UTF-8 and their header map is finite; \<open>omit_slice\<close> and
  \<open>omit_map\<close> are what \<open>omitempty\<close> does to an empty collection.
\<close>

definition strings_ok :: "string slice \<Rightarrow> bool" where
  "strings_ok xs = (case xs of None \<Rightarrow> True | Some ys \<Rightarrow> list_all valid_utf8 ys)"

definition Attachment_ok :: "Attachment \<Rightarrow> bool" where
  "Attachment_ok a \<longleftrightarrow> valid_utf8 (Name a) \<and> valid_utf8 (ContentType a) \<and> valid_utf8 (Attachment.Data a)"

definition headers_ok :: "string gomap \<Rightarrow> bool" where
  "headers_ok m =
     (case m of
        None \<Rightarrow> True
      | Some mp \<Rightarrow> finite (Mapping.keys mp) \<and>
          list_all (\<lambda>k. valid_utf8 k \<and> valid_utf8 (the (Mapping.lookup mp k))) (Mapping.ordered_keys mp))"

definition SendMessageRequest_ok :: "SendMessageRequest \<Rightarrow> bool" where
  "SendMessageRequest_ok r \<longleftrightarrow>
     strings_ok (To r) \<and> strings_ok (CC r) \<and> strings_ok (BCC r) \<and>
     list_all valid_utf8 [From r, Sender r, Subject r, Tag r, ReplyTo r,
       SendMessageRequest.PlainBody r, SendMessageRequest.HTMLBody r] \<and>
     (case SendMessageRequest.Attachments r of None \<Rightarrow> True | Some as \<Rightarrow> list_all Attachment_ok as) \<and>
     headers_ok (SendMessageRequest.Headers r)"

definition SendRawRequest_ok :: "SendRawRequest \<Rightarrow> bool" where
  "SendRawRequest_ok r \<longleftrightarrow> valid_utf8 (MailFrom r) \<and> strings_ok (RcptTo r) \<and> valid_utf8 (SendRawRequest.Data r)"

definition omit_slice :: "'a slice \<Rightarrow> 'a slice" where
  "omit_slice xs = (if slice_empty xs then None else xs)"

definition omit_map :: "'v gomap \<Rightarrow> 'v gomap" where
  "omit_map m = (if map_empty m then None else m)"

subsection \<open>Printed requests are well formed\<close>

lemma members_ok_append [simp]: "members_ok (xs @ ys) = (members_ok xs \<and> members_ok ys)"
proof (induction xs)
  case (Cons x xs)
  then show ?case by (cases x) simp
qed simp

lemma members_depth_append [simp]: "members_depth (xs @ ys) = max (members_depth xs) (members_depth ys)"
proof (induction xs)
  case (Cons x xs)
  then show ?case by (cases x) simp
qed simp

lemma elems_ok_map [simp]: "elems_ok (map f xs) = list_all (\<lambda>x. json_ok (f x)) xs"
  by (induction xs) auto

lemma elems_depth_map_le: "list_all (\<lambda>x. jdepth (f x) \<le> n) xs \<Longrightarrow> elems_depth (map f xs) \<le> n"
  by (induction xs) auto

lemma members_ok_map [simp]:
  "members_ok (map (\<lambda>k. (k, g k)) ks) = list_all (\<lambda>k. valid_utf8 k \<and> json_ok (g k)) ks"
  by (induction ks) auto

lemma members_depth_map_le: "list_all (\<lambda>k. jdepth (g k) \<le> n) ks \<Longrightarrow> members_depth (map (\<lambda>k. (k, g k)) ks) \<le> n"
  by (induction ks) auto

lemma enc_field_ok [simp]: "members_ok (enc_field n om z v) = (om \<and> z \<or> valid_utf8 n \<and> json_ok v)"
  by (auto simp: enc_field_def)

lemma enc_field_depth [simp]: "members_depth (enc_field n om z v) = (if om \<and> z then 0 else jdepth v)"
  by (simp add: enc_field_def)

lemma enc_strings_ok: "json_ok (enc_slice JString xs) = strings_ok xs"
  by (simp add: enc_slice_def strings_ok_def split: option.splits)

lemma enc_strings_depth: "jdepth (enc_slice JString xs) \<le> 1"
proof (cases xs)
  case (Some ys)
  have "elems_depth (map JString ys) \<le> 0" by (rule elems_depth_map_le) (simp add: list_all_iff)
  with Some show ?thesis by (simp add: enc_slice_def)
qed (simp add: enc_slice_def)

lemma enc_Attachment_ok: "json_ok (enc_Attachment a) = Attachment_ok a"
  by (simp add: enc_Attachment_def Attachment_ok_def enc_int_def int_lit_ok_int_lit)

lemma enc_Attachment_depth: "jdepth (enc_Attachment a) = 1"
  by (simp add: enc_Attachment_def enc_int_def)

lemma enc_headers_ok: "headers_ok m \<Longrightarrow> json_ok (enc_map JString m)"
  by (simp add: enc_map_def headers_ok_def split: option.splits)

lemma enc_headers_depth: "jdepth (enc_map JString m) \<le> 1"
proof (cases m)
  case (Some mp)
  have "members_depth (map (\<lambda>k. (k, JString (the (Mapping.lookup mp k)))) (Mapping.ordered_keys mp)) \<le> 0"
    by (rule members_depth_map_le) (simp add: list_all_iff)
  with Some show ?thesis by (simp add: enc_map_def)
qed (simp add: enc_map_def)

lemma enc_attachments_ok:
  "(case xs of None \<Rightarrow> True | Some as \<Rightarrow> list_all Attachment_ok as) \<Longrightarrow> json_ok (enc_slice enc_Attachment xs)"
  by (simp add: enc_slice_def enc_Attachment_ok split: option.splits)

lemma enc_attachments_depth: "jdepth (enc_slice enc_Attachment xs) \<le> 2"
proof (cases xs)
  case (Some ys)
  have "elems_depth (map enc_Attachment ys) \<le> 1"
    by (rule elems_depth_map_le) (simp add: list_all_iff enc_Attachment_depth)
  with Some show ?thesis by (simp add: enc_slice_def)
qed (simp add: enc_slice_def)

lemma enc_SendMessageRequest_ok:
  assumes "SendMessageRequest_ok r"
  shows "json_ok (enc_SendMessageRequest r)" "jdepth (enc_SendMessageRequest r) \<le> max_nesting_depth"
proof -
  show "json_ok (enc_SendMessageRequest r)"
    using assms by (simp add: enc_SendMessageRequest_def SendMessageRequest_ok_def enc_strings_ok
        enc_headers_ok enc_attachments_ok)
  have "jdepth (enc_SendMessageRequest r) \<le> 3"
    using enc_strings_depth [of "To r"] enc_strings_depth [of "CC r"] enc_strings_depth [of "BCC r"]
      enc_headers_depth [of "SendMessageRequest.Headers r"] enc_attachments_depth [of "SendMessageRequest.Attachments r"]
    by (simp add: enc_SendMessageRequest_def)
  then show "jdepth (enc_SendMessageRequest r) \<le> max_nesting_depth" by (simp add: max_nesting_depth_def)
qed

lemma enc_SendRawRequest_ok:
  assumes "SendRawRequest_ok r"
  shows "json_ok (enc_SendRawRequest r)" "jdepth (enc_SendRawRequest r) \<le> max_nesting_depth"
proof -
  show "json_ok (enc_SendRawRequest r)"
    using assms by (simp add: enc_SendRawRequest_def SendRawRequest_ok_def enc_strings_ok)
  have "jdepth (enc_SendRawRequest r) \<le> 2"
    using enc_strings_depth [of "RcptTo r"] by (simp add: enc_SendRawRequest_def)
  then show "jdepth (enc_SendRawRequest r) \<le> max_nesting_depth" by (simp add: max_nesting_depth_def)
qed

subsection \<open>Decoding what was encoded\<close>

lemma dec_string_JString [simp]: "dec_string (JString s) cur = Inr s"
  by (simp add: dec_string_def)

lemma dec_bool_JBool [simp]: "dec_bool (JBool b) cur = Inr b"
  by (simp add: dec_bool_def)

lemma dec_elems_map: "(\<And>x c. x \<in> set xs \<Longrightarrow> d (e x) c = Inr x) \<Longrightarrow> dec_elems z d (map e xs) old = Inr xs"
  by (induction xs arbitrary: old) auto

lemma dec_slice_enc_slice:
  "(\<And>x c. d (e x) c = Inr x) \<Longrightarrow> dec_slice z d (enc_slice e xs) cur = Inr xs"
  by (simp add: dec_slice_def enc_slice_def dec_elems_map split: option.splits)

lemma dec_map_members_map:
  "(\<And>k. d (e (g k)) z = Inr (g k)) \<Longrightarrow>
   dec_map_members z d (map (\<lambda>k. (k, e (g k))) ks) m = Inr (fold (\<lambda>k. Mapping.update k (g k)) ks m)"
  by (induction ks arbitrary: m) auto

lemma lookup_fold_update:
  "Mapping.lookup (fold (\<lambda>k. Mapping.update k (g k)) ks m) x = (if x \<in> set ks then Some (g x) else Mapping.lookup m x)"
  by (induction ks arbitrary: m) (auto simp: lookup_update')

lemma fold_update_ordered_keys:
  assumes "finite (Mapping.keys mp)"
  shows "fold (\<lambda>k. Mapping.update k (the (Mapping.lookup mp k))) (Mapping.ordered_keys mp) Mapping.empty = mp"
proof (rule mapping_eqI)
  fix x
  show "Mapping.lookup (fold (\<lambda>k. Mapping.update k (the (Mapping.lookup mp k))) (Mapping.ordered_keys mp) Mapping.empty) x =
        Mapping.lookup mp x"
    using assms by (auto simp: lookup_fold_update keys_is_none_rep Option.is_none_def)
qed

lemma dec_map_enc_map:
  assumes "case m of None \<Rightarrow> True | Some mp \<Rightarrow> finite (Mapping.keys mp)"
  shows "dec_map [] dec_string (enc_map JString m) None = Inr m"
proof (cases m)
  case (Some mp)
  have "dec_map_members [] dec_string (map (\<lambda>k. (k, JString (the (Mapping.lookup mp k)))) (Mapping.ordered_keys mp))
          Mapping.empty = Inr (fold (\<lambda>k. Mapping.update k (the (Mapping.lookup mp k))) (Mapping.ordered_keys mp) Mapping.empty)"
    by (rule dec_map_members_map) simp
  with Some assms show ?thesis by (simp add: dec_map_def enc_map_def fold_update_ordered_keys)
qed (simp add: dec_map_def enc_map_def)

lemma dec_Attachment_enc: "dec_struct Attachment_fields (enc_Attachment a) c = Inr a"
  by (cases a) (simp add: dec_struct_def enc_Attachment_def Attachment_fields_def field_lookup_def field_def
      dec_int_enc_int)

lemma dec_members_enc_field_Inr:
  assumes "field_lookup fs n = Some (snd (field n get upd d))" "d v (get r) = Inr x" "upd (\<lambda>_. get r) r = r"
  shows "dec_members fs (enc_field n om z v @ ms) r = dec_members fs ms (upd (\<lambda>_. if om \<and> z then get r else x) r)"
  using assms by (simp add: enc_field_def field_def)

lemma dec_members_enc_field_last:
  assumes "field_lookup fs n = Some (snd (field n get upd d))" "d v (get r) = Inr x" "upd (\<lambda>_. get r) r = r"
  shows "dec_members fs (enc_field n om z v) r = Inr (upd (\<lambda>_. if om \<and> z then get r else x) r)"
  using assms by (simp add: enc_field_def field_def)

lemma if_Nil_self [simp]: "(if x = [] then [] else x) = x"
  by simp

lemma if_not_False_self [simp]: "(if \<not> b then False else b) = b"
  by simp

lemma SendMessageRequest_lookups:
  "field_lookup SendMessageRequest_fields ''to'' = Some (snd (field ''to'' To To_update (dec_slice [] dec_string)))"
  "field_lookup SendMessageRequest_fields ''cc'' = Some (snd (field ''cc'' CC CC_update (dec_slice [] dec_string)))"
  "field_lookup SendMessageRequest_fields ''bcc'' = Some (snd (field ''bcc'' BCC BCC_update (dec_slice [] dec_string)))"
  "field_lookup SendMessageRequest_fields ''from'' = Some (snd (field ''from'' From From_update dec_string))"
  "field_lookup SendMessageRequest_fields ''sender'' = Some (snd (field ''sender'' Sender Sender_update dec_string))"
  "field_lookup SendMessageRequest_fields ''subject'' = Some (snd (field ''subject'' Subject Subject_update dec_string))"
  "field_lookup SendMessageRequest_fields ''tag'' = Some (snd (field ''tag'' Tag Tag_update dec_string))"
  "field_lookup SendMessageRequest_fields ''reply_to'' = Some (snd (field ''reply_to'' ReplyTo ReplyTo_update dec_string))"
  "field_lookup SendMessageRequest_fields ''plain_body'' =
     Some (snd (field ''plain_body'' SendMessageRequest.PlainBody SendMessageRequest.PlainBody_update dec_string))"
  "field_lookup SendMessageRequest_fields ''html_body'' =
     Some (snd (field ''html_body'' SendMessageRequest.HTMLBody SendMessageRequest.HTMLBody_update dec_string))"
  "field_lookup SendMessageRequest_fields ''attachments'' =
     Some (snd (field ''attachments'' SendMessageRequest.Attachments SendMessageRequest.Attachments_update
       (dec_slice Attachment_zero (dec_struct Attachment_fields))))"
  "field_lookup SendMessageRequest_fields ''headers'' =
     Some (snd (field ''headers'' SendMessageRequest.Headers SendMessageRequest.Headers_update (dec_map [] dec_string)))"
  "field_lookup SendMessageRequest_fields ''bounce'' =
     Some (snd (field ''bounce'' SendMessageRequest.Bounce SendMessageRequest.Bounce_update dec_bool))"
  by (simp_all add: SendMessageRequest_fields_def field_lookup_def)

lemma dec_strings_enc [simp]: "dec_slice [] dec_string (enc_slice JString xs) c = Inr xs"
  by (rule dec_slice_enc_slice) simp

lemma dec_attachments_enc [simp]:
  "dec_slice Attachment_zero (dec_struct Attachment_fields) (enc_slice enc_Attachment xs) c = Inr xs"
  by (rule dec_slice_enc_slice) (rule dec_Attachment_enc)

lemma dec_SendMessageRequest_enc:
  assumes "case SendMessageRequest.Headers r of None \<Rightarrow> True | Some mp \<Rightarrow> finite (Mapping.keys mp)"
  shows "dec_struct SendMessageRequest_fields (enc_SendMessageRequest r) SendMessageRequest_zero =
    Inr (r\<lparr>CC := omit_slice (CC r), BCC := omit_slice (BCC r),
           SendMessageRequest.Attachments := omit_slice (SendMessageRequest.Attachments r),
           SendMessageRequest.Headers := omit_map (SendMessageRequest.Headers r)\<rparr>)"
proof -
  have h: "dec_map [] dec_string (enc_map JString (SendMessageRequest.Headers r)) None = Inr (SendMessageRequest.Headers r)"
    using assms by (rule dec_map_enc_map)
  show ?thesis
    unfolding dec_struct_def enc_SendMessageRequest_def
    apply (simp only: append_assoc json.case)
    using h by (cases r) (simp add: dec_members_enc_field_Inr dec_members_enc_field_last SendMessageRequest_lookups
        SendMessageRequest_zero_def omit_slice_def omit_map_def cong: if_cong split del: if_split)
qed

subsection \<open>The requests the client sends\<close>

lemma SendRawRequest_lookups:
  "field_lookup SendRawRequest_fields ''mail_from'' = Some (snd (field ''mail_from'' MailFrom MailFrom_update dec_string))"
  "field_lookup SendRawRequest_fields ''rcpt_to'' = Some (snd (field ''rcpt_to'' RcptTo RcptTo_update (dec_slice [] dec_string)))"
  "field_lookup SendRawRequest_fields ''data'' =
     Some (snd (field ''data'' SendRawRequest.Data SendRawRequest.Data_update dec_string))"
  "field_lookup SendRawRequest_fields ''bounce'' =
     Some (snd (field ''bounce'' SendRawRequest.Bounce SendRawRequest.Bounce_update dec_bool))"
  by (simp_all add: SendRawRequest_fields_def field_lookup_def)

lemma dec_SendRawRequest_enc:
  "dec_struct SendRawRequest_fields (enc_SendRawRequest r) SendRawRequest_zero = Inr r"
  unfolding dec_struct_def enc_SendRawRequest_def
  by (simp only: append_assoc json.case)
     (cases r, simp add: dec_members_enc_field_Inr dec_members_enc_field_last SendRawRequest_lookups
        SendRawRequest_zero_def cong: if_cong split del: if_split)

lemma sent_request_body:
  "sent_request env c m p (GoEncodable j) = Some req \<Longrightarrow> req_body req = Some (json_print j)"
  by (auto simp: sent_request_def request_body_def marshal_def build_request_def Let_def split: if_splits)

text \<open>C24: what a Go server built on \<open>models\<close> decodes from the request
  \<open>SendMessage\<close> hands to the transport is the caller's request. The only exceptions
  are the \<open>omitempty\<close> collections (\<open>cc\<close>, \<open>bcc\<close>, \<open>attachments\<close>,
  \<open>headers\<close>): when empty, they come back nil. This holds whenever the request's
  strings are valid UTF-8 and its header map is finite. Every other field, an empty
  \<open>to\<close> list included, survives \<open>json.Marshal\<close>, the scanner and \<open>json.Unmarshal\<close>
  unchanged.\<close>

theorem SendMessage_body_roundtrip:
  assumes ok: "SendMessageRequest_ok r"
    and sent: "sent_request env c MethodPost ''/send/message'' (GoEncodable (enc_SendMessageRequest r)) = Some req"
  shows "\<exists>b. req_body req = Some b \<and>
    unmarshal (dec_struct SendMessageRequest_fields) SendMessageRequest_zero b =
      Inr (r\<lparr>CC := omit_slice (CC r), BCC := omit_slice (BCC r),
             SendMessageRequest.Attachments := omit_slice (SendMessageRequest.Attachments r),
             SendMessageRequest.Headers := omit_map (SendMessageRequest.Headers r)\<rparr>)"
proof -
  have fin: "case SendMessageRequest.Headers r of None \<Rightarrow> True | Some mp \<Rightarrow> finite (Mapping.keys mp)"
    using ok by (simp add: SendMessageRequest_ok_def headers_ok_def split: option.splits)
  have "unmarshal (dec_struct SendMessageRequest_fields) SendMessageRequest_zero (json_print (enc_SendMessageRequest r)) =
        dec_struct SendMessageRequest_fields (enc_SendMessageRequest r) SendMessageRequest_zero"
    by (rule unmarshal_print [OF enc_SendMessageRequest_ok [OF ok]])
  also note dec_SendMessageRequest_enc [OF fin]
  finally show ?thesis using sent_request_body [OF sent] by blast
qed

theorem SendMessage_body_roundtrip_witness:
  "SendMessageRequest_ok (spec_request\<lparr>CC := Some [], Subject := ''Hi''\<rparr>) \<and>
   sent_request (test_server 200 spec_reply) (NewClient ''k'') MethodPost ''/send/message''
     (GoEncodable (enc_SendMessageRequest (spec_request\<lparr>CC := Some [], Subject := ''Hi''\<rparr>))) =
     Some (build_request (NewClient ''k'') MethodPost (DefaultBaseURL @ ''/send/message'')
       (Some (json_print (enc_SendMessageRequest (spec_request\<lparr>CC := Some [], Subject := ''Hi''\<rparr>))))) \<and>
   (\<exists>b. req_body (build_request (NewClient ''k'') MethodPost (DefaultBaseURL @ ''/send/message'')
       (Some (json_print (enc_SendMessageRequest (spec_request\<lparr>CC := Some [], Subject := ''Hi''\<rparr>))))) = Some b \<and>
     unmarshal (dec_struct SendMessageRequest_fields) SendMessageRequest_zero b =
       Inr (spec_request\<lparr>Subject := ''Hi''\<rparr>))"
proof -
  have ok: "SendMessageRequest_ok (spec_request\<lparr>CC := Some [], Subject := ''Hi''\<rparr>)"
    by (simp add: SendMessageRequest_ok_def spec_request_def strings_ok_def headers_ok_def)
  have s: "sent_request (test_server 200 spec_reply) (NewClient ''k'') MethodPost ''/send/message''
     (GoEncodable (enc_SendMessageRequest (spec_request\<lparr>CC := Some [], Subject := ''Hi''\<rparr>))) =
     Some (build_request (NewClient ''k'') MethodPost (DefaultBaseURL @ ''/send/message'')
       (Some (json_print (enc_SendMessageRequest (spec_request\<lparr>CC := Some [], Subject := ''Hi''\<rparr>)))))"
    by (simp add: sent_request_def request_body_def marshal_def test_server_def NewClient_def)
  have e: "spec_request\<lparr>CC := Some [], Subject := ''Hi''\<rparr>\<lparr>CC := omit_slice (CC (spec_request\<lparr>CC := Some [], Subject := ''Hi''\<rparr>)),
      BCC := omit_slice (BCC (spec_request\<lparr>CC := Some [], Subject := ''Hi''\<rparr>)),
      SendMessageRequest.Attachments := omit_slice (SendMessageRequest.Attachments (spec_request\<lparr>CC := Some [], Subject := ''Hi''\<rparr>)),
      SendMessageRequest.Headers := omit_map (SendMessageRequest.Headers (spec_request\<lparr>CC := Some [], Subject := ''Hi''\<rparr>))\<rparr> =
      spec_request\<lparr>Subject := ''Hi''\<rparr>"
    by (simp add: spec_request_def omit_slice_def omit_map_def slice_empty_def map_empty_def)
  show ?thesis using ok s SendMessage_body_roundtrip [OF ok s] unfolding e by simp
qed


text \<open>C25: the same holds for \<open>SendRaw\<close> with no exception at all. The
  \<open>SendRawRequest\<close> decoded from the body of the request it sends equals the caller's
  request whenever its strings are valid UTF-8 (an omitted \<open>bounce\<close> decodes to
  \<open>false\<close>).\<close>

theorem SendRaw_body_roundtrip:
  assumes ok: "SendRawRequest_ok r"
    and sent: "sent_request env c MethodPost ''/send/raw'' (GoEncodable (enc_SendRawRequest r)) = Some req"
  shows "\<exists>b. req_body req = Some b \<and> unmarshal (dec_struct SendRawRequest_fields) SendRawRequest_zero b = Inr r"
proof -
  have "unmarshal (dec_struct SendRawRequest_fields) SendRawRequest_zero (json_print (enc_SendRawRequest r)) =
        dec_struct SendRawRequest_fields (enc_SendRawRequest r) SendRawRequest_zero"
    by (rule unmarshal_print [OF enc_SendRawRequest_ok [OF ok]])
  also note dec_SendRawRequest_enc
  finally show ?thesis using sent_request_body [OF sent] by blast
qed

theorem SendRaw_body_roundtrip_witness:
  "SendRawRequest_ok raw_request \<and>
   sent_request (test_server 200 spec_reply) (NewClient ''k'') MethodPost ''/send/raw'' (GoEncodable (enc_SendRawRequest raw_request)) =
     Some (build_request (NewClient ''k'') MethodPost (DefaultBaseURL @ ''/send/raw'')
       (Some (json_print (enc_SendRawRequest raw_request)))) \<and>
   (\<exists>b. req_body (build_request (NewClient ''k'') MethodPost (DefaultBaseURL @ ''/send/raw'')
       (Some (json_print (enc_SendRawRequest raw_request)))) = Some b \<and>
     unmarshal (dec_struct SendRawRequest_fields) SendRawRequest_zero b = Inr raw_request)"
proof -
  have ok: "SendRawRequest_ok raw_request"
    by (simp add: SendRawRequest_ok_def raw_request_def strings_ok_def)
  have s: "sent_request (test_server 200 spec_reply) (NewClient ''k'') MethodPost ''/send/raw'' (GoEncodable (enc_SendRawRequest raw_request)) =
     Some (build_request (NewClient ''k'') MethodPost (DefaultBaseURL @ ''/send/raw'')
       (Some (json_print (enc_SendRawRequest raw_request))))"
    by (simp add: sent_request_def request_body_def marshal_def test_server_def NewClient_def)
  show ?thesis using ok s SendRaw_body_roundtrip [OF ok s] by simp
qed

end
