(* ===== verification/MessagesTests.thy ===== *)
theory MessagesTests
  imports ClientTests Messages
begin

text \<open>
  The tests of \<open>messages_test.go\<close>, which the repository ships inside \<open>src/README.md\<close>
  (lines 314 to 860), run against the model with the harness of \<open>ClientTests\<close>. A
  handler's checks run on the request the method under test hands to the transport
  (\<open>handler_seen\<close>: the call is replayed against the test server with a round trip
  that reports the handler's failures instead of replying):
  \<^item> \<open>r.URL.Path\<close> is \<open>url_path\<close> of the request URL;
  \<^item> \<open>json.NewDecoder(r.Body).Decode(&req)\<close> is \<open>decode_body\<close>, which decodes the body
    into a zero request with the struct's tags;
  \<^item> the \<open>t.Fatalf\<close> of a failed decode ends the handler's checks.
  The decoder would also accept trailing data after the first value, but
  \<open>json.Marshal\<close> writes none. A handler's JSON reply is written with single spaces
  for the source's white space.
\<close>

subsection \<open>Harness\<close>

text \<open>The path of an \<open>http://host:port/path\<close> URL: what follows the authority.\<close>

definition url_path :: "string \<Rightarrow> string" where
  "url_path u = dropWhile (\<lambda>c. c \<noteq> CHR ''/'') (drop (length ''http://'') u)"

definition decode_body :: "'a decoder \<Rightarrow> 'a \<Rightarrow> string option \<Rightarrow> json_error + 'a" where
  "decode_body d z body = (case body of None \<Rightarrow> Inl SyntaxError | Some b \<Rightarrow> unmarshal d z b)"

text \<open>The handler's checks that the request went to \<open>path\<close> with method POST.\<close>

definition path_method_checks :: "string \<Rightarrow> http_request \<Rightarrow> string list" where
  "path_method_checks path r =
     check (url_path (req_url r) = path) (''Expected request path to be '' @ path) @
     check (req_method r = MethodPost) ''Expected request method to be POST''"

text \<open>A Go slice as \<open>len\<close> and indexing see it: nil is empty.\<close>

definition slice_elems :: "'a slice \<Rightarrow> 'a list" where
  "slice_elems xs = (case xs of None \<Rightarrow> [] | Some ys \<Rightarrow> ys)"

text \<open>\<open>len(xs) != 1 || xs[0] != x\<close> fails.\<close>

definition single_is :: "string slice \<Rightarrow> string \<Rightarrow> bool" where
  "single_is xs x \<longleftrightarrow> length (slice_elems xs) = 1 \<and> hd (slice_elems xs) = x"

text \<open>The handler's failures on the request a call hands to the transport, or none if
  it hands over none: the call runs once more with a round trip that fails with the
  handler's failures, joined, as its transport error.\<close>

definition handler_seen :: "(http_env \<Rightarrow> client_error + 'a) \<Rightarrow> http_env \<Rightarrow> (http_request \<Rightarrow> string list) \<Rightarrow> string list" where
  "handler_seen call env h =
     (case call (env\<lparr>env_round_trip := (\<lambda>req. Inl (concat (map (\<lambda>f. f @ ''; '') (h req))))\<rparr>) of
        Inl (WrappedError _ (ENet (TransportError msg))) \<Rightarrow> if msg = [] then [] else [msg]
      | _ \<Rightarrow> [])"

subsection \<open>Replies\<close>

definition message_body :: string where
  "message_body = ''{ \"status\": \"success\", \"time\": 0.123, \"flags\": {}, \"data\": { \"id\": 123, \"token\": \"test-token\" } }''"

definition not_found_body :: string where
  "not_found_body = ''{ \"status\": \"error\", \"time\": 0.123, \"flags\": {}, \"data\": {\"error\": \"test error\"}, \"error_code\": \"message-not-found\", \"message\": \"Message not found\" }''"

definition invalid_data_body :: string where
  "invalid_data_body = ''{ \"status\": \"success\", \"time\": 0.123, \"flags\": {}, \"data\": invalid-json }''"

definition deliveries_body :: string where
  "deliveries_body = ''{ \"status\": \"success\", \"time\": 0.123, \"flags\": {}, \"data\": [ { \"id\": 123, \"status\": \"delivered\", \"details\": \"test details\", \"output\": \"test output\", \"sent_with_ssl\": true, \"log_id\": 456, \"time\": 0.456, \"timestamp\": \"2023-01-01T00:00:00Z\" } ] }''"

definition sent_body :: string where
  "sent_body = ''{ \"status\": \"success\", \"time\": 0.123, \"flags\": {}, \"data\": { \"message_id\": 123, \"token\": \"test-token\" } }''"

definition parameter_error_body :: "string \<Rightarrow> string" where
  "parameter_error_body name = ''{ \"status\": \"parameter-error\", \"time\": 0.123, \"flags\": {}, \"data\": {\"errors\": {\"'' @ name @ ''\": [\"is required\"]}}, \"error_code\": \"validation-error\", \"message\": \"The provided data was not sufficient to send an email\" }''"

definition insufficient_data :: string where
  "insufficient_data = ''The provided data was not sufficient to send an email''"

definition test_env :: "string \<Rightarrow> http_env" where
  "test_env body = httptest_env (\<lambda>r. reply 200 body)"

subsection \<open>The tests\<close>

definition TestGetMessage :: "string list" where
  "TestGetMessage =
     (let env = test_env message_body; client = test_client
      in handler_seen (\<lambda>e. GetMessage e client 123) env (path_method_checks ''/messages/message'') @
         (case GetMessage env client 123 of
            Inl err \<Rightarrow> [''Expected no error'']
          | Inr message \<Rightarrow>
              check (Message.ID message = 123) ''Expected message ID to be 123'' @
              check (Message.Token message = ''test-token'') ''Expected message token to be test-token''))"

definition TestGetMessageError :: "string list" where
  "TestGetMessageError =
     expect_error_containing (GetMessage (test_env not_found_body) test_client 123) ''Message not found''"

definition TestGetMessageUnmarshalError :: "string list" where
  "TestGetMessageUnmarshalError =
     expect_error_containing (GetMessage (test_env invalid_data_body) test_client 123) ''error unmarshaling response''"

definition TestGetMessageDeliveries :: "string list" where
  "TestGetMessageDeliveries =
     (let env = test_env deliveries_body; client = test_client
      in handler_seen (\<lambda>e. GetMessageDeliveries e client 123) env (path_method_checks ''/messages/deliveries'') @
         (case GetMessageDeliveries env client 123 of
            Inl err \<Rightarrow> [''Expected no error'']
          | Inr deliveries \<Rightarrow>
              if length (slice_elems deliveries) \<noteq> 1 then [''Expected 1 delivery'']
              else
                (let delivery = hd (slice_elems deliveries) in
                 check (Delivery.ID delivery = 123) ''Expected delivery ID to be 123'' @
                 check (Delivery.Status delivery = ''delivered'') ''Expected delivery status to be delivered'' @
                 check (SentWithSSL delivery = True) ''Expected delivery SentWithSSL to be true'')))"

definition TestGetMessageDeliveriesError :: "string list" where
  "TestGetMessageDeliveriesError =
     expect_error_containing (GetMessageDeliveries (test_env not_found_body) test_client 123) ''Message not found''"

definition TestGetMessageDeliveriesUnmarshalError :: "string list" where
  "TestGetMessageDeliveriesUnmarshalError =
     expect_error_containing (GetMessageDeliveries (test_env invalid_data_body) test_client 123)
       ''error unmarshaling response''"

text \<open>The handler of \<open>TestSendMessage\<close>: path, method, and the decoded request's
  \<open>From\<close> and \<open>To\<close>.\<close>

definition TestSendMessage_handler :: "http_request \<Rightarrow> string list" where
  "TestSendMessage_handler r =
     path_method_checks ''/send/message'' r @
     (case decode_body (dec_struct SendMessageRequest_fields) SendMessageRequest_zero (req_body r) of
        Inl e \<Rightarrow> [''Error decoding request body'']
      | Inr req \<Rightarrow>
          check (From req = ''test@example.com'') ''Expected From to be test@example.com'' @
          check (single_is (To req) ''recipient@example.com'') ''Expected To to be [recipient@example.com]'')"

definition TestSendMessage :: "string list" where
  "TestSendMessage =
     (let env = test_env sent_body; client = test_client;
          req = SendMessageRequest_zero\<lparr>From := ''test@example.com'', To := Some [''recipient@example.com''],
                  Subject := ''Test Subject'', SendMessageRequest.PlainBody := ''Test Body''\<rparr>
      in handler_seen (\<lambda>e. SendMessage e client (Some req)) env TestSendMessage_handler @
         (case SendMessage env client (Some req) of
            Inl err \<Rightarrow> [''Expected no error'']
          | Inr resp \<Rightarrow>
              check (MessageID resp = 123) ''Expected message ID to be 123'' @
              check (SendMessageResponse.Token resp = ''test-token'') ''Expected token to be test-token''))"

definition TestSendMessageError :: "string list" where
  "TestSendMessageError =
     (let req = SendMessageRequest_zero\<lparr>To := Some [''recipient@example.com''],
                  Subject := ''Test Subject'', SendMessageRequest.PlainBody := ''Test Body''\<rparr>
      in expect_error_containing (SendMessage (test_env (parameter_error_body ''from'')) test_client (Some req))
           insufficient_data)"

definition TestSendMessageUnmarshalError :: "string list" where
  "TestSendMessageUnmarshalError =
     (let req = SendMessageRequest_zero\<lparr>From := ''test@example.com'', To := Some [''recipient@example.com''],
                  Subject := ''Test Subject'', SendMessageRequest.PlainBody := ''Test Body''\<rparr>
      in expect_error_containing (SendMessage (test_env invalid_data_body) test_client (Some req))
           ''error unmarshaling response'')"

definition TestSendRaw_handler :: "http_request \<Rightarrow> string list" where
  "TestSendRaw_handler r =
     path_method_checks ''/send/raw'' r @
     (case decode_body (dec_struct SendRawRequest_fields) SendRawRequest_zero (req_body r) of
        Inl e \<Rightarrow> [''Error decoding request body'']
      | Inr req \<Rightarrow>
          check (MailFrom req = ''test@example.com'') ''Expected MailFrom to be test@example.com'' @
          check (single_is (RcptTo req) ''recipient@example.com'') ''Expected RcptTo to be [recipient@example.com]'')"

definition TestSendRaw :: "string list" where
  "TestSendRaw =
     (let env = test_env sent_body; client = test_client;
          req = SendRawRequest_zero\<lparr>MailFrom := ''test@example.com'', RcptTo := Some [''recipient@example.com''],
                  SendRawRequest.Data := ''base64-encoded-data''\<rparr>
      in handler_seen (\<lambda>e. SendRaw e client (Some req)) env TestSendRaw_handler @
         (case SendRaw env client (Some req) of
            Inl err \<Rightarrow> [''Expected no error'']
          | Inr resp \<Rightarrow>
              check (MessageID resp = 123) ''Expected message ID to be 123'' @
              check (SendMessageResponse.Token resp = ''test-token'') ''Expected token to be test-token''))"

definition TestSendRawError :: "string list" where
  "TestSendRawError =
     (let req = SendRawRequest_zero\<lparr>RcptTo := Some [''recipient@example.com''],
                  SendRawRequest.Data := ''base64-encoded-data''\<rparr>
      in expect_error_containing (SendRaw (test_env (parameter_error_body ''mail_from'')) test_client (Some req))
           insufficient_data)"

definition TestSendRawUnmarshalError :: "string list" where
  "TestSendRawUnmarshalError =
     (let req = SendRawRequest_zero\<lparr>MailFrom := ''test@example.com'', RcptTo := Some [''recipient@example.com''],
                  SendRawRequest.Data := ''base64-encoded-data''\<rparr>
      in expect_error_containing (SendRaw (test_env invalid_data_body) test_client (Some req))
           ''error unmarshaling response'')"

subsection \<open>Properties\<close>

lemma messages_get_tests:
  "TestGetMessage = [] \<and> TestGetMessageError = [] \<and> TestGetMessageUnmarshalError = [] \<and>
   TestGetMessageDeliveries = [] \<and> TestGetMessageDeliveriesError = [] \<and> TestGetMessageDeliveriesUnmarshalError = []"
  by code_simp

lemma messages_send_tests:
  "TestSendMessage = [] \<and> TestSendMessageError = [] \<and> TestSendMessageUnmarshalError = [] \<and>
   TestSendRaw = [] \<and> TestSendRawError = [] \<and> TestSendRawUnmarshalError = []"
  by code_simp

text \<open>Every test of \<open>messages_test.go\<close> passes on the model. The tests cover
  the request path, method and decoded body each endpoint sends, the results of the
  four endpoints on a success envelope, the \<open>*Error\<close> of an error envelope, and the
  wrapped error of malformed data.\<close>

theorem messages_test_go_passes:
  "TestGetMessage = [] \<and> TestGetMessageError = [] \<and> TestGetMessageUnmarshalError = [] \<and>
   TestGetMessageDeliveries = [] \<and> TestGetMessageDeliveriesError = [] \<and> TestGetMessageDeliveriesUnmarshalError = [] \<and>
   TestSendMessage = [] \<and> TestSendMessageError = [] \<and> TestSendMessageUnmarshalError = [] \<and>
   TestSendRaw = [] \<and> TestSendRawError = [] \<and> TestSendRawUnmarshalError = []"
  using messages_get_tests messages_send_tests by (simp only:)

end
