(* ===== verification/DocExamples.thy ===== *)
theory DocExamples
  imports Examples RequestRoundtrip MessagesTests
begin

text \<open>
  The examples in the documentation comments:
  \<^item> the package comment of \<open>client.go\<close> (\<open>src/unnamed/part_000\<close>, lines 120 to 130);
  \<^item> the comments of \<open>NewClient\<close> and \<open>NewClientWithOptions\<close> (lines 174 to 194), which
    build a client;
  \<^item> the comments of the four methods of \<open>messages.go\<close> (\<open>src/unnamed/part_001\<close>).
  Each fragment runs against a given client and is a run of \<open>Examples\<close>: the lines
  printed, and the \<open>log.Fatalf\<close> that ends it. The raw message of the \<open>SendRaw\<close>
  comment is the Go raw string literal, with its line breaks and without a final one.
\<close>

subsection \<open>client.go, constructor comments\<close>

definition NewClient_doc_example :: Client where
  "NewClient_doc_example = NewClient ''your-api-key''"

definition NewClientWithOptions_doc_example :: Client where
  "NewClientWithOptions_doc_example =
     NewClientWithOptions ''your-api-key'' ''https://postal.yourdomain.com/api/v1'' (60 * Second)"

subsection \<open>client.go, package comment\<close>

definition doc_send_request :: SendMessageRequest where
  "doc_send_request =
     SendMessageRequest_zero\<lparr>To := Some [''recipient@example.com''], From := ''sender@yourdomain.com'',
       Subject := ''Hello from Postal API'', SendMessageRequest.PlainBody := ''This is a test email''\<rparr>"

definition package_doc_example :: "http_env \<Rightarrow> client_error + SendMessageResponse" where
  "package_doc_example env =
     (let client = NewClient ''your-api-key''; req = doc_send_request in SendMessage env client (Some req))"

subsection \<open>messages.go, method comments\<close>

definition GetMessage_doc_example :: "http_env \<Rightarrow> Client \<Rightarrow> example_run" where
  "GetMessage_doc_example env client =
     (case GetMessage env client 123 of
        Inl err \<Rightarrow> \<lparr>Stdout = [], Fatal = Some (''Error getting message'', err)\<rparr>
      | Inr message \<Rightarrow>
          \<lparr>Stdout = [''Message details - ID: '' @ int_lit (sint (Message.ID message)) @
                     '', Token: '' @ Message.Token message],
           Fatal = None\<rparr>)"

definition GetMessageDeliveries_doc_example :: "http_env \<Rightarrow> Client \<Rightarrow> example_run" where
  "GetMessageDeliveries_doc_example env client =
     (case GetMessageDeliveries env client 123 of
        Inl err \<Rightarrow> \<lparr>Stdout = [], Fatal = Some (''Error getting message deliveries'', err)\<rparr>
      | Inr deliveries \<Rightarrow>
          \<lparr>Stdout = [''Message has '' @ int_lit (int (length (slice_elems deliveries))) @ '' deliveries''] @
              map (\<lambda>(i, delivery). ''Delivery '' @ int_lit (int i + 1) @ '' - Status: '' @ Delivery.Status delivery)
                (enumerate 0 (slice_elems deliveries)),
           Fatal = None\<rparr>)"

definition SendMessage_doc_request :: SendMessageRequest where
  "SendMessage_doc_request =
     SendMessageRequest_zero\<lparr>To := Some [''recipient@example.com''], From := ''sender@yourdomain.com'',
       Subject := ''Hello from Postal API'',
       SendMessageRequest.PlainBody := ''This is a test email sent using the Postal API Go client.''\<rparr>"

definition SendMessage_doc_example :: "http_env \<Rightarrow> Client \<Rightarrow> example_run" where
  "SendMessage_doc_example env client =
     (let req = SendMessage_doc_request in
      case SendMessage env client (Some req) of
        Inl err \<Rightarrow> \<lparr>Stdout = [], Fatal = Some (''Error sending message'', err)\<rparr>
      | Inr resp \<Rightarrow>
          \<lparr>Stdout = [''Message sent! ID: '' @ int_lit (sint (MessageID resp)) @
                     '', Token: '' @ SendMessageResponse.Token resp],
           Fatal = None\<rparr>)"

definition doc_raw_message :: string where
  "doc_raw_message =
     ''From: sender@yourdomain.com'' @ [CHR 0x0A] @
     ''To: recipient@example.com'' @ [CHR 0x0A] @
     ''Subject: Hello from Postal API'' @ [CHR 0x0A] @
     ''Content-Type: text/plain; charset=utf-8'' @ [CHR 0x0A] @ [CHR 0x0A] @
     ''This is a test email sent using the Postal API Go client.''"

definition SendRaw_doc_request :: "string \<Rightarrow> SendRawRequest" where
  "SendRaw_doc_request rawMessage =
     (let encodedMessage = base64_encode rawMessage in
      SendRawRequest_zero\<lparr>MailFrom := ''sender@yourdomain.com'', RcptTo := Some [''recipient@example.com''],
        SendRawRequest.Data := encodedMessage\<rparr>)"

definition SendRaw_doc_example :: "http_env \<Rightarrow> Client \<Rightarrow> example_run" where
  "SendRaw_doc_example env client =
     (let req = SendRaw_doc_request doc_raw_message in
      case SendRaw env client (Some req) of
        Inl err \<Rightarrow> \<lparr>Stdout = [], Fatal = Some (''Error sending raw message'', err)\<rparr>
      | Inr resp \<Rightarrow>
          \<lparr>Stdout = [''Raw message sent! ID: '' @ int_lit (sint (MessageID resp)) @
                     '', Token: '' @ SendMessageResponse.Token resp],
           Fatal = None\<rparr>)"

subsection \<open>Properties\<close>

lemma base64_doc_raw_message: "base64_encode doc_raw_message = ''RnJvbTogc2VuZGVyQHlvdXJkb21haW4uY29tClRvOiByZWNpcGllbnRAZXhhbXBsZS5jb20KU3ViamVjdDogSGVsbG8gZnJvbSBQb3N0YWwgQVBJCkNvbnRlbnQtVHlwZTogdGV4dC9wbGFpbjsgY2hhcnNldD11dGYtOAoKVGhpcyBpcyBhIHRlc3QgZW1haWwgc2VudCB1c2luZyB0aGUgUG9zdGFsIEFQSSBHbyBjbGllbnQu''"
  by (simp add: doc_raw_message_def b64_char_def b64_alphabet_def)

text \<open>Against the stub servers of \<open>messages_test.go\<close>, the examples in the
  comments of the four methods and of the package print what their format strings say
  on success, and the \<open>GetMessage\<close> example ends in its \<open>log.Fatalf\<close> on an error
  envelope. The constructor examples build a client for the default server with a
  30 second deadline, and one for the given server with a 60 second deadline
  (\<open>60 * time.Second\<close> fits an \<open>int64\<close> of nanoseconds).\<close>

theorem doc_examples_run:
  "GetMessage_doc_example (test_env message_body) test_client =
     \<lparr>Stdout = [''Message details - ID: 123, Token: test-token''], Fatal = None\<rparr> \<and>
   GetMessageDeliveries_doc_example (test_env deliveries_body) test_client =
     \<lparr>Stdout = [''Message has 1 deliveries'', ''Delivery 1 - Status: delivered''], Fatal = None\<rparr> \<and>
   SendMessage_doc_example (test_env sent_body) test_client =
     \<lparr>Stdout = [''Message sent! ID: 123, Token: test-token''], Fatal = None\<rparr> \<and>
   Stdout (SendRaw_doc_example (test_env sent_body) test_client) = [''Raw message sent! ID: 123, Token: test-token''] \<and>
   package_doc_example (test_env sent_body) = Inr \<lparr>MessageID = 123, SendMessageResponse.Token = ''test-token''\<rparr> \<and>
   Stdout (GetMessage_doc_example (test_env not_found_body) test_client) = [] \<and>
   map_option fst (Fatal (GetMessage_doc_example (test_env not_found_body) test_client)) = Some ''Error getting message'' \<and>
   BaseURL NewClient_doc_example = ''https://postal.example.com/api/v1'' \<and>
   sint (Timeout (HTTPClient NewClient_doc_example)) = 30000000000 \<and>
   BaseURL NewClientWithOptions_doc_example = ''https://postal.yourdomain.com/api/v1'' \<and>
   sint (Timeout (HTTPClient NewClientWithOptions_doc_example)) = 60000000000"
  unfolding SendRaw_doc_example_def SendRaw_doc_request_def Let_def base64_doc_raw_message by code_simp

end
