(* ===== verification/EnvelopeSpec.thy ===== *)
theory EnvelopeSpec
  imports Client
begin

text \<open>
  The contract of the response envelope, written from the specification (sections 4.1
  and 7) rather than from \<open>client.go\<close>: a reply is classified by its HTTP status and
  by the JSON members of its body alone, with no Go decoder in sight. A 2xx reply whose
  \<open>status\<close> member is \<open>success\<close> yields the \<open>data\<close> member; any other
  decodable reply yields a remote error carrying its \<open>status\<close> and \<open>message\<close>
  members; a body that is not JSON, or has a member of the wrong JSON type for the
  struct it is read into, is a decoding failure. \<open>abs_outcome\<close> reads the result of
  \<open>do\<close> at that level, and \<open>do_refines_envelope_spec\<close> shows that \<open>do\<close>
  implements the contract on every completed exchange whose status is 200 or outside
  the 2xx range (a 201 success is the divergence of \<open>do_201_success_is_error\<close>).
\<close>

subsection \<open>The abstract contract\<close>

text \<open>What a caller can observe of a call: the data of a success, a remote error with
  its status and message, a body that failed to decode, or a local failure (marshal,
  request creation, transport, reading).\<close>

datatype outcome = OSuccess raw_message | ORemote string string | ODecode | OLocal

definition abs_outcome :: "client_error + Response \<Rightarrow> outcome" where
  "abs_outcome x =
     (case x of
        Inr r \<Rightarrow> OSuccess (Response.Data r)
      | Inl (APIError e) \<Rightarrow> ORemote (Error.Status e) (Message e)
      | Inl (WrappedError pfx _) \<Rightarrow>
          if pfx = ''error unmarshaling response'' \<or> pfx = ''error unmarshaling error response'' then ODecode
          else OLocal)"

text \<open>The members a struct of the envelope accepts: a \<open>string\<close> field takes a
  string or null, the \<open>float64\<close> time a number within range or null, the raw
  fields anything; members of no field are ignored.\<close>

definition string_member_ok :: "json \<Rightarrow> bool" where
  "string_member_ok v = (case v of JString _ \<Rightarrow> True | JNull \<Rightarrow> True | _ \<Rightarrow> False)"

definition time_member_ok :: "json \<Rightarrow> bool" where
  "time_member_ok v = (case v of JNumber l \<Rightarrow> float_in_range l | JNull \<Rightarrow> True | _ \<Rightarrow> False)"

definition response_member_ok :: "string \<times> json \<Rightarrow> bool" where
  "response_member_ok kv =
     (if fold_name (fst kv) = fold_name ''status'' then string_member_ok (snd kv)
      else if fold_name (fst kv) = fold_name ''time'' then time_member_ok (snd kv)
      else True)"

definition error_member_ok :: "string \<times> json \<Rightarrow> bool" where
  "error_member_ok kv =
     (if fold_name (fst kv) = fold_name ''status'' \<or> fold_name (fst kv) = fold_name ''error_code'' \<or> fold_name (fst kv) = fold_name ''message''
      then string_member_ok (snd kv)
      else if fold_name (fst kv) = fold_name ''time'' then time_member_ok (snd kv)
      else True)"

text \<open>The contract: the error reading of a body, the success reading of a 2xx body,
  and the classification of a reply by its status and body.\<close>

definition error_envelope :: "json \<Rightarrow> outcome" where
  "error_envelope j =
     (case j of
        JNull \<Rightarrow> ORemote [] []
      | JObject ms \<Rightarrow>
          if list_all error_member_ok ms
          then ORemote (member_string ''status'' ms []) (member_string ''message'' ms [])
          else ODecode
      | _ \<Rightarrow> ODecode)"

definition success_envelope :: "json \<Rightarrow> outcome" where
  "success_envelope j =
     (case j of
        JObject ms \<Rightarrow>
          if \<not> list_all response_member_ok ms then ODecode
          else if member_string ''status'' ms [] = ''success'' then OSuccess (member_value ''data'' ms None)
          else error_envelope j
      | _ \<Rightarrow> error_envelope j)"

definition envelope_spec :: "int \<Rightarrow> string \<Rightarrow> outcome" where
  "envelope_spec st body =
     (case json_parse body of
        None \<Rightarrow> ODecode
      | Some j \<Rightarrow> if 200 \<le> st \<and> st < 300 then success_envelope j else error_envelope j)"

text \<open>A 404 reply as the API writes it.\<close>

definition err_reply :: string where
  "err_reply = ''{\"status\":\"error\",\"message\":\"Message not found\"}''"

text \<open>A 200 reply with a success envelope.\<close>

definition ok_reply :: string where
  "ok_reply = ''{\"status\":\"success\",\"data\":{\"id\":7}}''"

text \<open>A 200 error envelope whose message is a number.\<close>

definition bad_message_reply :: string where
  "bad_message_reply = ''{\"status\":\"error\",\"message\":5}''"

subsection \<open>Member typing of the two envelope structs\<close>

text \<open>A member that folds to no field name finds no decoder; the fields of the two
  structs are found by their folded names.\<close>

lemma find_None_fold:
  "(\<forall>f \<in> set fs. fold_name (fst f) \<noteq> fold_name k) \<Longrightarrow> field_lookup fs k = None"
proof -
  assume a: "\<forall>f \<in> set fs. fold_name (fst f) \<noteq> fold_name k"
  then have "find (\<lambda>f. fst f = k) fs = None" by (auto simp: find_None_iff)
  moreover have "find (\<lambda>f. fold_name (fst f) = fold_name k) fs = None" using a by (auto simp: find_None_iff)
  ultimately show ?thesis by (simp add: field_lookup_def)
qed

lemma field_lookup_Response:
  "field_lookup Response_fields k =
     (if fold_name k = fold_name ''status'' then Some (snd (field ''status'' Response.Status Response.Status_update dec_string))
      else if fold_name k = fold_name ''time'' then Some (snd (field ''time'' Response.Time Response.Time_update dec_float))
      else if fold_name k = fold_name ''flags'' then Some (snd (field ''flags'' Response.Flags Response.Flags_update dec_raw))
      else if fold_name k = fold_name ''data'' then Some (snd (field ''data'' Response.Data Response.Data_update dec_raw))
      else None)"
  by (auto intro!: field_lookup_unique [OF Response_fields_distinct] find_None_fold) (auto simp: Response_fields_def field_def)

lemma field_lookup_Error:
  "field_lookup Error_fields k =
     (if fold_name k = fold_name ''status'' then Some (snd (field ''status'' Error.Status Error.Status_update dec_string))
      else if fold_name k = fold_name ''time'' then Some (snd (field ''time'' Error.Time Error.Time_update dec_float))
      else if fold_name k = fold_name ''flags'' then Some (snd (field ''flags'' Error.Flags Error.Flags_update dec_raw))
      else if fold_name k = fold_name ''data'' then Some (snd (field ''data'' Error.Data Error.Data_update dec_raw))
      else if fold_name k = fold_name ''error_code'' then Some (snd (field ''error_code'' ErrorCode ErrorCode_update dec_string))
      else if fold_name k = fold_name ''message'' then Some (snd (field ''message'' Message Message_update dec_string))
      else None)"
  by (auto intro!: field_lookup_unique [OF Error_fields_distinct] find_None_fold) (auto simp: Error_fields_def field_def)

text \<open>Decoding the members of an object into either struct succeeds exactly when each
  member is accepted, whatever the struct held before.\<close>

lemma Response_members_decode: "\<not> isl (dec_members Response_fields ms r) = list_all response_member_ok ms"
proof (induction ms arbitrary: r)
  case (Cons kv ms)
  then show ?case
    by (cases kv) (auto simp: field_lookup_Response field_def response_member_ok_def string_member_ok_def
        time_member_ok_def dec_string_def dec_float_def dec_raw_def split: json.splits)
qed simp

lemma Error_members_decode: "\<not> isl (dec_members Error_fields ms r) = list_all error_member_ok ms"
proof (induction ms arbitrary: r)
  case (Cons kv ms)
  then show ?case
    by (cases kv) (auto simp: field_lookup_Error field_def error_member_ok_def string_member_ok_def
        time_member_ok_def dec_string_def dec_float_def dec_raw_def split: json.splits)
qed simp

subsection \<open>Refinement\<close>

lemma error_branch_refines:
  assumes "json_parse body = Some j"
  shows "abs_outcome (case unmarshal (dec_struct Error_fields) Error_zero body of
                        Inl e \<Rightarrow> Inl (WrappedError ''error unmarshaling error response'' (EJson e))
                      | Inr a \<Rightarrow> Inl (APIError a)) = error_envelope j"
proof (cases j)
  case (JObject ms)
  show ?thesis
  proof (cases "dec_members Error_fields ms Error_zero")
    case (Inl e)
    then have "\<not> list_all error_member_ok ms" using Error_members_decode [of ms Error_zero] by simp
    with Inl JObject assms show ?thesis by (simp add: unmarshal_def dec_struct_def abs_outcome_def error_envelope_def)
  next
    case (Inr a)
    then have "list_all error_member_ok ms" using Error_members_decode [of ms Error_zero] by simp
    with Inr JObject assms Error_members [OF Inr] show ?thesis
      by (simp add: unmarshal_def dec_struct_def abs_outcome_def error_envelope_def Error_zero_def)
  qed
qed (use assms in \<open>simp_all add: unmarshal_def dec_struct_def abs_outcome_def error_envelope_def Error_zero_def\<close>)

lemma success_branch_refines:
  assumes "json_parse body = Some j"
  shows "abs_outcome (case unmarshal (dec_struct Response_fields) Response_zero body of
                        Inl e \<Rightarrow> Inl (WrappedError ''error unmarshaling response'' (EJson e))
                      | Inr apiResp \<Rightarrow>
                          if Response.Status apiResp \<noteq> ''success'' then
                            (case unmarshal (dec_struct Error_fields) Error_zero body of
                               Inl e \<Rightarrow> Inl (WrappedError ''error unmarshaling error response'' (EJson e))
                             | Inr apiError \<Rightarrow> Inl (APIError apiError))
                          else Inr apiResp) = success_envelope j"
proof (cases j)
  case (JObject ms)
  show ?thesis
  proof (cases "dec_members Response_fields ms Response_zero")
    case (Inl e)
    then have "\<not> list_all response_member_ok ms" using Response_members_decode [of ms Response_zero] by simp
    with Inl JObject assms show ?thesis by (simp add: unmarshal_def dec_struct_def abs_outcome_def success_envelope_def)
  next
    case (Inr r)
    then have "list_all response_member_ok ms" using Response_members_decode [of ms Response_zero] by simp
    with Inr JObject assms Response_Status_member [OF Inr] Response_Data_member [OF Inr]
      error_branch_refines [OF assms] show ?thesis
      by (simp add: unmarshal_def dec_struct_def abs_outcome_def success_envelope_def Response_zero_def)
  qed
qed (use assms error_branch_refines [OF assms] in
      \<open>simp_all add: unmarshal_def dec_struct_def abs_outcome_def success_envelope_def Response_zero_def\<close>)

text \<open>C28: \<open>do\<close> refines the envelope contract. When the body was marshalled, the
  request created, the exchange completed and the body read, the outcome of \<open>do\<close>
  is the one the contract gives for that status and body, provided the status is 200
  or outside 2xx.\<close>

theorem do_refines_envelope_spec:
  assumes "request_body b = Inr bytes"
    and "env_new_request env m (BaseURL c @ p)"
    and "http_client_do env (HTTPClient c) (build_request c m (BaseURL c @ p) bytes) = Inr resp"
    and "read_all (HTTPClient c) resp = Inr body"
    and "StatusCode resp = 200 \<or> \<not> (200 \<le> StatusCode resp \<and> StatusCode resp < 300)"
  shows "abs_outcome (do env c m p b) = envelope_spec (StatusCode resp) body"
proof (cases "json_parse body")
  case None
  with assms show ?thesis
    by (simp add: do_def envelope_spec_def unmarshal_def abs_outcome_def StatusOK_def)
next
  case (Some j)
  with assms show ?thesis
    using success_branch_refines [OF Some] error_branch_refines [OF Some]
    by (auto simp: do_def envelope_spec_def StatusOK_def)
qed


theorem do_refines_envelope_spec_witness:
  "request_body GoNil = Inr None \<and>
   env_new_request (test_server 404 err_reply) ''GET'' (BaseURL (NewClient ''k'') @ ''/messages/1'') \<and>
   http_client_do (test_server 404 err_reply) (HTTPClient (NewClient ''k''))
     (build_request (NewClient ''k'') ''GET'' (BaseURL (NewClient ''k'') @ ''/messages/1'') None) =
     Inr \<lparr>StatusCode = 404, resp_body = err_reply, resp_read_error = None, resp_header_time = 0, resp_body_time = 0\<rparr> \<and>
   read_all (HTTPClient (NewClient ''k''))
     \<lparr>StatusCode = 404, resp_body = err_reply, resp_read_error = None, resp_header_time = 0, resp_body_time = 0\<rparr> = Inr err_reply \<and>
   abs_outcome (do (test_server 404 err_reply) (NewClient ''k'') ''GET'' ''/messages/1'' GoNil) =
     envelope_spec 404 err_reply"
proof -
  have h: "request_body GoNil = Inr None"
    "env_new_request (test_server 404 err_reply) ''GET'' (BaseURL (NewClient ''k'') @ ''/messages/1'')"
    "http_client_do (test_server 404 err_reply) (HTTPClient (NewClient ''k''))
       (build_request (NewClient ''k'') ''GET'' (BaseURL (NewClient ''k'') @ ''/messages/1'') None) =
       Inr \<lparr>StatusCode = 404, resp_body = err_reply, resp_read_error = None, resp_header_time = 0, resp_body_time = 0\<rparr>"
    "read_all (HTTPClient (NewClient ''k''))
       \<lparr>StatusCode = 404, resp_body = err_reply, resp_read_error = None, resp_header_time = 0, resp_body_time = 0\<rparr> = Inr err_reply"
    by code_simp+
  show ?thesis using h do_refines_envelope_spec [OF h] by simp
qed

subsection \<open>Progress\<close>

text \<open>The contract's success is the only outcome the reading \<open>abs_outcome\<close> maps to
  \<open>OSuccess\<close>, and a deadline missed for the headers is missed for the whole body.\<close>

lemma timed_out_mono: "timed_out t a \<Longrightarrow> a \<le> b \<Longrightarrow> timed_out t b"
  by (auto simp: timed_out_def)

lemma abs_outcome_OSuccess: "abs_outcome x = OSuccess d \<Longrightarrow> \<exists>r. x = Inr r \<and> Response.Data r = d"
  by (auto simp: abs_outcome_def split: sum.splits client_error.splits if_splits)

text \<open>C23: \<open>do\<close> makes progress whenever the world does its part: if the request can
  be created, the URL and the API key pass the transport's checks, and the server
  answers within the client's deadline with a 200 reply whose body is a well-typed
  envelope with status \<open>success\<close>, then \<open>do\<close> returns a response, and its data is
  the envelope's \<open>data\<close> member. No spurious error is raised.\<close>

theorem do_progress:
  assumes "request_body b = Inr bytes" and "env_new_request env m (BaseURL c @ p)"
    and "env_url_error env (BaseURL c @ p) = None" and "valid_header_value (APIKey c)"
    and "env_round_trip env (build_request c m (BaseURL c @ p) bytes) = Inr resp"
    and "\<not> timed_out (Timeout (HTTPClient c)) (resp_header_time resp + resp_body_time resp)"
    and "resp_read_error resp = None" and "StatusCode resp = 200"
    and "json_parse (resp_body resp) = Some (JObject ms)" and "list_all response_member_ok ms"
    and "member_string ''status'' ms [] = ''success''"
  shows "\<exists>r. do env c m p b = Inr r \<and> Response.Data r = member_value ''data'' ms None"
proof -
  have "\<not> timed_out (Timeout (HTTPClient c)) (resp_header_time resp)"
    using assms(6) timed_out_mono [of "Timeout (HTTPClient c)" "resp_header_time resp"] by auto
  then have hd: "http_client_do env (HTTPClient c) (build_request c m (BaseURL c @ p) bytes) = Inr resp"
    using assms(3-5) by (simp add: http_client_do_def build_request_eq valid_header_value_json)
  have rd: "read_all (HTTPClient c) resp = Inr (resp_body resp)"
    using assms(6,7) by (simp add: read_all_def)
  have "abs_outcome (do env c m p b) = success_envelope (JObject ms)"
    using assms(1,2,8) hd rd success_branch_refines [OF assms(9)] by (simp add: do_def Let_def StatusOK_def)
  also have "\<dots> = OSuccess (member_value ''data'' ms None)"
    using assms(10,11) by (simp add: success_envelope_def)
  finally show ?thesis by (rule abs_outcome_OSuccess)
qed


theorem do_progress_witness:
  "request_body GoNil = Inr None \<and>
   env_new_request (test_server 200 ok_reply) ''POST'' (BaseURL (NewClient ''k'') @ ''/x'') \<and>
   env_url_error (test_server 200 ok_reply) (BaseURL (NewClient ''k'') @ ''/x'') = None \<and>
   valid_header_value (APIKey (NewClient ''k'')) \<and>
   env_round_trip (test_server 200 ok_reply) (build_request (NewClient ''k'') ''POST'' (BaseURL (NewClient ''k'') @ ''/x'') None) =
     Inr \<lparr>StatusCode = 200, resp_body = ok_reply, resp_read_error = None, resp_header_time = 0, resp_body_time = 0\<rparr> \<and>
   (\<exists>r. do (test_server 200 ok_reply) (NewClient ''k'') ''POST'' ''/x'' GoNil = Inr r \<and>
      Response.Data r = member_value ''data'' [(''status'', JString ''success''), (''data'', JObject [(''id'', JNumber ''7'')])] None)"
proof -
  have h: "request_body GoNil = Inr None"
    "env_new_request (test_server 200 ok_reply) ''POST'' (BaseURL (NewClient ''k'') @ ''/x'')"
    "env_url_error (test_server 200 ok_reply) (BaseURL (NewClient ''k'') @ ''/x'') = None"
    "valid_header_value (APIKey (NewClient ''k''))"
    "env_round_trip (test_server 200 ok_reply) (build_request (NewClient ''k'') ''POST'' (BaseURL (NewClient ''k'') @ ''/x'') None) =
     Inr \<lparr>StatusCode = 200, resp_body = ok_reply, resp_read_error = None, resp_header_time = 0, resp_body_time = 0\<rparr>"
    "\<not> timed_out (Timeout (HTTPClient (NewClient ''k'')))
       (resp_header_time \<lparr>StatusCode = 200, resp_body = ok_reply, resp_read_error = None, resp_header_time = 0, resp_body_time = 0\<rparr> +
        resp_body_time \<lparr>StatusCode = 200, resp_body = ok_reply, resp_read_error = None, resp_header_time = 0, resp_body_time = 0\<rparr>)"
    "resp_read_error \<lparr>StatusCode = 200, resp_body = ok_reply, resp_read_error = None, resp_header_time = 0, resp_body_time = 0\<rparr> = None"
    "StatusCode \<lparr>StatusCode = 200, resp_body = ok_reply, resp_read_error = None, resp_header_time = 0, resp_body_time = 0\<rparr> = 200"
    "json_parse (resp_body \<lparr>StatusCode = 200, resp_body = ok_reply, resp_read_error = None, resp_header_time = 0, resp_body_time = 0\<rparr>) =
       Some (JObject [(''status'', JString ''success''), (''data'', JObject [(''id'', JNumber ''7'')])])"
    "list_all response_member_ok [(''status'', JString ''success''), (''data'', JObject [(''id'', JNumber ''7'')])]"
    "member_string ''status'' [(''status'', JString ''success''), (''data'', JObject [(''id'', JNumber ''7'')])] [] = ''success''"
    by code_simp+
  show ?thesis using h(1-5) do_progress [OF h] by blast
qed

subsection \<open>When the error response cannot be decoded\<close>

text \<open>C26: on a 200 reply, \<open>do\<close> fails with \<open>error unmarshaling error response\<close>
  exactly when the body is a JSON object that decodes as a \<open>Response\<close>, whose
  \<open>status\<close> is not \<open>success\<close>, and which does not decode as an \<open>Error\<close>
  (since the members of a \<open>Response\<close> are typed, only a non-string
  \<open>error_code\<close> or \<open>message\<close> member can cause that). A body that is not JSON
  never reaches this branch.\<close>

theorem do_error_response_decode_failure:
  assumes "request_body b = Inr bytes"
    and "env_new_request env m (BaseURL c @ p)"
    and "http_client_do env (HTTPClient c) (build_request c m (BaseURL c @ p) bytes) = Inr resp"
    and "read_all (HTTPClient c) resp = Inr body"
    and "StatusCode resp = 200"
  shows "(\<exists>e. do env c m p b = Inl (WrappedError ''error unmarshaling error response'' e)) \<longleftrightarrow>
    (\<exists>ms. json_parse body = Some (JObject ms) \<and> list_all response_member_ok ms \<and>
       member_string ''status'' ms [] \<noteq> ''success'' \<and> \<not> list_all error_member_ok ms)"
proof (cases "json_parse body")
  case None
  with assms show ?thesis by (simp add: do_def StatusOK_def unmarshal_def)
next
  case (Some j)
  show ?thesis
  proof (cases j)
    case (JObject ms)
    show ?thesis
    proof (cases "dec_members Response_fields ms Response_zero")
      case (Inl e)
      then have "\<not> list_all response_member_ok ms" using Response_members_decode [of ms Response_zero] by simp
      with Inl JObject Some assms show ?thesis by (simp add: do_def StatusOK_def unmarshal_def dec_struct_def)
    next
      case (Inr r)
      have ok: "list_all response_member_ok ms" using Inr Response_members_decode [of ms Response_zero] by simp
      have st: "Response.Status r = member_string ''status'' ms []"
        using Response_Status_member [OF Inr] by (simp add: Response_zero_def)
      have err: "isl (dec_members Error_fields ms Error_zero) \<longleftrightarrow> \<not> list_all error_member_ok ms"
        using Error_members_decode [of ms Error_zero] by simp
      show ?thesis
        using Inr JObject Some assms ok st err
        by (auto simp: do_def StatusOK_def unmarshal_def dec_struct_def split: sum.splits)
    qed
  qed (use Some assms in \<open>simp_all add: do_def StatusOK_def unmarshal_def dec_struct_def Response_zero_def Error_zero_def\<close>)
qed

theorem do_error_response_decode_failure_witness:
  "request_body GoNil = Inr None \<and>
   env_new_request (test_server 200 bad_message_reply) ''POST'' (BaseURL (NewClient ''k'') @ ''/x'') \<and>
   http_client_do (test_server 200 bad_message_reply) (HTTPClient (NewClient ''k'')) (build_request (NewClient ''k'') ''POST'' (BaseURL (NewClient ''k'') @ ''/x'') None) = Inr \<lparr>StatusCode = 200, resp_body = bad_message_reply, resp_read_error = None, resp_header_time = 0, resp_body_time = 0\<rparr> \<and>
   read_all (HTTPClient (NewClient ''k'')) \<lparr>StatusCode = 200, resp_body = bad_message_reply, resp_read_error = None, resp_header_time = 0, resp_body_time = 0\<rparr> = Inr bad_message_reply \<and>
   json_parse bad_message_reply = Some (JObject [(''status'', JString ''error''), (''message'', JNumber ''5'')]) \<and>
   list_all response_member_ok [(''status'', JString ''error''), (''message'', JNumber ''5'')] \<and>
   member_string ''status'' [(''status'', JString ''error''), (''message'', JNumber ''5'')] [] \<noteq> ''success'' \<and>
   \<not> list_all error_member_ok [(''status'', JString ''error''), (''message'', JNumber ''5'')] \<and>
   (\<exists>e. do (test_server 200 bad_message_reply) (NewClient ''k'') ''POST'' ''/x'' GoNil = Inl (WrappedError ''error unmarshaling error response'' e))"
proof -
  have h: "request_body GoNil = Inr None"
    "env_new_request (test_server 200 bad_message_reply) ''POST'' (BaseURL (NewClient ''k'') @ ''/x'')"
    "http_client_do (test_server 200 bad_message_reply) (HTTPClient (NewClient ''k'')) (build_request (NewClient ''k'') ''POST'' (BaseURL (NewClient ''k'') @ ''/x'') None) = Inr \<lparr>StatusCode = 200, resp_body = bad_message_reply, resp_read_error = None, resp_header_time = 0, resp_body_time = 0\<rparr>"
    "read_all (HTTPClient (NewClient ''k'')) \<lparr>StatusCode = 200, resp_body = bad_message_reply, resp_read_error = None, resp_header_time = 0, resp_body_time = 0\<rparr> = Inr bad_message_reply"
    "StatusCode \<lparr>StatusCode = 200, resp_body = bad_message_reply, resp_read_error = None, resp_header_time = 0, resp_body_time = 0\<rparr> = 200"
    by code_simp+
  have m: "json_parse bad_message_reply = Some (JObject [(''status'', JString ''error''), (''message'', JNumber ''5'')])"
    "list_all response_member_ok [(''status'', JString ''error''), (''message'', JNumber ''5'')]"
    "member_string ''status'' [(''status'', JString ''error''), (''message'', JNumber ''5'')] [] \<noteq> ''success''"
    "\<not> list_all error_member_ok [(''status'', JString ''error''), (''message'', JNumber ''5'')]"
    by code_simp+
  show ?thesis using h m do_error_response_decode_failure [OF h] by blast
qed

end
