(* ===== verification/Typing.thy ===== *)
theory Typing
  imports Messages
begin

text \<open>
  Typing invariants of decoded values. Go's types say less than the API does: a
  \<open>time.Time\<close> field holds a time only because \<open>Time.UnmarshalJSON\<close> refuses any
  other text, and a \<open>float64\<close> field holds a finite number only because the decoder
  refuses the literals that overflow. \<open>Delivery_ok\<close> states both for a
  \<open>Delivery\<close>. Decoding preserves an invariant of a struct when every field decoder
  preserves it (\<open>dec_members_inv\<close>, \<open>dec_struct_inv\<close>), and a slice decoded from
  zero elements satisfies it elementwise (\<open>dec_elems_inv\<close>), so every delivery
  \<open>GetMessageDeliveries\<close> returns is well typed. Conversely errors are strict
  (\<open>dec_members_Inl\<close>, \<open>dec_elems_Inl\<close>): one member a field decoder refuses,
  anywhere in the array, fails the whole call.
\<close>

subsection \<open>Well-typed values\<close>

text \<open>A \<open>time.Time\<close> as the model keeps it: the zero time (never set) or an
  RFC 3339 text; a \<open>float64\<close>: zero or a literal within range.\<close>

definition gotime_ok :: "gotime \<Rightarrow> bool" where
  "gotime_ok t \<longleftrightarrow> t = [] \<or> rfc3339_ok t"

definition float64_ok :: "float64 \<Rightarrow> bool" where
  "float64_ok l \<longleftrightarrow> l = [] \<or> float_in_range l"

definition Delivery_ok :: "Delivery \<Rightarrow> bool" where
  "Delivery_ok d \<longleftrightarrow> gotime_ok (Timestamp d) \<and> float64_ok (Delivery.Time d)"

text \<open>A reply with one delivery, its time and timestamp set, and one whose delivery
  has a timestamp on a day that does not exist.\<close>

definition bad_timestamp_reply :: string where
  "bad_timestamp_reply = ''{\"status\":\"success\",\"data\":[{\"id\":1,\"timestamp\":\"2023-02-29T10:00:00Z\"}]}''"


definition one_delivery_reply :: string where
  "one_delivery_reply =
     ''{\"status\":\"success\",\"data\":[{\"id\":1,\"time\":0.5,\"timestamp\":\"2024-02-29T10:00:00Z\"}]}''"

subsection \<open>Decoding preserves invariants\<close>

lemma dec_members_inv:
  assumes "\<And>f v x x'. f \<in> set fs \<Longrightarrow> snd f v x = Inr x' \<Longrightarrow> P x \<Longrightarrow> P x'"
  shows "dec_members fs ms r = Inr r' \<Longrightarrow> P r \<Longrightarrow> P r'"
proof (induction ms arbitrary: r)
  case (Cons kv ms)
  obtain k v where kv: "kv = (k, v)" by (cases kv)
  show ?case
  proof (cases "field_lookup fs k")
    case None
    with Cons kv show ?thesis by simp
  next
    case (Some d)
    from field_lookup_SomeD [OF Some] obtain f where f: "f \<in> set fs" "d = snd f" by blast
    from Cons.prems kv Some obtain x where x: "d v r = Inr x" and rest: "dec_members fs ms x = Inr r'"
      by (auto split: sum.splits)
    from assms [OF f(1)] x f(2) Cons.prems(2) have "P x" by blast
    with rest show ?thesis by (rule Cons.IH)
  qed
qed simp

lemma dec_struct_inv:
  assumes "\<And>f v x x'. f \<in> set fs \<Longrightarrow> snd f v x = Inr x' \<Longrightarrow> P x \<Longrightarrow> P x'"
    and "dec_struct fs j r = Inr r'" and "P r"
  shows "P r'"
  using assms dec_members_inv [of fs P] by (auto simp: dec_struct_def split: json.splits)

lemma dec_elems_inv:
  assumes "\<And>j x x'. d j x = Inr x' \<Longrightarrow> P x \<Longrightarrow> P x'" and "P z"
  shows "dec_elems z d vs old = Inr xs \<Longrightarrow> list_all P old \<Longrightarrow> list_all P xs"
proof (induction vs arbitrary: old xs)
  case (Cons v vs)
  from Cons.prems obtain x xs' where x: "d v (case old of [] \<Rightarrow> z | y # _ \<Rightarrow> y) = Inr x"
    and r: "dec_elems z d vs (drop 1 old) = Inr xs'" and xs: "xs = x # xs'"
    by (auto split: sum.splits)
  have "P (case old of [] \<Rightarrow> z | y # _ \<Rightarrow> y)" using Cons.prems(2) assms(2) by (cases old) auto
  with x assms(1) have "P x" by blast
  moreover have "list_all P (drop 1 old)" using Cons.prems(2) by (cases old) auto
  ultimately show ?case using Cons.IH [OF r] xs by simp
qed simp

lemma Delivery_fields_ok:
  "f \<in> set Delivery_fields \<Longrightarrow> snd f v x = Inr x' \<Longrightarrow> Delivery_ok x \<Longrightarrow> Delivery_ok x'"
  by (auto simp: Delivery_fields_def field_def dec_time_def dec_float_def Delivery_ok_def gotime_ok_def
      float64_ok_def split: sum.splits json.splits if_splits)

lemma Delivery_zero_ok: "Delivery_ok Delivery_zero"
  by (simp add: Delivery_zero_def Delivery_ok_def gotime_ok_def float64_ok_def)

subsection \<open>Decoding fails on an ill-typed member\<close>

text \<open>An error is strict: a member whose value the field's decoder refuses, whatever
  the value decoded so far, fails the whole struct, and an element that fails fails
  the whole slice.\<close>

lemma dec_members_Inl:
  assumes "(k, v) \<in> set ms" and "field_lookup fs k = Some d" and "\<And>x. isl (d v x)"
  shows "isl (dec_members fs ms r)"
  using assms(1)
proof (induction ms arbitrary: r)
  case (Cons kv ms)
  obtain k' v' where kv: "kv = (k', v')" by (cases kv)
  show ?case
  proof (cases "kv = (k, v)")
    case True
    with kv assms(2) assms(3) [of r] show ?thesis by (auto split: sum.splits)
  next
    case False
    with Cons.prems kv have "(k, v) \<in> set ms" by auto
    with Cons.IH kv show ?thesis by (auto split: option.splits sum.splits)
  qed
qed simp

lemma dec_elems_Inl:
  assumes "v \<in> set vs" and "\<And>x. isl (d v x)"
  shows "isl (dec_elems z d vs old)"
  using assms(1)
proof (induction vs arbitrary: old)
  case (Cons w vs)
  show ?case
  proof (cases "w = v")
    case True
    have "isl (d v (case old of [] \<Rightarrow> z | x # _ \<Rightarrow> x))" by (rule assms(2))
    with True show ?thesis by (auto split: sum.splits)
  next
    case False
    with Cons have "isl (dec_elems z d vs (drop 1 old))" by simp
    then show ?thesis by (auto split: sum.splits)
  qed
qed simp

lemma Delivery_fields_distinct: "distinct (map (fold_name \<circ> fst) Delivery_fields)"
  by code_simp

subsection \<open>Deliveries are well typed\<close>

text \<open>C7: every delivery that \<open>GetMessageDeliveries\<close> returns is well typed: its
  timestamp is the zero time or an RFC 3339 date-time, and its time is zero or a
  \<open>float64\<close> literal within range, whatever the server sent.\<close>

theorem GetMessageDeliveries_well_typed:
  assumes "GetMessageDeliveries env c i = Inr (Some ds)"
  shows "list_all Delivery_ok ds"
proof -
  from assms obtain j where
    "dec_slice Delivery_zero (dec_struct Delivery_fields) j None = Inr (Some ds)"
    by (auto simp: GetMessageDeliveries_def unmarshal_raw_def split: sum.splits option.splits)
  then obtain vs where e: "dec_elems Delivery_zero (dec_struct Delivery_fields) vs [] = Inr ds"
    by (auto simp: dec_slice_def split: json.splits sum.splits)
  have pres: "\<And>j x x'. dec_struct Delivery_fields j x = Inr x' \<Longrightarrow> Delivery_ok x \<Longrightarrow> Delivery_ok x'"
    by (rule dec_struct_inv [where P = Delivery_ok]) (auto dest: Delivery_fields_ok)
  from dec_elems_inv [where P = Delivery_ok, OF pres Delivery_zero_ok e] show ?thesis by simp
qed

theorem GetMessageDeliveries_well_typed_witness:
  "GetMessageDeliveries (test_server 200 one_delivery_reply) (NewClient ''k'') 1 =
     Inr (Some [Delivery_zero\<lparr>Delivery.ID := 1, Delivery.Time := ''0.5'', Timestamp := ''2024-02-29T10:00:00Z''\<rparr>]) \<and>
   list_all Delivery_ok [Delivery_zero\<lparr>Delivery.ID := 1, Delivery.Time := ''0.5'', Timestamp := ''2024-02-29T10:00:00Z''\<rparr>]"
proof -
  have h: "GetMessageDeliveries (test_server 200 one_delivery_reply) (NewClient ''k'') 1 =
     Inr (Some [Delivery_zero\<lparr>Delivery.ID := 1, Delivery.Time := ''0.5'', Timestamp := ''2024-02-29T10:00:00Z''\<rparr>])"
    by code_simp
  show ?thesis using h GetMessageDeliveries_well_typed [OF h] by simp
qed

text \<open>C17: the other side of C7. If any delivery in the \<open>data\<close> array has a member
  that folds to \<open>timestamp\<close> holding a string that is not an RFC 3339 date-time, the
  whole call fails with \<open>error unmarshaling response\<close>, whatever the other members
  and deliveries hold: no delivery with an invalid time is ever returned.\<close>

theorem GetMessageDeliveries_bad_timestamp:
  assumes "post env c ''/messages/deliveries'' (id_body i) = Inr resp"
    and "Response.Data resp = Some (JArray vs)" and "JObject ms \<in> set vs"
    and "(k, JString s) \<in> set ms" and "fold_name k = fold_name ''timestamp''" and "\<not> rfc3339_ok s"
  shows "\<exists>e. GetMessageDeliveries env c i = Inl (WrappedError ''error unmarshaling response'' (EJson e))"
proof -
  have lk: "field_lookup Delivery_fields k = Some (snd (field ''timestamp'' Timestamp Timestamp_update dec_time))"
    by (intro field_lookup_unique [OF Delivery_fields_distinct]) (use assms(5) in \<open>simp_all add: Delivery_fields_def\<close>)
  have "isl (dec_members Delivery_fields ms x)" for x
    by (rule dec_members_Inl [OF assms(4) lk])
       (use assms(6) in \<open>simp add: field_def dec_time_def split: sum.split\<close>)
  then have "isl (dec_struct Delivery_fields (JObject ms) x)" for x by (simp add: dec_struct_def)
  then have "isl (dec_elems Delivery_zero (dec_struct Delivery_fields) vs [])"
    by (rule dec_elems_Inl [OF assms(3)])
  then show ?thesis using assms(1,2)
    by (auto simp: GetMessageDeliveries_def unmarshal_raw_def dec_slice_def split: sum.splits)
qed

theorem GetMessageDeliveries_bad_timestamp_witness:
  "post (test_server 200 bad_timestamp_reply) (NewClient ''k'') ''/messages/deliveries'' (id_body 5) =
     Inr \<lparr>Response.Status = ''success'', Response.Time = [], Response.Flags = None,
          Response.Data = Some (JArray [JObject [(''id'', JNumber ''1''), (''timestamp'', JString ''2023-02-29T10:00:00Z'')]])\<rparr> \<and>
   \<not> rfc3339_ok ''2023-02-29T10:00:00Z'' \<and>
   (\<exists>e. GetMessageDeliveries (test_server 200 bad_timestamp_reply) (NewClient ''k'') 5 =
      Inl (WrappedError ''error unmarshaling response'' (EJson e)))"
proof -
  have h: "post (test_server 200 bad_timestamp_reply) (NewClient ''k'') ''/messages/deliveries'' (id_body 5) =
     Inr \<lparr>Response.Status = ''success'', Response.Time = [], Response.Flags = None,
          Response.Data = Some (JArray [JObject [(''id'', JNumber ''1''), (''timestamp'', JString ''2023-02-29T10:00:00Z'')]])\<rparr>"
    by code_simp
  have r: "\<not> rfc3339_ok ''2023-02-29T10:00:00Z''" by code_simp
  have "JObject [(''id'', JNumber ''1''), (''timestamp'', JString ''2023-02-29T10:00:00Z'')] \<in>
      set [JObject [(''id'', JNumber ''1''), (''timestamp'', JString ''2023-02-29T10:00:00Z'')]]"
    "(''timestamp'', JString ''2023-02-29T10:00:00Z'') \<in> set [(''id'', JNumber ''1''), (''timestamp'', JString ''2023-02-29T10:00:00Z'')]"
    "fold_name ''timestamp'' = fold_name ''timestamp''" by simp_all
  from GetMessageDeliveries_bad_timestamp [OF h _ this r] show ?thesis using h r by simp
qed

end
