(* ===== verification/Spec2Isabelle.thy ===== *)
theory Spec2Isabelle
  imports Messages ClientTests Examples RequestRoundtrip MessagesTests DocExamples EnvelopeSpec Typing
begin

text \<open>
  \<^bold>\<open>A model of postalclient-go in Isabelle/HOL.\<close>

  The repository is a Go client for the Postal mail server's HTTP API. Its package
  \<open>postalclient\<close> has two parts:
  \<^item> the transport wrapper \<open>client.go\<close> (\<open>src/unnamed/part_000\<close>, lines 113 to 326):
    the configuration (\<open>Client\<close>, \<open>NewClient\<close>, \<open>NewClientWithOptions\<close>), the envelope
    types \<open>Response\<close> and \<open>Error\<close>, and \<open>do\<close>/\<open>post\<close>;
  \<^item> the endpoint methods \<open>messages.go\<close> (\<open>src/unnamed/part_001\<close>): \<open>GetMessage\<close>,
    \<open>GetMessageDeliveries\<close>, \<open>SendMessage\<close> and \<open>SendRaw\<close>.
  Each method builds a body, calls \<open>post\<close> with its fixed path, and decodes the
  envelope's \<open>data\<close> into the types of package \<open>models\<close>: \<open>src/models/message.go\<close>, and
  \<open>models/send.go\<close>, which ships inside \<open>src/README.md\<close> at lines 861 to 954. The tests
  of the wrapper (\<open>client_test.go\<close>, \<open>src/unnamed/part_002\<close>) and the two example
  programs (\<open>src/examples/message/send_message.go\<close>, \<open>src/unnamed/part_003\<close>) drive
  this package and are modelled as well, as are the tests of the endpoints
  (\<open>messages_test.go\<close>, inside \<open>src/README.md\<close> at lines 314 to 860) and the
  usage examples of the documentation comments.

  \<^bold>\<open>Theories.\<close>
  \<^item> \<open>Prelude\<close>: the integer types (\<open>goint\<close>, \<open>duration\<close> as \<open>64 word\<close>), decimal
    digits, white space, and shared lemmas on lists and sums.
  \<^item> \<open>Json\<close>: the JSON text that \<open>encoding/json\<close> accepts, as a scanner
    \<open>json_parse\<close> into the datatype \<open>json\<close>. Numbers keep their literal text.
  \<^item> \<open>GoJson\<close>: Go's decoding of a \<open>json\<close> value into a typed variable
    (\<open>'a decoder\<close>: decode into the current value, \<open>Inl\<close> on error), covering
    strings, bools, \<open>int64\<close>, \<open>float64\<close>, \<open>RawMessage\<close>, slices, pointers, maps and
    structs. Struct fields are looked up exactly, then case-insensitively with Go's
    \<open>foldName\<close>, and the last duplicate wins. It also has \<open>json.Marshal\<close>'s printer
    \<open>json_print\<close>, with HTML escaping, and \<open>omitempty\<close>.
  \<^item> \<open>GoTime\<close>: \<open>time.Time\<close> as JSON, checked with the RFC 3339 grammar and calendar
    of \<open>parseRFC3339\<close>.
  \<^item> \<open>Client\<close>: \<open>client.go\<close>, together with \<open>http.NewRequest\<close>'s checks
    (\<open>go_new_request\<close>) and \<open>Header.Get\<close>.
  \<^item> \<open>Models\<close>: the structs of \<open>models\<close> as records, with one decoding table per
    struct from its JSON tags, and encoders for the request types.
  \<^item> \<open>Messages\<close>: \<open>messages.go\<close>.
  \<^item> \<open>ClientTests\<close>: every test of \<open>client_test.go\<close>, as the list of failures it
    reports (\<open>t.Errorf\<close> appends one, \<open>t.Fatal\<close> ends the test). Its \<open>httptest\<close>
    handlers become environments, and their request checks are applied to the request
    \<open>do\<close> sends (\<open>sent_request\<close>).
  \<^item> \<open>Base64\<close>: \<open>base64.StdEncoding\<close>, an encoder and a decoder.
  \<^item> \<open>Examples\<close>: both \<open>SendExample\<close> programs, as runs. A run is the lines printed
    and the \<open>log.Fatalf\<close> that ends it.
  \<^item> \<open>JsonRoundtrip\<close>: the printer against the scanner. Printed text parses back.
  \<^item> \<open>JsonFuel\<close>: the scanner's fuel is always enough, and the scanner keeps Go's
    nesting-depth limit.
  \<^item> \<open>RequestRoundtrip\<close>: the request bodies of \<open>SendMessage\<close> and \<open>SendRaw\<close>,
    parsed and decoded with the structs' tags.
  \<^item> \<open>MessagesTests\<close>: every test of \<open>messages_test.go\<close>, with the harness of
    \<open>ClientTests\<close>. A handler's checks run on the request the method under test
    hands to the transport (\<open>handler_seen\<close>).
  \<^item> \<open>DocExamples\<close>: the examples in the comments of \<open>client.go\<close> and
    \<open>messages.go\<close>, as runs against the stub servers of \<open>messages_test.go\<close>.
  \<^item> \<open>EnvelopeSpec\<close>: the envelope contract of the specification (sections 4.1 and
    7) over the JSON members of a reply (\<open>envelope_spec\<close>), and the reading
    \<open>abs_outcome\<close> of what \<open>do\<close> returns; progress of \<open>do\<close> on a well-typed success.
  \<^item> \<open>Typing\<close>: invariants of decoded values beyond their Go types
    (\<open>Delivery_ok\<close>), kept by every field decoder.
  \<^item> This theory: the specification's example.

  \<^bold>\<open>Correspondence.\<close>
  A Go struct is a record with the same field names. The zero value of a struct is
  \<open><Type>_zero\<close>, its decoding table is \<open><Type>_fields\<close>, and its encoder is
  \<open>enc_<Type>\<close>. A method is a definition with the same name whose first two arguments
  are the HTTP world (\<open>http_env\<close>) and the receiver. Every \<open>return nil, err\<close> of the
  source is an \<open>Inl\<close> value of \<open>client_error\<close>:
  \<^item> \<open>WrappedError prefix cause\<close> models \<open>fmt.Errorf("prefix: %w", cause)\<close>;
  \<^item> \<open>APIError e\<close> models the \<open>*Error\<close> returned as the error.

  The HTTP world is explicit rather than assumed:
  \<^item> \<open>env_new_request\<close> stands for the URL parsing of \<open>http.NewRequest\<close>;
  \<^item> \<open>env_url_error\<close> stands for the transport's URL check;
  \<^item> \<open>env_round_trip\<close> stands for the network and the server. Its reply also gives
    the time until the headers and the time until the end of the body.

  \<open>http_client_do\<close> and \<open>read_all\<close> model what \<open>http.Client.Do\<close> and
  \<open>io.ReadAll\<close> do with such a reply:
  \<^item> headers set through \<open>Header.Set\<close> get canonical keys, so
    \<open>X-Server-API-Key\<close> is sent as \<open>X-Server-Api-Key\<close>;
  \<^item> a header value with a control byte is refused;
  \<^item> a positive \<open>Timeout\<close> is a deadline on the whole exchange, and a timeout of zero
    or less sets none.

  \<^bold>\<open>What is proved.\<close>
  Every property below holds for all servers, clients and requests; its hypotheses
  only say which branch of the code is taken.
  \<^item> The envelope logic of \<open>do\<close>, on every branch:
    \<^item> a response means a 200 reply whose body's \<open>status\<close> member is \<open>success\<close>;
    \<^item> any other status code (201 included, since the code tests for exactly 200), or
      a 200 with another status, is an \<open>*Error\<close> decoded from the body, and
      \<open>Error()\<close> shows its status and message;
    \<^item> malformed JSON, marshal failures, control bytes in the URL and invalid API keys
      give their wrapped errors;
    \<^item> on a 200 reply, \<open>error unmarshaling error response\<close> arises exactly for a
      body that decodes as a \<open>Response\<close> with another status but not as an
      \<open>Error\<close> (\<open>do_error_response_decode_failure\<close>).
  \<^item> \<open>do\<close> depends on the network only through the one request it builds.
  \<^item> Refinement: on every completed exchange with status 200 or outside 2xx, \<open>do\<close>
    gives the outcome of the abstract envelope contract (\<open>do_refines_envelope_spec\<close>).
  \<^item> Equivalence: \<open>SendRaw\<close> and \<open>SendMessage\<close> handle a reply identically.
  \<^item> Progress: a 200 reply within the deadline whose body is a well-typed envelope
    with status \<open>success\<close> always gives a response (\<open>do_progress\<close>).
  \<^item> Preservation: decoding keeps a struct invariant that every field decoder keeps,
    so every delivery returned has an RFC 3339 timestamp (or the zero time) and an
    in-range time (\<open>GetMessageDeliveries_well_typed\<close>); conversely one invalid
    timestamp anywhere fails the call (\<open>GetMessageDeliveries_bad_timestamp\<close>).
  \<^item> Deadlines: every response arrived within a positive timeout. A non-positive
    timeout makes the client indifferent to delay.
  \<^item> For each endpoint: the exact request it sends (method, URL, headers, body) and how
    its result is computed from the reply's \<open>data\<close> member. For \<open>SendMessage\<close> and
    \<open>SendRaw\<close> the result is the last \<open>message_id\<close> and \<open>token\<close> members.
  \<^item> Absent \<open>data\<close> fails every endpoint, \<open>null\<close> data gives the zero result, and
    data of the wrong JSON kind fails with the endpoint's prefix. A nil
    \<open>SendMessage\<close> request is posted as \<open>null\<close> rather than refused.
  \<^item> \<open>int64\<close> bounds on decoded IDs.
  \<^item> Round trips: the requests of \<open>SendMessage\<close> and \<open>SendRaw\<close> decode back to the
    caller's request (empty \<open>omitempty\<close> collections become nil), for valid UTF-8
    strings.
  \<^item> The example program: a complete run made the three calls with the returned ID,
    and a fatal run stops at the first failing call.

  The model is also run on concrete inputs, as plain lemmas that validate it rather
  than properties: every test of \<open>client_test.go\<close> and of \<open>messages_test.go\<close>
  passes (\<open>client_test_go_passes\<close>, \<open>messages_test_go_passes\<close>), the examples of
  the documentation comments and the specification's example print and send what
  they should (\<open>doc_examples_run\<close>, \<open>SendMessage_spec_example\<close>), a 201 success
  is an error (\<open>do_201_success_is_error\<close>), and the bodies of
  \<open>TestClientDoReadBodyError\<close> and \<open>TestClientDoUnmarshalErrorResponseError\<close> give
  the errors their tests check (\<open>readbody_always_error\<close>,
  \<open>unmarshal_error_response_reachable\<close>).

  The generic lemmas behind these are:
  \<^item> \<open>dec_members_field\<close>: a decoded struct field is the fold of its members,
    last-wins and case-insensitive;
  \<^item> \<open>field_lookup_unique\<close>;
  \<^item> \<open>do_Inr_envelope\<close> and \<open>endpoint_Inr\<close>: the shape of a successful call;
  \<^item> \<open>parse_print\<close>: the scanner on printed text, by mutual induction over values,
    element lists and member lists.

  \<^bold>\<open>Bounds and fuel.\<close>
  \<open>json_parse s\<close> runs the mutually recursive scanner with fuel \<open>Suc (2 * length s)\<close>.
  This is enough for every input, by theorem: whatever a call returns with some fuel
  it returns with any fuel at least the number of characters it consumed
  (\<open>parse_fuel_all\<close>, by induction on the fuel over the three functions at once), and a
  call consumes at least one character, so no input that some fuel reads is refused
  (\<open>json_parse_complete\<close>). \<open>parse_print\<close> shows more precisely that a printed
  value needs no more fuel than the length of its text.
  The nesting limit is Go's \<open>maxNestingDepth\<close>, 10000, and no accepted value nests
  deeper (\<open>parse_depth\<close>). Machine
  integers are \<open>64 word\<close>, read with \<open>sint\<close>, and overflow of an \<open>int64\<close> field is an
  error, as in \<open>strconv.ParseInt\<close>.

  \<^bold>\<open>Not modelled.\<close>
  \<^item> The parsing of URLs by \<open>net/url\<close> beyond control bytes, and the network: these
    are the parameters of \<open>http_env\<close>.
  \<^item> Rounding of \<open>float64\<close> values: a float keeps its literal, and only overflow is
    checked.
  \<^item> The instant a \<open>time.Time\<close> denotes: a time keeps its text.
  \<^item> Go's refusal of escape sequences inside time strings.
  \<^item> Reuse of a slice's capacity beyond its length when a struct field is decoded twice.
  \<^item> \<open>MessageStatus\<close> and \<open>MessageDetails\<close>, which are empty in the source.
  \<^item> The text of a wrapped error's cause. Tests that search \<open>err.Error()\<close> see the
    prefix this package writes.
  \<^item> The CI workflow and the issue template (\<open>src/unnamed/part_004\<close>), the
    contribution guide (the first 112 lines of \<open>src/unnamed/part_000\<close>) and the prose
    of the documentation: they hold no program. The package clauses and imports of
    the Go files are not definitions either.
\<close>

text \<open>The specification's example. Sending a request with \<open>To = ["a@b.com"]\<close>
  and \<open>From = "c@d.com"\<close> posts the JSON text that \<open>json.Marshal\<close> writes for it, with
  the empty \<open>omitempty\<close> fields left out. Against a stub that answers
  \<open>{"status":"success","data":{"message_id":123,"token":"t"}}\<close>, the call returns
  message ID 123 and token \<open>t\<close>.\<close>

theorem SendMessage_spec_example:
  "json_print (enc_SendMessageRequest spec_request) = ''{\"to\":[\"a@b.com\"],\"from\":\"c@d.com\",\"subject\":\"\"}'' \<and>
   SendMessage (test_server 200 spec_reply) (NewClient ''test-api-key'') (Some spec_request) =
     Inr \<lparr>MessageID = 123, SendMessageResponse.Token = ''t''\<rparr>"
  by code_simp

end
